theory Spec2Isabelle
  imports Complex_Main "HOL-Library.AList"
begin

section \<open>Python values, dictionaries and exceptions\<close>

text \<open>
  The simulation keeps its shared state in a Python \<^verbatim>\<open>dict\<close> with string keys whose
  values are floats, booleans, nested dicts and (on the early-return paths of three
  sector models) tuples. A dict is an association list in insertion order. Floats are
  modelled as real numbers: rounding, overflow and infinities are outside the model.
  \<^verbatim>\<open>np.nan\<close> is only ever produced by \<^verbatim>\<open>_store_results\<close>, as the default of a failed
  lookup; it is the constructor \<open>NaN\<close> of the type of ledger cells and is not a state value.

  The source never catches an exception inside \<^verbatim>\<open>run_simulation\<close>: a raise ends the
  run. Every operation that can raise returns \<open>error + 'a\<close>, with \<open>Inl\<close> the exception.
\<close>

datatype error = KeyError | TypeError | ValueError | AttributeError | IndexError
  | ZeroDivisionError | Unmodelled

datatype val = Num real | Bool bool | Dict "(string \<times> val) list" | Tuple "val list"

type_synonym dict = "(string \<times> val) list"

datatype cell = Val val | NaN

definition and_then :: "error + 'a \<Rightarrow> ('a \<Rightarrow> error + 'b) \<Rightarrow> error + 'b" where
  "and_then m f = (case m of Inl e \<Rightarrow> Inl e | Inr x \<Rightarrow> f x)"

text \<open>\<^verbatim>\<open>d.get(k, default)\<close>, \<^verbatim>\<open>d[k]\<close>, \<^verbatim>\<open>k in d\<close>, \<^verbatim>\<open>d[k] = v\<close> and \<^verbatim>\<open>d.update(other)\<close> on a dict.\<close>

definition dict_get :: "dict \<Rightarrow> string \<Rightarrow> val \<Rightarrow> val" where
  "dict_get d k dflt = (case map_of d k of None \<Rightarrow> dflt | Some v \<Rightarrow> v)"

definition dict_item :: "dict \<Rightarrow> string \<Rightarrow> error + val" where
  "dict_item d k = (case map_of d k of None \<Rightarrow> Inl KeyError | Some v \<Rightarrow> Inr v)"

definition dict_contains :: "dict \<Rightarrow> string \<Rightarrow> bool" where
  "dict_contains d k = (map_of d k \<noteq> None)"

definition dict_set :: "dict \<Rightarrow> string \<Rightarrow> val \<Rightarrow> dict" where
  "dict_set d k v = AList.update k v d"

definition dict_update :: "dict \<Rightarrow> dict \<Rightarrow> dict" where
  "dict_update d other = fold (\<lambda>(k, v) acc. dict_set acc k v) other d"

text \<open>The same operations on a value that need not be a dict.\<close>

fun val_get :: "val \<Rightarrow> string \<Rightarrow> val \<Rightarrow> error + val" where
  "val_get (Dict d) k dflt = Inr (dict_get d k dflt)"
| "val_get _ k dflt = Inl AttributeError"

fun val_item :: "val \<Rightarrow> string \<Rightarrow> error + val" where
  "val_item (Dict d) k = dict_item d k"
| "val_item _ k = Inl TypeError"

fun val_item_set :: "val \<Rightarrow> string \<Rightarrow> val \<Rightarrow> error + val" where
  "val_item_set (Dict d) k v = Inr (Dict (dict_set d k v))"
| "val_item_set _ k v = Inl TypeError"

text \<open>
  A value used as a number (in arithmetic, in a comparison with a number or under a
  float format specification): a bool counts as 0 or 1, a dict or a tuple raises TypeError.
\<close>

fun as_num :: "val \<Rightarrow> error + real" where
  "as_num (Num x) = Inr x"
| "as_num (Bool b) = Inr (if b then 1 else 0)"
| "as_num (Dict d) = Inl TypeError"
| "as_num (Tuple vs) = Inl TypeError"

text \<open>
  Float division by a denominator that is not a literal: Python raises
  ZeroDivisionError on a zero denominator.
\<close>

definition py_div :: "real \<Rightarrow> real \<Rightarrow> error + real" where
  "py_div a b = (if b = 0 then Inl ZeroDivisionError else Inr (a / b))"

text \<open>Truth value of a value, as in \<^verbatim>\<open>x if gdp else y\<close>.\<close>

fun truthy :: "val \<Rightarrow> bool" where
  "truthy (Num x) = (x \<noteq> 0)"
| "truthy (Bool b) = b"
| "truthy (Dict d) = (d \<noteq> [])"
| "truthy (Tuple vs) = (vs \<noteq> [])"

text \<open>
  \<^verbatim>\<open>state.get(k1, {}).get(k2, default)\<close>, and the same read used as a number.
\<close>

definition get2 :: "dict \<Rightarrow> string \<Rightarrow> string \<Rightarrow> val \<Rightarrow> error + val" where
  "get2 st k1 k2 dflt = val_get (dict_get st k1 (Dict [])) k2 dflt"

definition num2 :: "dict \<Rightarrow> string \<Rightarrow> string \<Rightarrow> real \<Rightarrow> error + real" where
  "num2 st k1 k2 dflt = and_then (get2 st k1 k2 (Num dflt)) as_num"

definition num1 :: "dict \<Rightarrow> string \<Rightarrow> real \<Rightarrow> error + real" where
  "num1 st k dflt = as_num (dict_get st k (Num dflt))"

text \<open>
  \<^verbatim>\<open>d.update(x)\<close> where \<open>x\<close> is whatever a sector model returned. A dict is merged key by
  key. A tuple is read as a sequence of key/value pairs: an element that is not iterable
  raises TypeError and an element whose length is not 2 raises ValueError. An element
  of length 2 would insert a key that need not be a string; no call of the program passes
  one and the model gives \<open>Unmodelled\<close> there.
\<close>

fun seq_len :: "val \<Rightarrow> nat option" where
  "seq_len (Dict d) = Some (length d)"
| "seq_len (Tuple vs) = Some (length vs)"
| "seq_len (Num x) = None"
| "seq_len (Bool b) = None"

fun py_update :: "dict \<Rightarrow> val \<Rightarrow> error + dict" where
  "py_update d (Dict other) = Inr (dict_update d other)"
| "py_update d (Tuple []) = Inr d"
| "py_update d (Tuple (x # xs)) =
     (case seq_len x of
        None \<Rightarrow> Inl TypeError
      | Some n \<Rightarrow> if n = 2 then Inl Unmodelled else Inl ValueError)"
| "py_update d (Num x) = Inl TypeError"
| "py_update d (Bool b) = Inl TypeError"

text \<open>\<^verbatim>\<open>config.get(key, default)\<close> on a configuration key that may be absent.\<close>

definition cfg_get :: "'a option \<Rightarrow> 'a \<Rightarrow> 'a" where
  "cfg_get v dflt = (case v of None \<Rightarrow> dflt | Some x \<Rightarrow> x)"

definition cfg_item :: "'a option \<Rightarrow> error + 'a" where
  "cfg_item v = (case v of None \<Rightarrow> Inl KeyError | Some x \<Rightarrow> Inr x)"

section \<open>The random sources\<close>

text \<open>
  The source draws from two ambient generators: \<^verbatim>\<open>np.random.normal(0, 0.05)\<close> in
  \<^verbatim>\<open>_update_economic_state\<close>, and \<^verbatim>\<open>random.uniform\<close> in the external sector and in
  development finance, which share the generator of the \<^verbatim>\<open>random\<close> module. A seed fixes
  both streams. \<open>normal_stream r i\<close> is the \<open>i\<close>-th value returned by
  \<^verbatim>\<open>np.random.normal(0, 0.05)\<close> and \<open>random_stream r i\<close> the \<open>i\<close>-th value of
  \<^verbatim>\<open>random.random()\<close>; \<^verbatim>\<open>random.uniform(a, b)\<close> is \<^verbatim>\<open>a + (b - a) * random()\<close>. The number of
  draws made so far is part of the simulation's state.
\<close>

record rng =
  normal_stream :: "nat \<Rightarrow> real"
  random_stream :: "nat \<Rightarrow> real"

definition random_uniform :: "rng \<Rightarrow> nat \<Rightarrow> real \<Rightarrow> real \<Rightarrow> real" where
  "random_uniform r i a b = a + (b - a) * random_stream r i"

section \<open>Sector models\<close>

text \<open>
  Each sector model is a Python object: its attributes are a record, its constructor a
  function from the model's configuration section, and its \<^verbatim>\<open>simulate_...\<close> method a
  function that takes the shared state and the object and returns the method's result
  with the updated object. A configuration key read with \<^verbatim>\<open>config.get(key, default)\<close> is
  an optional field. The \<^verbatim>\<open>year\<close> argument only feeds the log lines, which are not
  modelled. Leading underscores of method names are dropped.
\<close>

subsection \<open>Governance (models/governance.py)\<close>

record weights_config =
  pfm :: "real option"
  nbr :: "real option"
  cb :: "real option"
  ac :: "real option"
  accountability :: "real option"

record governance_config =
  initial_pfm_level :: "real option"
  initial_nbr_level :: "real option"
  initial_cb_level :: "real option"
  initial_ac_level :: "real option"
  initial_accountability_score :: "real option"
  pfm_improvement_rate :: "real option"
  nbr_improvement_rate :: "real option"
  cb_improvement_rate :: "real option"
  ac_improvement_rate :: "real option"
  accountability_improvement_rate :: "real option"
  governance_weights :: "weights_config option"

record GovernanceModel =
  pfm_reform_level :: real
  nbr_capacity_level :: real
  central_bank_capacity :: real
  anti_corruption_effectiveness :: real
  accountability_score :: real
  pfm_improvement_rate :: real
  nbr_improvement_rate :: real
  cb_improvement_rate :: real
  ac_improvement_rate :: real
  accountability_improvement_rate :: real
  weights :: weights_config
  governance_index :: real

definition GovernanceModel_init :: "governance_config \<Rightarrow> GovernanceModel" where
  "GovernanceModel_init config =
     \<lparr> pfm_reform_level = cfg_get (initial_pfm_level config) 0.4,
       nbr_capacity_level = cfg_get (initial_nbr_level config) 0.5,
       central_bank_capacity = cfg_get (initial_cb_level config) 0.6,
       anti_corruption_effectiveness = cfg_get (initial_ac_level config) 0.3,
       accountability_score = cfg_get (initial_accountability_score config) 0.4,
       pfm_improvement_rate = cfg_get (governance_config.pfm_improvement_rate config) 0.015,
       nbr_improvement_rate = cfg_get (governance_config.nbr_improvement_rate config) 0.01,
       cb_improvement_rate = cfg_get (governance_config.cb_improvement_rate config) 0.005,
       ac_improvement_rate = cfg_get (governance_config.ac_improvement_rate config) 0.008,
       accountability_improvement_rate =
         cfg_get (governance_config.accountability_improvement_rate config) 0.012,
       weights = cfg_get (governance_weights config)
         \<lparr> pfm = Some 0.25, nbr = Some 0.20, cb = Some 0.15, ac = Some 0.20,
           accountability = Some 0.20 \<rparr>,
       governance_index = 0 \<rparr>"

definition update_governance_areas :: "int \<Rightarrow> dict \<Rightarrow> GovernanceModel \<Rightarrow> GovernanceModel" where
  "update_governance_areas year state self =
     self\<lparr> pfm_reform_level := min 0.95 (pfm_reform_level self + pfm_improvement_rate self),
           nbr_capacity_level := min 0.95 (nbr_capacity_level self + nbr_improvement_rate self),
           central_bank_capacity := min 0.95 (central_bank_capacity self + cb_improvement_rate self),
           anti_corruption_effectiveness :=
             min 0.95 (anti_corruption_effectiveness self + ac_improvement_rate self),
           accountability_score :=
             min 0.95 (accountability_score self + accountability_improvement_rate self) \<rparr>"

definition calculate_governance_index ::
  "int \<Rightarrow> GovernanceModel \<Rightarrow> error + (real \<times> GovernanceModel)" where
  "calculate_governance_index year self =
     and_then (cfg_item (pfm (weights self))) (\<lambda>w_pfm.
     and_then (cfg_item (nbr (weights self))) (\<lambda>w_nbr.
     and_then (cfg_item (cb (weights self))) (\<lambda>w_cb.
     and_then (cfg_item (ac (weights self))) (\<lambda>w_ac.
     and_then (cfg_item (accountability (weights self))) (\<lambda>w_acc.
     let index = pfm_reform_level self * w_pfm + nbr_capacity_level self * w_nbr
                 + central_bank_capacity self * w_cb
                 + anti_corruption_effectiveness self * w_ac
                 + accountability_score self * w_acc;
         self = self\<lparr>governance_index := index * 100\<rparr>
     in Inr (governance_index self, self))))))"

definition simulate_governance_evolution ::
  "int \<Rightarrow> dict \<Rightarrow> GovernanceModel \<Rightarrow> error + (dict \<times> GovernanceModel)" where
  "simulate_governance_evolution year state self0 =
     (let self = update_governance_areas year state self0 in
      and_then (calculate_governance_index year self) (\<lambda>(index, self).
      Inr ([(''governance_index'', Num index),
            (''pfm_reform_level'', Num (pfm_reform_level self)),
            (''nbr_modernization_level'', Num (nbr_capacity_level self)),
            (''central_bank_capacity'', Num (central_bank_capacity self)),
            (''anti_corruption_effectiveness'', Num (anti_corruption_effectiveness self)),
            (''accountability_score'', Num (accountability_score self))], self)))"

subsection \<open>Supervision (models/supervision.py)\<close>

record supervision_config =
  initial_supervision_effectiveness :: "real option"
  cb_capacity_weight :: "real option"
  financial_stability_weight :: "real option"
  regulatory_reform_impact :: "real option"

record SupervisionModel =
  base_effectiveness :: real
  cb_capacity_weight :: real
  financial_stability_weight :: real
  regulatory_reform_impact :: real
  current_effectiveness :: real

definition SupervisionModel_init :: "supervision_config \<Rightarrow> SupervisionModel" where
  "SupervisionModel_init config =
     \<lparr> base_effectiveness = cfg_get (initial_supervision_effectiveness config) 0.6,
       cb_capacity_weight = cfg_get (supervision_config.cb_capacity_weight config) 0.5,
       financial_stability_weight =
         cfg_get (supervision_config.financial_stability_weight config) 0.3,
       regulatory_reform_impact = cfg_get (supervision_config.regulatory_reform_impact config) 0.01,
       current_effectiveness = cfg_get (initial_supervision_effectiveness config) 0.6 \<rparr>"

definition update_effectiveness ::
  "int \<Rightarrow> dict \<Rightarrow> SupervisionModel \<Rightarrow> error + SupervisionModel" where
  "update_effectiveness year state self =
     and_then (num2 state ''governance_state'' ''central_bank_capacity'' 0.6) (\<lambda>cb_capacity.
     and_then (num1 state ''npl_ratio'' 0.11) (\<lambda>npl_ratio.
     let stability_proxy = max 0 (1 - npl_ratio / 0.25);
         target_effectiveness = cb_capacity_weight self * cb_capacity
                                + financial_stability_weight self * stability_proxy;
         target_effectiveness = target_effectiveness + regulatory_reform_impact self;
         self = self\<lparr>current_effectiveness :=
                  current_effectiveness self * 0.9 + target_effectiveness * 0.1\<rparr>;
         self = self\<lparr>current_effectiveness := max 0.2 (min 0.95 (current_effectiveness self))\<rparr>
     in Inr self))"

definition simulate_supervision_effectiveness ::
  "int \<Rightarrow> dict \<Rightarrow> SupervisionModel \<Rightarrow> error + (real \<times> SupervisionModel)" where
  "simulate_supervision_effectiveness year state self =
     and_then (update_effectiveness year state self) (\<lambda>self.
     Inr (current_effectiveness self, self))"

subsection \<open>Financial sector (models/financial_sector.py)\<close>

record financial_sector_config =
  initial_npl_ratio :: "real option"
  initial_car :: "real option"
  required_car :: "real option"
  npl_gdp_sensitivity :: "real option"
  npl_supervision_sensitivity :: "real option"

record FinancialSectorModel =
  npl_ratio :: real
  capital_adequacy_ratio :: real
  required_car :: real
  npl_gdp_sensitivity :: real
  npl_supervision_sensitivity :: real

definition FinancialSectorModel_init :: "financial_sector_config \<Rightarrow> FinancialSectorModel" where
  "FinancialSectorModel_init config =
     \<lparr> npl_ratio = cfg_get (initial_npl_ratio config) 0.11,
       capital_adequacy_ratio = cfg_get (initial_car config) 0.12,
       required_car = cfg_get (financial_sector_config.required_car config) 0.10,
       npl_gdp_sensitivity = cfg_get (financial_sector_config.npl_gdp_sensitivity config) (- 0.5),
       npl_supervision_sensitivity =
         cfg_get (financial_sector_config.npl_supervision_sensitivity config) (- 0.2) \<rparr>"

definition update_npls ::
  "int \<Rightarrow> dict \<Rightarrow> FinancialSectorModel \<Rightarrow> error + FinancialSectorModel" where
  "update_npls year state self =
     and_then (num2 state ''economic_state'' ''gdp_growth'' 0.06) (\<lambda>gdp_growth.
     and_then (num1 state ''supervision_effectiveness'' 0.7) (\<lambda>supervision_effectiveness.
     let delta_npl_gdp = npl_gdp_sensitivity self * (gdp_growth - 0.04);
         delta_npl_supervision =
           npl_supervision_sensitivity self * (supervision_effectiveness - 0.6);
         self = self\<lparr>npl_ratio := npl_ratio self + (delta_npl_gdp + delta_npl_supervision)\<rparr>;
         self = self\<lparr>npl_ratio := max 0.01 (npl_ratio self)\<rparr>
     in Inr self))"

definition update_capital_adequacy ::
  "int \<Rightarrow> dict \<Rightarrow> FinancialSectorModel \<Rightarrow> FinancialSectorModel" where
  "update_capital_adequacy year state self0 =
     (let self = (if npl_ratio self0 > 0.15
                  then self0\<lparr>capital_adequacy_ratio := capital_adequacy_ratio self0 * 0.98\<rparr>
                  else self0\<lparr>capital_adequacy_ratio := capital_adequacy_ratio self0 * 1.01\<rparr>)
      in self\<lparr>capital_adequacy_ratio := max 0.05 (min 0.25 (capital_adequacy_ratio self))\<rparr>)"

definition calculate_stability_index :: "int \<Rightarrow> FinancialSectorModel \<Rightarrow> real" where
  "calculate_stability_index year self =
     (let npl_score = max 0 (1 - npl_ratio self / 0.20);
          car_buffer = capital_adequacy_ratio self - required_car self;
          car_score = max 0 (min 1 (car_buffer / 0.05))
      in 0.6 * npl_score + 0.4 * car_score)"

definition simulate_financial_system ::
  "int \<Rightarrow> dict \<Rightarrow> FinancialSectorModel \<Rightarrow> error + (dict \<times> FinancialSectorModel)" where
  "simulate_financial_system year state self =
     and_then (update_npls year state self) (\<lambda>self.
     let self = update_capital_adequacy year state self;
         stability_index = calculate_stability_index year self
     in Inr ([(''npl_ratio'', Num (npl_ratio self)),
              (''capital_adequacy_ratio'', Num (capital_adequacy_ratio self)),
              (''stability_index'', Num stability_index)], self))"

subsection \<open>Monetary policy (models/monetary_policy.py)\<close>

record monetary_policy_config =
  target_inflation_band :: "real list option"
  initial_policy_rate :: "real option"
  inflation_gap_weight :: "real option"
  policy_transmission_lag :: "real option"

record MonetaryPolicyModel =
  target_inflation :: "real list"
  policy_rate :: real
  inflation_gap_weight :: real
  policy_transmission_lag :: real

definition MonetaryPolicyModel_init :: "monetary_policy_config \<Rightarrow> MonetaryPolicyModel" where
  "MonetaryPolicyModel_init config =
     \<lparr> target_inflation = cfg_get (target_inflation_band config) [0.04, 0.06],
       policy_rate = cfg_get (initial_policy_rate config) 0.06,
       inflation_gap_weight = cfg_get (monetary_policy_config.inflation_gap_weight config) 1.5,
       policy_transmission_lag =
         cfg_get (monetary_policy_config.policy_transmission_lag config) 0.1 \<rparr>"

text \<open>\<^verbatim>\<open>xs[i]\<close> on a list, for the two non-negative indices the source uses.\<close>

definition list_item :: "'a list \<Rightarrow> nat \<Rightarrow> error + 'a" where
  "list_item xs i = (if i < length xs then Inr (xs ! i) else Inl IndexError)"

definition adjust_policy_rate ::
  "int \<Rightarrow> dict \<Rightarrow> MonetaryPolicyModel \<Rightarrow> error + MonetaryPolicyModel" where
  "adjust_policy_rate year state self =
     (let current_inflation_v = dict_get state ''inflation'' (Num 0.07) in
      and_then (list_item (target_inflation self) 0) (\<lambda>lo.
      and_then (list_item (target_inflation self) 1) (\<lambda>hi.
      and_then (as_num current_inflation_v) (\<lambda>current_inflation.
      let inflation_target_midpoint = (lo + hi) / 2;
          inflation_gap = current_inflation - inflation_target_midpoint;
          rate_adjustment = inflation_gap_weight self * inflation_gap;
          self = self\<lparr>policy_rate := policy_rate self + rate_adjustment\<rparr>;
          self = self\<lparr>policy_rate := max 0.01 (min 0.15 (policy_rate self))\<rparr>
      in Inr self))))"

definition simulate_inflation_impact ::
  "int \<Rightarrow> dict \<Rightarrow> MonetaryPolicyModel \<Rightarrow> error + real" where
  "simulate_inflation_impact year state self =
     and_then (num1 state ''inflation'' 0.07) (\<lambda>current_inflation.
     let projected_inflation =
           current_inflation - policy_transmission_lag self * (policy_rate self - 0.06);
         projected_inflation = 0.8 * projected_inflation + 0.2 * current_inflation;
         projected_inflation = max 0.00 (min 0.20 projected_inflation)
     in Inr projected_inflation)"

definition simulate_monetary_conditions ::
  "int \<Rightarrow> dict \<Rightarrow> MonetaryPolicyModel \<Rightarrow> error + ((real \<times> real) \<times> MonetaryPolicyModel)" where
  "simulate_monetary_conditions year state self =
     and_then (adjust_policy_rate year state self) (\<lambda>self.
     and_then (simulate_inflation_impact year state self) (\<lambda>projected_inflation.
     Inr ((policy_rate self, projected_inflation), self)))"

subsection \<open>External sector (models/external_sector.py)\<close>

record external_sector_config =
  initial_export_gdp :: "real option"
  initial_import_gdp :: "real option"
  initial_remittance_gdp :: "real option"
  initial_fdi_gdp :: "real option"
  initial_reserves_months_import :: "real option"
  export_global_growth_sens :: "real option"
  import_domestic_growth_sens :: "real option"
  remittance_global_growth_sens :: "real option"
  fdi_governance_sens :: "real option"
  global_growth_factor :: "real option"

text \<open>The attribute \<^verbatim>\<open>imports\<close> is the field \<open>imports_flow\<close>: \<open>imports\<close> is reserved in Isabelle.\<close>

record ExternalSectorModel =
  initial_export_gdp :: real
  initial_import_gdp :: real
  initial_remittance_gdp :: real
  initial_fdi_gdp :: real
  initial_reserves_months_import :: real
  export_global_growth_sensitivity :: real
  import_domestic_growth_sensitivity :: real
  remittance_global_growth_sensitivity :: real
  fdi_governance_sensitivity :: real
  global_growth_factor :: real
  exports :: real
  imports_flow :: real
  remittances :: real
  fdi :: real
  current_account_balance :: real
  financial_account_balance :: real
  overall_bop :: real
  fx_reserves :: real
  initialized :: bool

definition ExternalSectorModel_init :: "external_sector_config \<Rightarrow> ExternalSectorModel" where
  "ExternalSectorModel_init config =
     \<lparr> initial_export_gdp = cfg_get (external_sector_config.initial_export_gdp config) 0.15,
       initial_import_gdp = cfg_get (external_sector_config.initial_import_gdp config) 0.22,
       initial_remittance_gdp =
         cfg_get (external_sector_config.initial_remittance_gdp config) 0.05,
       initial_fdi_gdp = cfg_get (external_sector_config.initial_fdi_gdp config) 0.01,
       initial_reserves_months_import =
         cfg_get (external_sector_config.initial_reserves_months_import config) 5.0,
       export_global_growth_sensitivity = cfg_get (export_global_growth_sens config) 1.5,
       import_domestic_growth_sensitivity = cfg_get (import_domestic_growth_sens config) 1.2,
       remittance_global_growth_sensitivity = cfg_get (remittance_global_growth_sens config) 0.8,
       fdi_governance_sensitivity = cfg_get (fdi_governance_sens config) 0.05,
       global_growth_factor = cfg_get (external_sector_config.global_growth_factor config) 1.02,
       exports = 0, imports_flow = 0, remittances = 0, fdi = 0,
       current_account_balance = 0, financial_account_balance = 0, overall_bop = 0,
       fx_reserves = 0, initialized = False \<rparr>"

definition ExternalSector_initialize_state ::
  "real \<Rightarrow> ExternalSectorModel \<Rightarrow> ExternalSectorModel" where
  "ExternalSector_initialize_state initial_gdp self0 =
     (let self = self0\<lparr> exports := initial_export_gdp self0 * initial_gdp,
                         imports_flow := initial_import_gdp self0 * initial_gdp,
                         remittances := initial_remittance_gdp self0 * initial_gdp,
                         fdi := initial_fdi_gdp self0 * initial_gdp \<rparr>
      in self\<lparr> fx_reserves := imports_flow self * (initial_reserves_months_import self / 12.0),
               initialized := True \<rparr>)"

text \<open>
  \<open>project_flows\<close> makes the model's one draw, \<^verbatim>\<open>random.uniform(0.98, 1.05)\<close>, at position
  \<open>i\<close> of the stream. The value read into \<^verbatim>\<open>gdp\<close> is never used.
\<close>

definition project_flows ::
  "rng \<Rightarrow> nat \<Rightarrow> int \<Rightarrow> dict \<Rightarrow> ExternalSectorModel \<Rightarrow> error + ExternalSectorModel" where
  "project_flows r i year state self =
     and_then (get2 state ''economic_state'' ''gdp'' (Num 1)) (\<lambda>gdp.
     and_then (get2 state ''economic_state'' ''gdp_growth'' (Num 0.05)) (\<lambda>gdp_growth_v.
     and_then (num2 state ''governance_state'' ''governance_index'' 50) (\<lambda>governance_index.
     let governance_score = governance_index / 100;
         global_factor = random_uniform r i 0.98 1.05
     in
     and_then (as_num gdp_growth_v) (\<lambda>gdp_growth.
     let self = self\<lparr>exports := exports self *
                   (1 + gdp_growth * 0.5
                      + (global_factor - 1) * export_global_growth_sensitivity self)\<rparr>;
         self = self\<lparr>imports_flow := imports_flow self *
                   (1 + gdp_growth * import_domestic_growth_sensitivity self)\<rparr>;
         self = self\<lparr>remittances := remittances self *
                   (1 + (global_factor - 1) * remittance_global_growth_sensitivity self)\<rparr>;
         self = self\<lparr>fdi := fdi self *
                   (1 + gdp_growth + fdi_governance_sensitivity self * (governance_score - 0.5))\<rparr>;
         self = self\<lparr>exports := max 0 (exports self)\<rparr>;
         self = self\<lparr>imports_flow := max 0 (imports_flow self)\<rparr>;
         self = self\<lparr>remittances := max 0 (remittances self)\<rparr>;
         self = self\<lparr>fdi := max 0 (fdi self)\<rparr>
     in Inr self))))"

definition calculate_bop :: "int \<Rightarrow> dict \<Rightarrow> ExternalSectorModel \<Rightarrow> ExternalSectorModel" where
  "calculate_bop year state self0 =
     (let trade_balance = exports self0 - imports_flow self0;
          self = self0\<lparr>current_account_balance := trade_balance + remittances self0\<rparr>;
          self = self\<lparr>financial_account_balance := fdi self\<rparr>
      in self\<lparr>overall_bop := current_account_balance self + financial_account_balance self\<rparr>)"

definition update_reserves ::
  "int \<Rightarrow> ExternalSectorModel \<Rightarrow> error + (real \<times> ExternalSectorModel)" where
  "update_reserves year self0 =
     (let self = self0\<lparr>fx_reserves := fx_reserves self0 + overall_bop self0\<rparr>;
          self = self\<lparr>fx_reserves := max 0 (fx_reserves self)\<rparr>
      in and_then
           (if imports_flow self > 0 then py_div (fx_reserves self) (imports_flow self / 12.0)
            else Inr 0)
           (\<lambda>months_of_imports. Inr (months_of_imports, self)))"

text \<open>
  The result is the method's return value: the dict of indicators, or the tuple
  \<^verbatim>\<open>({}, 0)\<close> when the model is not initialised and GDP is not positive. The last
  component is the position in the stream of \<^verbatim>\<open>random\<close> after the call.
\<close>

definition simulate_external_sector ::
  "rng \<Rightarrow> nat \<Rightarrow> int \<Rightarrow> dict \<Rightarrow> ExternalSectorModel
     \<Rightarrow> error + (val \<times> ExternalSectorModel \<times> nat)" where
  "simulate_external_sector r i year state self0 =
     and_then
       (if \<not> initialized self0 then
          and_then (num2 state ''economic_state'' ''gdp'' 0) (\<lambda>initial_gdp.
          if initial_gdp > 0 then Inr (Some (ExternalSector_initialize_state initial_gdp self0))
          else Inr None)
        else Inr (Some self0))
       (\<lambda>started. case started of
          None \<Rightarrow> Inr (Tuple [Dict [], Num 0], self0, i)
        | Some self \<Rightarrow>
            and_then (project_flows r i year state self) (\<lambda>self.
            let self = calculate_bop year state self in
            and_then (update_reserves year self) (\<lambda>(months_of_imports, self).
            Inr (Dict [(''exports'', Num (exports self)),
                          (''imports'', Num (imports_flow self)),
                          (''remittances'', Num (remittances self)),
                          (''fdi'', Num (fdi self)),
                          (''current_account_balance'', Num (current_account_balance self)),
                          (''overall_bop'', Num (overall_bop self)),
                          (''fx_reserves'', Num (fx_reserves self)),
                          (''reserves_months_imports'', Num months_of_imports)],
                 self, Suc i))))"

subsection \<open>Development finance (models/development_finance.py)\<close>

record development_finance_config =
  initial_grant_aid_gdp :: "real option"
  initial_dfi_net_lending_gdp :: "real option"
  grant_global_factor_sens :: "real option"
  dfi_lending_governance_sens :: "real option"
  absorption_capacity_sens :: "real option"

record DevelopmentFinanceModel =
  initial_grant_aid_gdp :: real
  initial_dfi_net_lending_gdp :: real
  grant_global_factor_sensitivity :: real
  dfi_lending_governance_sensitivity :: real
  absorption_capacity_sensitivity :: real
  grant_aid :: real
  dfi_net_lending :: real
  initialized :: bool

definition DevelopmentFinanceModel_init ::
  "development_finance_config \<Rightarrow> DevelopmentFinanceModel" where
  "DevelopmentFinanceModel_init config =
     \<lparr> initial_grant_aid_gdp =
         cfg_get (development_finance_config.initial_grant_aid_gdp config) 0.008,
       initial_dfi_net_lending_gdp =
         cfg_get (development_finance_config.initial_dfi_net_lending_gdp config) 0.015,
       grant_global_factor_sensitivity = cfg_get (grant_global_factor_sens config) 0.5,
       dfi_lending_governance_sensitivity = cfg_get (dfi_lending_governance_sens config) 0.3,
       absorption_capacity_sensitivity = cfg_get (absorption_capacity_sens config) 0.4,
       grant_aid = 0, dfi_net_lending = 0, initialized = False \<rparr>"

definition DevelopmentFinance_initialize_state ::
  "real \<Rightarrow> DevelopmentFinanceModel \<Rightarrow> DevelopmentFinanceModel" where
  "DevelopmentFinance_initialize_state initial_gdp self =
     self\<lparr> grant_aid := initial_grant_aid_gdp self * initial_gdp,
           dfi_net_lending := initial_dfi_net_lending_gdp self * initial_gdp,
           initialized := True \<rparr>"

definition simulate_flows ::
  "rng \<Rightarrow> nat \<Rightarrow> int \<Rightarrow> dict \<Rightarrow> DevelopmentFinanceModel \<Rightarrow> error + DevelopmentFinanceModel" where
  "simulate_flows r i year state self =
     and_then (get2 state ''economic_state'' ''gdp'' (Num 1)) (\<lambda>gdp.
     and_then (get2 state ''economic_state'' ''gdp_growth'' (Num 0.05)) (\<lambda>gdp_growth_v.
     and_then (num2 state ''governance_state'' ''governance_index'' 50) (\<lambda>governance_index.
     and_then (get2 state ''governance_state'' ''pfm_reform_level'' (Num 0.4)) (\<lambda>pfm_level_v.
     let governance_score = governance_index / 100;
         global_aid_factor = random_uniform r i 0.90 1.10
     in
     and_then (as_num gdp_growth_v) (\<lambda>gdp_growth.
     and_then (as_num pfm_level_v) (\<lambda>pfm_level.
     let grant_growth_factor = 1 + gdp_growth * 0.2;
         grant_growth_factor = grant_growth_factor *
           (1 + (global_aid_factor - 1) * grant_global_factor_sensitivity self);
         grant_growth_factor = grant_growth_factor *
           (1 + (pfm_level - 0.5) * absorption_capacity_sensitivity self);
         self = self\<lparr>grant_aid := grant_aid self * grant_growth_factor\<rparr>;
         self = self\<lparr>grant_aid := max 0 (grant_aid self)\<rparr>;
         dfi_growth_factor = 1 + gdp_growth * 0.5;
         dfi_growth_factor = dfi_growth_factor *
           (1 + (governance_score - 0.5) * dfi_lending_governance_sensitivity self);
         self = self\<lparr>dfi_net_lending := dfi_net_lending self * dfi_growth_factor\<rparr>;
         self = self\<lparr>dfi_net_lending := max 0 (dfi_net_lending self)\<rparr>
     in Inr self))))))"

definition simulate_development_finance ::
  "rng \<Rightarrow> nat \<Rightarrow> int \<Rightarrow> dict \<Rightarrow> DevelopmentFinanceModel
     \<Rightarrow> error + (val \<times> DevelopmentFinanceModel \<times> nat)" where
  "simulate_development_finance r i year state self0 =
     and_then
       (if \<not> initialized self0 then
          and_then (num2 state ''economic_state'' ''gdp'' 0) (\<lambda>initial_gdp.
          if initial_gdp > 0
          then Inr (Some (DevelopmentFinance_initialize_state initial_gdp self0))
          else Inr None)
        else Inr (Some self0))
       (\<lambda>started. case started of
          None \<Rightarrow> Inr (Tuple [Dict [], Num 0, Num 0], self0, i)
        | Some self \<Rightarrow>
            and_then (simulate_flows r i year state self) (\<lambda>self.
            Inr (Dict [(''grant_aid'', Num (grant_aid self)),
                       (''dfi_net_lending'', Num (dfi_net_lending self))],
                 self, Suc i)))"

subsection \<open>Revenue (models/revenue.py)\<close>

text \<open>
  The constructor also stores the sections \<^verbatim>\<open>economic_structure\<close> and
  \<^verbatim>\<open>enforcement_caps\<close>, which no method reads; they are left out.
\<close>

record tax_structure_config =
  vat_rate :: "real option"
  avg_income_tax_rate :: "real option"
  avg_corp_tax_rate :: "real option"
  avg_trade_tax :: "real option"

record revenue_config =
  tax_structure :: "tax_structure_config option"
  initial_efficiency :: "real option option"
  initial_compliance :: "real option option"
  initial_share :: "real option option"

record RevenueModel =
  tax_structure :: tax_structure_config
  current_compliance_rate :: real
  current_admin_efficiency :: real
  formal_sector_share :: real

text \<open>
  \<open>initial_efficiency\<close>, \<open>initial_compliance\<close> and \<open>initial_share\<close> are the keys of the
  sub-sections \<^verbatim>\<open>admin_capacity\<close>, \<^verbatim>\<open>compliance_params\<close> and \<^verbatim>\<open>informality_metrics\<close>:
  the outer option is the sub-section, the inner one the key.
\<close>

definition RevenueModel_init :: "revenue_config \<Rightarrow> RevenueModel" where
  "RevenueModel_init config =
     \<lparr> tax_structure = cfg_get (revenue_config.tax_structure config)
         \<lparr> vat_rate = None, avg_income_tax_rate = None, avg_corp_tax_rate = None,
           avg_trade_tax = None \<rparr>,
       current_compliance_rate = cfg_get (cfg_get (initial_compliance config) None) 0.6,
       current_admin_efficiency = cfg_get (cfg_get (initial_efficiency config) None) 0.7,
       formal_sector_share = 1.0 - cfg_get (cfg_get (initial_share config) None) 0.3 \<rparr>"

definition calculate_tax_potential :: "int \<Rightarrow> val \<Rightarrow> RevenueModel \<Rightarrow> error + real" where
  "calculate_tax_potential year economic_state self =
     and_then (val_get economic_state ''gdp'' (Num 0)) (\<lambda>gdp_v.
     and_then (as_num gdp_v) (\<lambda>gdp.
     let potential_vat = gdp * 0.4 * cfg_get (vat_rate (tax_structure self)) 0.15;
         potential_income_tax =
           gdp * 0.3 * cfg_get (avg_income_tax_rate (tax_structure self)) 0.10;
         potential_corp_tax = gdp * 0.2 * cfg_get (avg_corp_tax_rate (tax_structure self)) 0.25
     in
     and_then (val_get economic_state ''imports'' (Num (gdp * 0.2))) (\<lambda>imports_v.
     and_then (as_num imports_v) (\<lambda>imports_base.
     let potential_trade_tax = imports_base * cfg_get (avg_trade_tax (tax_structure self)) 0.05
     in Inr (potential_vat + potential_income_tax + potential_corp_tax
             + potential_trade_tax)))))"

definition apply_structural_constraints :: "int \<Rightarrow> real \<Rightarrow> val \<Rightarrow> RevenueModel \<Rightarrow> real" where
  "apply_structural_constraints year potential_revenue economic_state self =
     potential_revenue * formal_sector_share self"

definition apply_administrative_capacity :: "int \<Rightarrow> real \<Rightarrow> RevenueModel \<Rightarrow> real" where
  "apply_administrative_capacity year constrained_revenue self =
     (let admin_factor = current_admin_efficiency self in constrained_revenue * admin_factor)"

definition apply_compliance_dynamics :: "int \<Rightarrow> real \<Rightarrow> RevenueModel \<Rightarrow> real" where
  "apply_compliance_dynamics year collected_revenue self =
     (let compliance_factor = current_compliance_rate self
      in collected_revenue * compliance_factor)"

definition update_internal_state ::
  "int \<Rightarrow> val \<Rightarrow> val \<Rightarrow> RevenueModel \<Rightarrow> error + RevenueModel" where
  "update_internal_state year economic_state governance_state self0 =
     and_then (val_get governance_state ''nbr_modernization_level'' (Num 0)) (\<lambda>nbr_v.
     and_then (as_num nbr_v) (\<lambda>nbr_level.
     let self = (if nbr_level > current_admin_efficiency self0
                 then self0\<lparr>current_admin_efficiency :=
                             min 1.0 (current_admin_efficiency self0 * 1.01)\<rparr>
                 else self0)
     in
     and_then (val_get economic_state ''gdp_growth'' (Num 0)) (\<lambda>growth_v.
     and_then (as_num growth_v) (\<lambda>growth.
     Inr (if growth > 0.05
          then self\<lparr>current_compliance_rate := min 0.95 (current_compliance_rate self * 1.005)\<rparr>
          else self)))))"

definition project_revenue ::
  "int \<Rightarrow> val \<Rightarrow> val \<Rightarrow> RevenueModel \<Rightarrow> error + (dict \<times> RevenueModel)" where
  "project_revenue year economic_state governance_state self =
     and_then (calculate_tax_potential year economic_state self) (\<lambda>potential.
     let structurally_adjusted =
           apply_structural_constraints year potential economic_state self;
         admin_adjusted = apply_administrative_capacity year structurally_adjusted self;
         final_revenue = apply_compliance_dynamics year admin_adjusted self
     in
     and_then (update_internal_state year economic_state governance_state self) (\<lambda>self.
     Inr ([(''final_revenue'', Num final_revenue)], self)))"

subsection \<open>Fiscal federalism (models/fiscal_federalism.py)\<close>

record fiscal_federalism_config =
  transfer_ratio_central_revenue :: "real option"
  initial_subnational_revenue_gdp :: "real option"
  subnational_revenue_capacity_growth :: "real option"
  subnational_spending_efficiency :: "real option"
  subnational_debt_limit_gdp :: "real option"

record FiscalFederalismModel =
  transfer_ratio_central_revenue :: real
  initial_subnational_revenue_gdp :: real
  subnational_revenue_capacity_growth :: real
  subnational_spending_efficiency :: real
  subnational_debt_limit_gdp :: real
  subnational_revenue_capacity_index :: real
  total_transfers :: real
  total_subnational_own_revenue :: real
  total_subnational_spending :: real
  aggregate_subnational_debt :: real
  initialized :: bool

definition FiscalFederalismModel_init ::
  "fiscal_federalism_config \<Rightarrow> FiscalFederalismModel" where
  "FiscalFederalismModel_init config =
     \<lparr> transfer_ratio_central_revenue =
         cfg_get (fiscal_federalism_config.transfer_ratio_central_revenue config) 0.10,
       initial_subnational_revenue_gdp =
         cfg_get (fiscal_federalism_config.initial_subnational_revenue_gdp config) 0.005,
       subnational_revenue_capacity_growth =
         cfg_get (fiscal_federalism_config.subnational_revenue_capacity_growth config) 0.01,
       subnational_spending_efficiency =
         cfg_get (fiscal_federalism_config.subnational_spending_efficiency config) 0.8,
       subnational_debt_limit_gdp =
         cfg_get (fiscal_federalism_config.subnational_debt_limit_gdp config) 0.02,
       subnational_revenue_capacity_index = 1.0,
       total_transfers = 0, total_subnational_own_revenue = 0,
       total_subnational_spending = 0, aggregate_subnational_debt = 0,
       initialized = False \<rparr>"

definition FiscalFederalism_initialize_state ::
  "real \<Rightarrow> FiscalFederalismModel \<Rightarrow> FiscalFederalismModel" where
  "FiscalFederalism_initialize_state initial_gdp self =
     self\<lparr> total_subnational_own_revenue := initial_subnational_revenue_gdp self * initial_gdp,
           aggregate_subnational_debt := (subnational_debt_limit_gdp self * initial_gdp) * 0.5,
           initialized := True \<rparr>"

definition calculate_central_transfers ::
  "int \<Rightarrow> dict \<Rightarrow> FiscalFederalismModel \<Rightarrow> error + FiscalFederalismModel" where
  "calculate_central_transfers year state self =
     and_then (num2 state ''revenue_state'' ''final_revenue'' 0) (\<lambda>central_revenue.
     Inr (self\<lparr>total_transfers := central_revenue * transfer_ratio_central_revenue self\<rparr>))"

definition simulate_subnational_revenue ::
  "int \<Rightarrow> dict \<Rightarrow> FiscalFederalismModel \<Rightarrow> error + FiscalFederalismModel" where
  "simulate_subnational_revenue year state self0 =
     (let self = self0\<lparr>subnational_revenue_capacity_index :=
                   subnational_revenue_capacity_index self0
                   * (1 + subnational_revenue_capacity_growth self0)\<rparr>
      in
      and_then (get2 state ''economic_state'' ''gdp'' (Num 1)) (\<lambda>gdp_v.
      and_then
        (if \<not> FiscalFederalismModel.initialized self then
           and_then (as_num gdp_v) (\<lambda>gdp.
           Inr (gdp * initial_subnational_revenue_gdp self))
         else
           and_then (get2 state ''economic_state'' ''gdp_growth'' (Num 0.05)) (\<lambda>gdp_growth_v.
           let inflation_v = dict_get state ''inflation'' (Num 0.06) in
           and_then (as_num gdp_growth_v) (\<lambda>gdp_growth.
           and_then (as_num inflation_v) (\<lambda>inflation.
           let nominal_gdp_growth = (1 + gdp_growth) * (1 + inflation) - 1
           in Inr (total_subnational_own_revenue self
                   * (1 + nominal_gdp_growth + subnational_revenue_capacity_growth self))))))
        (\<lambda>base_rev.
           let self = self\<lparr>total_subnational_own_revenue := base_rev\<rparr>
           in Inr (self\<lparr>total_subnational_own_revenue :=
                          max 0 (total_subnational_own_revenue self)\<rparr>))))"

definition simulate_subnational_spending ::
  "int \<Rightarrow> dict \<Rightarrow> FiscalFederalismModel \<Rightarrow> FiscalFederalismModel" where
  "simulate_subnational_spending year state self0 =
     (let available_resources = total_transfers self0 + total_subnational_own_revenue self0;
          potential_spending = available_resources * 0.95;
          self = self0\<lparr>total_subnational_spending :=
                   potential_spending * subnational_spending_efficiency self0\<rparr>
      in self\<lparr>total_subnational_spending := max 0 (total_subnational_spending self)\<rparr>)"

definition update_subnational_debt ::
  "int \<Rightarrow> dict \<Rightarrow> FiscalFederalismModel \<Rightarrow> error + FiscalFederalismModel" where
  "update_subnational_debt year state self0 =
     (let subnational_deficit = total_subnational_spending self0
            - (total_transfers self0 + total_subnational_own_revenue self0);
          new_borrowing = max 0 subnational_deficit
      in
      and_then (num2 state ''economic_state'' ''gdp'' 1) (\<lambda>gdp.
      let debt_limit_amount = subnational_debt_limit_gdp self0 * gdp;
          allowed_borrowing = max 0 (debt_limit_amount - aggregate_subnational_debt self0);
          actual_borrowing = min new_borrowing allowed_borrowing;
          self = self0\<lparr>aggregate_subnational_debt :=
                   aggregate_subnational_debt self0 + actual_borrowing\<rparr>
      in Inr (self\<lparr>aggregate_subnational_debt := max 0 (aggregate_subnational_debt self)\<rparr>)))"

definition simulate_fiscal_federalism ::
  "int \<Rightarrow> dict \<Rightarrow> FiscalFederalismModel \<Rightarrow> error + (val \<times> FiscalFederalismModel)" where
  "simulate_fiscal_federalism year state self0 =
     and_then
       (if \<not> FiscalFederalismModel.initialized self0 then
          and_then (num2 state ''economic_state'' ''gdp'' 0) (\<lambda>initial_gdp.
          if initial_gdp > 0
          then Inr (Some (FiscalFederalism_initialize_state initial_gdp self0))
          else Inr None)
        else Inr (Some self0))
       (\<lambda>started. case started of
          None \<Rightarrow> Inr (Tuple [Dict [], Num 0], self0)
        | Some self \<Rightarrow>
            and_then (calculate_central_transfers year state self) (\<lambda>self.
            and_then (simulate_subnational_revenue year state self) (\<lambda>self.
            let self = simulate_subnational_spending year state self in
            and_then (update_subnational_debt year state self) (\<lambda>self.
            Inr (Dict [(''total_transfers'', Num (total_transfers self)),
                       (''total_subnational_own_revenue'',
                          Num (total_subnational_own_revenue self)),
                       (''total_subnational_spending'', Num (total_subnational_spending self)),
                       (''aggregate_subnational_debt'', Num (aggregate_subnational_debt self))],
                 self)))))"

subsection \<open>Expenditure (models/expenditure.py)\<close>

text \<open>
  \<^verbatim>\<open>ExpenditureModel\<close> keeps no attribute besides its configuration, which no method
  reads. The four arguments are first used by the log line, which formats each as a float.
\<close>

definition simulate_expenditure :: "int \<Rightarrow> val \<Rightarrow> val \<Rightarrow> val \<Rightarrow> val \<Rightarrow> error + dict" where
  "simulate_expenditure year budget_allocation_v implementation_capacity_v
       accountability_mechanisms_v political_economy_v =
     and_then (as_num budget_allocation_v) (\<lambda>budget_allocation.
     and_then (as_num implementation_capacity_v) (\<lambda>implementation_capacity.
     and_then (as_num accountability_mechanisms_v) (\<lambda>accountability_mechanisms.
     and_then (as_num political_economy_v) (\<lambda>political_economy.
     let efficiency_factor = (implementation_capacity + accountability_mechanisms) / 2;
         actual_spending_total = budget_allocation * efficiency_factor * 1;
         actual_spending_details =
           [(''development'', Num (actual_spending_total * 0.6)),
            (''non_development'', Num (actual_spending_total * 0.4))];
         efficiency_score = efficiency_factor * 1
     in Inr [(''actual_spending'', Dict actual_spending_details),
             (''expenditure_efficiency'', Num efficiency_score)]))))"

subsection \<open>State-owned enterprises (models/soe.py)\<close>

record soe_config =
  initial_soe_performance :: "real option"
  initial_soe_debt_gdp :: "real option"
  soe_gdp_sensitivity :: "real option"
  soe_governance_sensitivity :: "real option"
  soe_debt_drag :: "real option"
  soe_dividend_payout :: "real option"
  soe_transfer_threshold :: "real option"
  soe_transfer_scale :: "real option"

record SOEModel =
  initial_performance_index :: real
  initial_soe_debt_gdp :: real
  gdp_growth_sensitivity :: real
  governance_sensitivity :: real
  debt_drag_factor :: real
  dividend_payout_ratio :: real
  transfer_need_threshold :: real
  transfer_scale_factor :: real
  performance_index :: real
  soe_debt_stock :: real
  initialized :: bool

definition SOEModel_init :: "soe_config \<Rightarrow> SOEModel" where
  "SOEModel_init config =
     \<lparr> initial_performance_index = cfg_get (initial_soe_performance config) 0.4,
       initial_soe_debt_gdp = cfg_get (soe_config.initial_soe_debt_gdp config) 0.10,
       gdp_growth_sensitivity = cfg_get (soe_gdp_sensitivity config) 0.3,
       governance_sensitivity = cfg_get (soe_governance_sensitivity config) 0.2,
       debt_drag_factor = cfg_get (soe_debt_drag config) (- 0.1),
       dividend_payout_ratio = cfg_get (soe_dividend_payout config) 0.2,
       transfer_need_threshold = cfg_get (soe_transfer_threshold config) 0.3,
       transfer_scale_factor = cfg_get (soe_transfer_scale config) 0.01,
       performance_index = cfg_get (initial_soe_performance config) 0.4,
       soe_debt_stock = 0,
       initialized = False \<rparr>"

definition initialize_debt :: "real \<Rightarrow> SOEModel \<Rightarrow> SOEModel" where
  "initialize_debt initial_gdp self =
     self\<lparr> soe_debt_stock := initial_soe_debt_gdp self * initial_gdp,
           initialized := True \<rparr>"

definition update_financial_performance :: "int \<Rightarrow> dict \<Rightarrow> SOEModel \<Rightarrow> error + SOEModel" where
  "update_financial_performance year state self =
     and_then (get2 state ''economic_state'' ''gdp_growth'' (Num 0.05)) (\<lambda>gdp_growth_v.
     and_then (num2 state ''governance_state'' ''governance_index'' 50) (\<lambda>governance_index.
     let governance_score = governance_index / 100 in
     and_then (as_num gdp_growth_v) (\<lambda>gdp_growth.
     let performance_change = gdp_growth_sensitivity self * gdp_growth
                              + governance_sensitivity self * (governance_score - 0.5)
     in
     and_then (num2 state ''economic_state'' ''gdp'' 0) (\<lambda>gdp_guard.
     and_then
       (if gdp_guard > 0 then
          and_then (num2 state ''economic_state'' ''gdp'' 1) (\<lambda>gdp.
          py_div (soe_debt_stock self) gdp)
        else Inr 0)
       (\<lambda>current_debt_gdp.
     let performance_change = performance_change
           + debt_drag_factor self * (current_debt_gdp - initial_soe_debt_gdp self);
         self = self\<lparr>performance_index := performance_index self + performance_change\<rparr>
     in Inr (self\<lparr>performance_index := max 0.1 (min 0.9 (performance_index self))\<rparr>))))))"

definition update_soe_debt :: "int \<Rightarrow> dict \<Rightarrow> real \<Rightarrow> real \<Rightarrow> SOEModel \<Rightarrow> SOEModel" where
  "update_soe_debt year state transfers_received dividends_paid self0 =
     (let implied_profit_loss = (performance_index self0 - 0.5) * soe_debt_stock self0 * 0.1;
          debt_change = - implied_profit_loss + transfers_received - dividends_paid;
          self = self0\<lparr>soe_debt_stock := soe_debt_stock self0 + debt_change\<rparr>
      in self\<lparr>soe_debt_stock := max 0 (soe_debt_stock self)\<rparr>)"

definition calculate_fiscal_impact :: "int \<Rightarrow> dict \<Rightarrow> SOEModel \<Rightarrow> real \<times> real" where
  "calculate_fiscal_impact year state self =
     (if performance_index self > 0.55 then
        (let potential_profit = (performance_index self - 0.5) * soe_debt_stock self * 0.1
         in (potential_profit * dividend_payout_ratio self, 0))
      else if performance_index self < transfer_need_threshold self then
        (let performance_gap = transfer_need_threshold self - performance_index self
         in (0, performance_gap * transfer_scale_factor self * soe_debt_stock self))
      else (0, 0))"

text \<open>The result is the triple \<^verbatim>\<open>(dividends, transfers, soe_debt_stock)\<close>.\<close>

definition simulate_soe_sector ::
  "int \<Rightarrow> dict \<Rightarrow> SOEModel \<Rightarrow> error + ((real \<times> real \<times> real) \<times> SOEModel)" where
  "simulate_soe_sector year state self0 =
     and_then
       (if \<not> SOEModel.initialized self0 then
          and_then (num2 state ''economic_state'' ''gdp'' 0) (\<lambda>initial_gdp.
          if initial_gdp > 0 then Inr (Some (initialize_debt initial_gdp self0))
          else Inr None)
        else Inr (Some self0))
       (\<lambda>started. case started of
          None \<Rightarrow> Inr ((0, 0, 0), self0)
        | Some self \<Rightarrow>
            and_then (update_financial_performance year state self) (\<lambda>self.
            let (dividends, transfers) = calculate_fiscal_impact year state self;
                self = update_soe_debt year state transfers dividends self
            in Inr ((dividends, transfers, soe_debt_stock self), self)))"

subsection \<open>Debt management (models/debt.py)\<close>

record debt_stock_config =
  total :: "real option"
  domestic :: "real option"
  external :: "real option"

record debt_config =
  initial_debt_stock :: "debt_stock_config option"
  avg_interest_rate_domestic :: "real option"
  avg_interest_rate_external :: "real option"
  dsa_thresholds :: "real option option"
  initial_debt_gdp_ratio :: "real option"

text \<open>
  The attribute \<^verbatim>\<open>debt_stock\<close> is a dict with the three keys \<^verbatim>\<open>total\<close>, \<^verbatim>\<open>domestic\<close> and
  \<^verbatim>\<open>external\<close>, all written by the constructor; it is the record \<open>debt_stock_rec\<close>, and
  \<open>debt_stock_dict\<close> is the dict the orchestrator sees. \<open>dsa_thresholds\<close> is the section of
  that name (outer option) with its one key \<^verbatim>\<open>debt_to_gdp\<close> (inner option).
\<close>

record debt_stock_rec =
  total :: real
  domestic :: real
  external :: real

record DebtManagementModel =
  debt_stock :: debt_stock_rec
  avg_interest_rate_domestic :: real
  avg_interest_rate_external :: real
  dsa_thresholds :: "real option"

definition debt_stock_dict :: "debt_stock_rec \<Rightarrow> dict" where
  "debt_stock_dict ds =
     [(''total'', Num (total ds)), (''domestic'', Num (domestic ds)),
      (''external'', Num (external ds))]"

definition DebtManagementModel_init :: "debt_config \<Rightarrow> DebtManagementModel" where
  "DebtManagementModel_init config =
     (let initial_stock = cfg_get (initial_debt_stock config)
            \<lparr> debt_stock_config.total = Some 0, debt_stock_config.domestic = Some 0,
              debt_stock_config.external = Some 0 \<rparr>
      in \<lparr> debt_stock = \<lparr> total = cfg_get (debt_stock_config.total initial_stock) 0,
                           domestic = cfg_get (debt_stock_config.domestic initial_stock) 0,
                           external = cfg_get (debt_stock_config.external initial_stock) 0 \<rparr>,
           avg_interest_rate_domestic =
             cfg_get (debt_config.avg_interest_rate_domestic config) 0.08,
           avg_interest_rate_external =
             cfg_get (debt_config.avg_interest_rate_external config) 0.03,
           dsa_thresholds = cfg_get (debt_config.dsa_thresholds config) (Some 0.70) \<rparr>)"

definition calculate_debt_service :: "int \<Rightarrow> dict \<Rightarrow> DebtManagementModel \<Rightarrow> dict" where
  "calculate_debt_service year state self =
     (let interest_domestic = domestic (debt_stock self) * avg_interest_rate_domestic self;
          interest_external = external (debt_stock self) * avg_interest_rate_external self;
          total_interest = interest_domestic + interest_external;
          principal_repayment_domestic = domestic (debt_stock self) * 0.05;
          principal_repayment_external = external (debt_stock self) * 0.03;
          total_principal_paid = principal_repayment_domestic + principal_repayment_external
      in [(''interest_domestic'', Num interest_domestic),
          (''interest_external'', Num interest_external),
          (''total_interest'', Num total_interest),
          (''principal_domestic'', Num principal_repayment_domestic),
          (''principal_external'', Num principal_repayment_external),
          (''total_principal'', Num total_principal_paid),
          (''total_service'', Num (total_interest + total_principal_paid))])"

definition update_debt_stock ::
  "int \<Rightarrow> dict \<Rightarrow> dict \<Rightarrow> real \<Rightarrow> DebtManagementModel \<Rightarrow> error + DebtManagementModel" where
  "update_debt_stock year state debt_service deficit_financing self =
     (let total_current_debt = total (debt_stock self) in
      and_then
        (if total_current_debt \<le> 0 then Inr 0.5
         else py_div (domestic (debt_stock self)) total_current_debt)
        (\<lambda>domestic_share.
      let new_borrowing_domestic = deficit_financing * domestic_share;
          new_borrowing_external = deficit_financing * (1 - domestic_share)
      in
      and_then (and_then (dict_item debt_service ''principal_domestic'') as_num)
        (\<lambda>principal_domestic.
      let ds = (debt_stock self)\<lparr>domestic := domestic (debt_stock self)
                  + (new_borrowing_domestic - principal_domestic)\<rparr>
      in
      and_then (and_then (dict_item debt_service ''principal_external'') as_num)
        (\<lambda>principal_external.
      let ds = ds\<lparr>external := external ds + (new_borrowing_external - principal_external)\<rparr>;
          ds = ds\<lparr>total := domestic ds + external ds\<rparr>
      in Inr (self\<lparr>debt_stock := ds\<rparr>)))))"

definition perform_dsa :: "int \<Rightarrow> dict \<Rightarrow> DebtManagementModel \<Rightarrow> error + dict" where
  "perform_dsa year state self =
     and_then (num2 state ''economic_state'' ''gdp'' 1) (\<lambda>gdp0.
     let gdp = (if gdp0 \<le> 0 then 1 else gdp0) in
     and_then (py_div (total (debt_stock self)) gdp) (\<lambda>debt_to_gdp.
     and_then (num1 state ''total_revenue'' 1) (\<lambda>total_revenue0.
     let total_revenue = (if total_revenue0 \<le> 0 then 1 else total_revenue0);
         debt_service = dict_get state ''debt_service'' (Dict [])
     in
     and_then (val_get debt_service ''total_service'' (Num 0)) (\<lambda>total_service_v.
     and_then (as_num total_service_v) (\<lambda>total_service.
     and_then (py_div total_service total_revenue) (\<lambda>debt_service_to_revenue.
     Inr [(''debt_to_gdp'', Num debt_to_gdp),
          (''debt_service_to_revenue'', Num debt_service_to_revenue),
          (''breached_threshold'',
             Bool (debt_to_gdp > cfg_get (dsa_thresholds self) 0.70))]))))))"

text \<open>
  The result is \<^verbatim>\<open>(self.debt_stock, sustainability_metrics, debt_service)\<close>.
  \<^verbatim>\<open>state.copy()\<close> is a shallow copy whose two new keys are set on the copy only.
\<close>

definition simulate_debt_dynamics ::
  "int \<Rightarrow> dict \<Rightarrow> real \<Rightarrow> DebtManagementModel
     \<Rightarrow> error + ((dict \<times> dict \<times> dict) \<times> DebtManagementModel)" where
  "simulate_debt_dynamics year state deficit_financing self =
     (let debt_service = calculate_debt_service year state self in
      and_then (update_debt_stock year state debt_service deficit_financing self) (\<lambda>self.
      let state_for_dsa = state;
          state_for_dsa = dict_set state_for_dsa ''debt_stock''
                            (Dict (debt_stock_dict (debt_stock self)));
          state_for_dsa = dict_set state_for_dsa ''debt_service'' (Dict debt_service)
      in
      and_then (perform_dsa year state_for_dsa self) (\<lambda>sustainability_metrics.
      Inr ((debt_stock_dict (debt_stock self), sustainability_metrics, debt_service), self))))"

subsection \<open>Policy coordination (models/policy_coordination.py)\<close>

record policy_coordination_config =
  base_coordination_score :: "real option"
  conflict_threshold_inflation :: "real option"
  conflict_threshold_deficit :: "real option"
  conflict_impact :: "real option"
  institutional_impact :: "real option"

record PolicyCoordinationModel =
  base_coordination_score :: real
  conflict_threshold_inflation :: real
  conflict_threshold_deficit :: real
  conflict_impact :: real
  institutional_impact :: real
  current_coordination_score :: real

definition PolicyCoordinationModel_init ::
  "policy_coordination_config \<Rightarrow> PolicyCoordinationModel" where
  "PolicyCoordinationModel_init config =
     \<lparr> base_coordination_score =
         cfg_get (policy_coordination_config.base_coordination_score config) 0.6,
       conflict_threshold_inflation =
         cfg_get (policy_coordination_config.conflict_threshold_inflation config) 0.08,
       conflict_threshold_deficit =
         cfg_get (policy_coordination_config.conflict_threshold_deficit config) 0.05,
       conflict_impact = cfg_get (policy_coordination_config.conflict_impact config) (- 0.1),
       institutional_impact =
         cfg_get (policy_coordination_config.institutional_impact config) 0.05,
       current_coordination_score =
         cfg_get (policy_coordination_config.base_coordination_score config) 0.6 \<rparr>"

definition assess_policy_conflict ::
  "int \<Rightarrow> dict \<Rightarrow> PolicyCoordinationModel \<Rightarrow> error + bool" where
  "assess_policy_conflict year state self =
     (let inflation_v = dict_get state ''inflation'' (Num 0.07);
          deficit_v = dict_get state ''deficit'' (Num 0)
      in
      and_then (num2 state ''economic_state'' ''gdp'' 1) (\<lambda>gdp.
      and_then
        (if gdp > 0 then and_then (as_num deficit_v) (\<lambda>deficit. py_div deficit gdp)
         else Inr 0)
        (\<lambda>deficit_gdp_ratio.
      and_then (as_num inflation_v) (\<lambda>inflation.
      Inr (inflation > conflict_threshold_inflation self
           \<and> deficit_gdp_ratio > conflict_threshold_deficit self)))))"

definition assess_institutional_framework ::
  "int \<Rightarrow> dict \<Rightarrow> PolicyCoordinationModel \<Rightarrow> error + real" where
  "assess_institutional_framework year state self =
     and_then (num1 state ''governance_index'' 50) (\<lambda>governance_index.
     Inr (governance_index / 100))"

definition simulate_coordination ::
  "int \<Rightarrow> dict \<Rightarrow> PolicyCoordinationModel \<Rightarrow> error + (real \<times> PolicyCoordinationModel)" where
  "simulate_coordination year state self =
     and_then (assess_policy_conflict year state self) (\<lambda>conflict_exists.
     and_then (assess_institutional_framework year state self) (\<lambda>framework_strength.
     let score_change = 0;
         score_change = (if conflict_exists then score_change + conflict_impact self
                         else score_change);
         score_change = (if framework_strength > 0.5
                         then score_change
                              + institutional_impact self * (framework_strength - 0.5) * 2
                         else score_change);
         self = self\<lparr>current_coordination_score :=
                  current_coordination_score self + score_change\<rparr>;
         self = self\<lparr>current_coordination_score :=
                  max 0.1 (min 0.9 (current_coordination_score self))\<rparr>
     in Inr (current_coordination_score self, self)))"

section \<open>The orchestrator (simulation.py)\<close>

text \<open>
  The configuration is the parsed YAML document. The keys of its \<^verbatim>\<open>simulation\<close> section are
  all read with \<^verbatim>\<open>config['simulation'][key]\<close> and are plain fields. The section
  \<^verbatim>\<open>expenditure_model\<close> is passed to a constructor that keeps it unread, and is left out.
\<close>

record simulation_config =
  start_year :: int
  end_year :: int
  initial_gdp :: real
  initial_gdp_growth :: real
  base_real_gdp_growth :: real
  initial_inflation :: real
  inflation_persistence :: real

record config =
  simulation :: simulation_config
  revenue_model :: revenue_config
  debt_model :: debt_config
  financial_sector :: financial_sector_config
  monetary_policy :: monetary_policy_config
  policy_coordination :: policy_coordination_config
  governance_model :: governance_config
  supervision_model :: supervision_config
  soe_model :: soe_config
  external_sector :: external_sector_config
  fiscal_federalism :: fiscal_federalism_config
  development_finance :: development_finance_config

text \<open>
  The object \<^verbatim>\<open>BangladeshPublicFinanceSimulation\<close>. \<open>results\<close> is the Result Ledger, a dict
  from years to entries, in insertion order. \<open>normal_draws\<close> and \<open>random_draws\<close> count
  the draws made so far from the two random streams.
\<close>

type_synonym entry = "(string \<times> cell) list"

record Simulation =
  config :: config
  start_year :: int
  end_year :: int
  years :: "int list"
  revenue_model :: RevenueModel
  debt_model :: DebtManagementModel
  financial_sector_model :: FinancialSectorModel
  monetary_policy_model :: MonetaryPolicyModel
  policy_coord_model :: PolicyCoordinationModel
  governance_model :: GovernanceModel
  supervision_model :: SupervisionModel
  soe_model :: SOEModel
  external_sector_model :: ExternalSectorModel
  fiscal_federalism_model :: FiscalFederalismModel
  dev_finance_model :: DevelopmentFinanceModel
  state :: dict
  results :: "(int \<times> entry) list"
  normal_draws :: nat
  random_draws :: nat

definition initialize_state :: "config \<Rightarrow> error + dict" where
  "initialize_state cfg =
     (let sim_cfg = simulation cfg in
      and_then (cfg_item (initial_debt_gdp_ratio (config.debt_model cfg))) (\<lambda>debt_ratio.
      and_then (cfg_item (initial_npl_ratio (financial_sector cfg))) (\<lambda>npl.
      Inr [(''economic_state'',
              Dict [(''gdp'', Num (initial_gdp sim_cfg)),
                    (''gdp_growth'', Num (initial_gdp_growth sim_cfg)),
                    (''real_gdp_growth'', Num (base_real_gdp_growth sim_cfg))]),
           (''inflation'', Num (initial_inflation sim_cfg)),
           (''debt_stock'', Num (debt_ratio * initial_gdp sim_cfg)),
           (''npl_ratio'', Num npl),
           (''fx_reserves'', Num 0),
           (''soe_debt_stock'', Num 0),
           (''governance_state'', Dict []),
           (''revenue_state'', Dict []),
           (''expenditure_state'', Dict []),
           (''debt_state'', Dict []),
           (''financial_sector_state'', Dict []),
           (''monetary_policy_state'', Dict []),
           (''policy_coordination_state'', Dict []),
           (''supervision_state'', Dict []),
           (''soe_state'', Dict []),
           (''external_sector_state'', Dict []),
           (''fiscal_federalism_state'', Dict []),
           (''dev_finance_state'', Dict []),
           (''deficit'', Num 0),
           (''primary_deficit'', Num 0)])))"

definition Simulation_init :: "config \<Rightarrow> error + Simulation" where
  "Simulation_init cfg =
     and_then (initialize_state cfg) (\<lambda>st.
     Inr \<lparr> config = cfg,
           start_year = simulation_config.start_year (simulation cfg),
           end_year = simulation_config.end_year (simulation cfg),
           years = [simulation_config.start_year (simulation cfg) ..
                    simulation_config.end_year (simulation cfg)],
           revenue_model = RevenueModel_init (config.revenue_model cfg),
           debt_model = DebtManagementModel_init (config.debt_model cfg),
           financial_sector_model = FinancialSectorModel_init (financial_sector cfg),
           monetary_policy_model = MonetaryPolicyModel_init (monetary_policy cfg),
           policy_coord_model = PolicyCoordinationModel_init (policy_coordination cfg),
           governance_model = GovernanceModel_init (config.governance_model cfg),
           supervision_model = SupervisionModel_init (config.supervision_model cfg),
           soe_model = SOEModel_init (config.soe_model cfg),
           external_sector_model = ExternalSectorModel_init (external_sector cfg),
           fiscal_federalism_model = FiscalFederalismModel_init (fiscal_federalism cfg),
           dev_finance_model = DevelopmentFinanceModel_init (development_finance cfg),
           state = st,
           results = [],
           normal_draws = 0,
           random_draws = 0 \<rparr>)"

text \<open>\<^verbatim>\<open>k in x\<close> and \<^verbatim>\<open>state[k1][k2] = v\<close>.\<close>

fun val_contains :: "val \<Rightarrow> string \<Rightarrow> error + bool" where
  "val_contains (Dict d) k = Inr (dict_contains d k)"
| "val_contains (Tuple vs) k = Inr False"
| "val_contains (Num x) k = Inl TypeError"
| "val_contains (Bool b) k = Inl TypeError"

definition item_set2 :: "dict \<Rightarrow> string \<Rightarrow> string \<Rightarrow> val \<Rightarrow> error + dict" where
  "item_set2 st k1 k2 v =
     and_then (dict_item st k1) (\<lambda>inner.
     and_then (val_item_set inner k2 v) (\<lambda>inner.
     Inr (dict_set st k1 inner)))"

text \<open>
  \<^verbatim>\<open>x / gdp if gdp > 0 else 0\<close> with \<^verbatim>\<open>gdp = self.state['economic_state']['gdp']\<close>, as the
  two log lines of \<^verbatim>\<open>run_single_year\<close> compute it.
\<close>

definition ratio_to_gdp :: "dict \<Rightarrow> real \<Rightarrow> error + real" where
  "ratio_to_gdp st x =
     and_then (and_then (dict_item st ''economic_state'') (\<lambda>es. val_item es ''gdp'')) (\<lambda>guard_v.
     and_then (as_num guard_v) (\<lambda>guard.
     if guard > 0 then
       and_then (and_then (dict_item st ''economic_state'') (\<lambda>es. val_item es ''gdp''))
         (\<lambda>gdp_v.
       and_then (as_num gdp_v) (\<lambda>gdp. py_div x gdp))
     else Inr 0))"

definition update_economic_state :: "rng \<Rightarrow> int \<Rightarrow> Simulation \<Rightarrow> error + Simulation" where
  "update_economic_state r year self =
     (let sim_cfg = simulation (config self) in
      and_then (dict_item (state self) ''economic_state'') (\<lambda>es.
      and_then (val_get es ''real_gdp_growth'' (Num (base_real_gdp_growth sim_cfg)))
        (\<lambda>prev_real_growth.
      let current_real_growth =
            base_real_gdp_growth sim_cfg * (1 + normal_stream r (normal_draws self));
          self = self\<lparr>normal_draws := Suc (normal_draws self)\<rparr>
      in
      and_then (dict_item (state self) ''inflation'') (\<lambda>prev_inflation_v.
      and_then (dict_item (state self) ''monetary_policy_state'') (\<lambda>mps.
      and_then (val_get mps ''projected_inflation_impact'' (Num 0)) (\<lambda>monetary_policy_effect.
      and_then (val_contains mps ''projected_inflation'') (\<lambda>has_projection.
      and_then
        (if has_projection then and_then (val_item mps ''projected_inflation'') as_num
         else and_then (as_num prev_inflation_v) (\<lambda>prev_inflation.
              Inr (prev_inflation * inflation_persistence sim_cfg
                   + (1 - inflation_persistence sim_cfg) * initial_inflation sim_cfg)))
        (\<lambda>base_inflation.
      let current_inflation = base_inflation;
          current_inflation = max 0.01 (min 0.15 current_inflation)
      in
      and_then (and_then (val_item es ''gdp'') as_num) (\<lambda>prev_gdp.
      let current_gdp = prev_gdp * (1 + current_real_growth) * (1 + current_inflation) in
      and_then
        (if prev_gdp > 0 then and_then (py_div current_gdp prev_gdp) (\<lambda>q. Inr (q - 1))
         else Inr 0)
        (\<lambda>gdp_growth.
      and_then (item_set2 (state self) ''economic_state'' ''gdp'' (Num current_gdp)) (\<lambda>st.
      and_then (item_set2 st ''economic_state'' ''gdp_growth'' (Num gdp_growth)) (\<lambda>st.
      and_then (item_set2 st ''economic_state'' ''real_gdp_growth'' (Num current_real_growth))
        (\<lambda>st.
      let st = dict_set st ''inflation'' (Num current_inflation) in
      and_then (item_set2 st ''economic_state'' ''inflation_rate'' (Num current_inflation))
        (\<lambda>st.
      Inr (self\<lparr>state := st\<rparr>)))))))))))))))"

subsection \<open>The sections of \<^verbatim>\<open>run_single_year\<close>\<close>

text \<open>
  \<^verbatim>\<open>run_single_year\<close> is one long method; each of its numbered sections is a function
  here, and the local variables a later section reads are passed on explicitly.
\<close>

definition governance_section :: "int \<Rightarrow> Simulation \<Rightarrow> error + Simulation" where
  "governance_section year self =
     and_then (simulate_governance_evolution year (state self) (governance_model self))
       (\<lambda>(gov_outputs, m).
     let self = self\<lparr>governance_model := m\<rparr>;
         self = self\<lparr>state := dict_set (state self) ''governance_state'' (Dict gov_outputs)\<rparr>;
         self = self\<lparr>state := dict_update (state self) gov_outputs\<rparr>
     in Inr self)"

definition supervision_section :: "int \<Rightarrow> Simulation \<Rightarrow> error + Simulation" where
  "supervision_section year self =
     and_then (simulate_supervision_effectiveness year (state self) (supervision_model self))
       (\<lambda>(sup_eff, m).
     let self = self\<lparr>supervision_model := m\<rparr>;
         supervision_state = [(''supervision_effectiveness'', Num sup_eff)];
         self = self\<lparr>state := dict_set (state self) ''supervision_state''
                                  (Dict supervision_state)\<rparr>;
         self = self\<lparr>state := dict_update (state self) supervision_state\<rparr>
     in Inr self)"

definition financial_sector_section :: "int \<Rightarrow> Simulation \<Rightarrow> error + Simulation" where
  "financial_sector_section year self =
     and_then (simulate_financial_system year (state self) (financial_sector_model self))
       (\<lambda>(fin_outputs, m).
     let self = self\<lparr>financial_sector_model := m\<rparr>;
         self = self\<lparr>state := dict_set (state self) ''financial_sector_state''
                                  (Dict fin_outputs)\<rparr>;
         self = self\<lparr>state := dict_update (state self) fin_outputs\<rparr>
     in Inr self)"

definition monetary_policy_section :: "int \<Rightarrow> Simulation \<Rightarrow> error + Simulation" where
  "monetary_policy_section year self =
     and_then (simulate_monetary_conditions year (state self) (monetary_policy_model self))
       (\<lambda>((mp_rate, proj_inf), m).
     let self = self\<lparr>monetary_policy_model := m\<rparr>;
         monetary_policy_state =
           [(''policy_rate'', Num mp_rate), (''projected_inflation'', Num proj_inf)];
         self = self\<lparr>state := dict_set (state self) ''monetary_policy_state''
                                  (Dict monetary_policy_state)\<rparr>;
         self = self\<lparr>state := dict_update (state self) monetary_policy_state\<rparr>
     in Inr self)"

definition external_sector_section :: "rng \<Rightarrow> int \<Rightarrow> Simulation \<Rightarrow> error + Simulation" where
  "external_sector_section r year self =
     and_then (simulate_external_sector r (random_draws self) year (state self)
                 (external_sector_model self))
       (\<lambda>(ext_outputs, m, i).
     let self = self\<lparr>external_sector_model := m, random_draws := i\<rparr>;
         self = self\<lparr>state := dict_set (state self) ''external_sector_state'' ext_outputs\<rparr>
     in
     and_then (py_update (state self) ext_outputs) (\<lambda>st.
     Inr (self\<lparr>state := st\<rparr>)))"

definition development_finance_section ::
  "rng \<Rightarrow> int \<Rightarrow> Simulation \<Rightarrow> error + Simulation" where
  "development_finance_section r year self =
     and_then (simulate_development_finance r (random_draws self) year (state self)
                 (dev_finance_model self))
       (\<lambda>(dev_fin_outputs, m, i).
     let self = self\<lparr>dev_finance_model := m, random_draws := i\<rparr>;
         self = self\<lparr>state := dict_set (state self) ''dev_finance_state'' dev_fin_outputs\<rparr>
     in
     and_then (py_update (state self) dev_fin_outputs) (\<lambda>st.
     Inr (self\<lparr>state := st\<rparr>)))"

text \<open>The revenue section returns the local \<^verbatim>\<open>final_revenue\<close>.\<close>

definition revenue_section :: "int \<Rightarrow> Simulation \<Rightarrow> error + (val \<times> Simulation)" where
  "revenue_section year self =
     and_then (dict_item (state self) ''economic_state'') (\<lambda>economic_state.
     and_then (dict_item (state self) ''governance_state'') (\<lambda>governance_state.
     and_then (project_revenue year economic_state governance_state (revenue_model self))
       (\<lambda>(rev_outputs, m).
     let self = self\<lparr>revenue_model := m\<rparr>;
         self = self\<lparr>state := dict_set (state self) ''revenue_state'' (Dict rev_outputs)\<rparr>;
         self = self\<lparr>state := dict_update (state self) rev_outputs\<rparr>
     in
     and_then (dict_item rev_outputs ''final_revenue'') (\<lambda>final_revenue.
     Inr (final_revenue, self)))))"

text \<open>The fiscal federalism section returns the local \<^verbatim>\<open>revenue_for_central_gov\<close>.\<close>

definition fiscal_federalism_section ::
  "int \<Rightarrow> val \<Rightarrow> Simulation \<Rightarrow> error + (real \<times> Simulation)" where
  "fiscal_federalism_section year final_revenue_v self =
     and_then (simulate_fiscal_federalism year (state self) (fiscal_federalism_model self))
       (\<lambda>(ff_outputs, m).
     let self = self\<lparr>fiscal_federalism_model := m\<rparr>;
         self = self\<lparr>state := dict_set (state self) ''fiscal_federalism_state'' ff_outputs\<rparr>
     in
     and_then (py_update (state self) ff_outputs) (\<lambda>st.
     let self = self\<lparr>state := st\<rparr> in
     and_then (val_item ff_outputs ''total_transfers'') (\<lambda>transfers_v.
     and_then (as_num final_revenue_v) (\<lambda>final_revenue.
     and_then (as_num transfers_v) (\<lambda>transfers_to_subnational.
     let revenue_for_central_gov = final_revenue - transfers_to_subnational in
     and_then (item_set2 (state self) ''revenue_state'' ''revenue_for_central_gov''
                 (Num revenue_for_central_gov)) (\<lambda>st.
     Inr (revenue_for_central_gov, self\<lparr>state := st\<rparr>)))))))"

text \<open>\<^verbatim>\<open>sum(x.values())\<close>: the values of a dict added up from 0, in the dict's order.\<close>

fun sum_from :: "real \<Rightarrow> val list \<Rightarrow> error + real" where
  "sum_from acc [] = Inr acc"
| "sum_from acc (v # vs) = and_then (as_num v) (\<lambda>x. sum_from (acc + x) vs)"

fun sum_values :: "val \<Rightarrow> error + real" where
  "sum_values (Dict d) = sum_from 0 (map snd d)"
| "sum_values _ = Inl AttributeError"

text \<open>The expenditure section returns the local \<^verbatim>\<open>realized_central_spending\<close>.\<close>

definition expenditure_section :: "int \<Rightarrow> Simulation \<Rightarrow> error + (real \<times> Simulation)" where
  "expenditure_section year self =
     (let budget_allocation = dict_get (state self) ''final_revenue'' (Num 0) in
      and_then (and_then (dict_item (state self) ''governance_state'')
                  (\<lambda>g. val_get g ''pfm_effectiveness'' (Num 0.5))) (\<lambda>implementation_capacity.
      and_then (and_then (dict_item (state self) ''governance_state'')
                  (\<lambda>g. val_get g ''accountability_index'' (Num 0.5)))
        (\<lambda>accountability_mechanisms.
      and_then (and_then (dict_item (state self) ''governance_state'')
                  (\<lambda>g. val_get g ''governance_index'' (Num 0.5))) (\<lambda>political_economy.
      and_then (simulate_expenditure year budget_allocation implementation_capacity
                  accountability_mechanisms political_economy) (\<lambda>exp_outputs.
      let self = self\<lparr>state := dict_set (state self) ''expenditure_state'' (Dict exp_outputs)\<rparr>;
          self = self\<lparr>state := dict_update (state self) exp_outputs\<rparr>
      in
      and_then (sum_values (dict_get exp_outputs ''actual_spending'' (Dict [])))
        (\<lambda>realized_central_spending.
      Inr (realized_central_spending, self)))))))"

text \<open>The SOE section returns the locals \<^verbatim>\<open>soe_dividends\<close> and \<^verbatim>\<open>soe_transfers\<close>.\<close>

definition soe_section :: "int \<Rightarrow> Simulation \<Rightarrow> error + ((real \<times> real) \<times> Simulation)" where
  "soe_section year self =
     and_then (simulate_soe_sector year (state self) (soe_model self))
       (\<lambda>((soe_dividends, soe_transfers, soe_debt), m).
     let self = self\<lparr>soe_model := m\<rparr>;
         self = self\<lparr>state := dict_set (state self) ''soe_state''
                  (Dict [(''dividends'', Num soe_dividends),
                         (''transfers_needed'', Num soe_transfers),
                         (''debt'', Num soe_debt)])\<rparr>;
         self = self\<lparr>state := dict_set (state self) ''soe_debt_stock'' (Num soe_debt)\<rparr>
     in Inr ((soe_dividends, soe_transfers), self))"

text \<open>
  The fiscal aggregates. \<^verbatim>\<open>total_revenue_inc_soe\<close> and \<^verbatim>\<open>total_expenditure_inc_soe\<close> are
  locals; only \<^verbatim>\<open>deficit\<close> is written to the state. The section returns \<^verbatim>\<open>deficit\<close>.
\<close>

definition total_revenue_inc_soe :: "real \<Rightarrow> real \<Rightarrow> real" where
  "total_revenue_inc_soe revenue_for_central_gov soe_dividends =
     revenue_for_central_gov + soe_dividends"

definition total_expenditure_inc_soe :: "real \<Rightarrow> real \<Rightarrow> real" where
  "total_expenditure_inc_soe realized_central_spending soe_transfers =
     realized_central_spending + soe_transfers"

definition fiscal_aggregates_section ::
  "int \<Rightarrow> real \<Rightarrow> real \<Rightarrow> real \<Rightarrow> real \<Rightarrow> Simulation \<Rightarrow> error + (real \<times> Simulation)" where
  "fiscal_aggregates_section year revenue_for_central_gov soe_dividends
       realized_central_spending soe_transfers self =
     (let deficit = total_expenditure_inc_soe realized_central_spending soe_transfers
                    - total_revenue_inc_soe revenue_for_central_gov soe_dividends;
          self = self\<lparr>state := dict_set (state self) ''deficit'' (Num deficit)\<rparr>
      in
      and_then (ratio_to_gdp (state self) deficit) (\<lambda>deficit_gdp.
      Inr (deficit, self)))"

text \<open>The debt section returns the local \<^verbatim>\<open>debt_service_calculated\<close>.\<close>

definition debt_section :: "int \<Rightarrow> real \<Rightarrow> Simulation \<Rightarrow> error + (dict \<times> Simulation)" where
  "debt_section year deficit self =
     and_then (simulate_debt_dynamics year (state self) deficit (debt_model self))
       (\<lambda>((updated_debt_stock, dsa_results, debt_service_calculated), m).
     let self = self\<lparr>debt_model := m\<rparr>;
         self = self\<lparr>state := dict_set (state self) ''debt_stock'' (Dict updated_debt_stock)\<rparr>;
         self = self\<lparr>state := dict_set (state self) ''dsa_results'' (Dict dsa_results)\<rparr>;
         self = self\<lparr>state := dict_set (state self) ''debt_service_calculated''
                                  (Dict debt_service_calculated)\<rparr>
     in Inr (debt_service_calculated, self))"

definition primary_deficit_section ::
  "int \<Rightarrow> real \<Rightarrow> dict \<Rightarrow> Simulation \<Rightarrow> error + Simulation" where
  "primary_deficit_section year deficit debt_service_calculated self =
     (let interest_payments_v = dict_get debt_service_calculated ''total_interest_paid'' (Num 0)
      in
      and_then (as_num interest_payments_v) (\<lambda>interest_payments.
      let primary_deficit = deficit - interest_payments;
          self = self\<lparr>state := dict_set (state self) ''primary_deficit'' (Num primary_deficit)\<rparr>
      in
      and_then (ratio_to_gdp (state self) primary_deficit) (\<lambda>primary_deficit_gdp.
      Inr self)))"

definition policy_coordination_section :: "int \<Rightarrow> Simulation \<Rightarrow> error + Simulation" where
  "policy_coordination_section year self =
     and_then (simulate_coordination year (state self) (policy_coord_model self))
       (\<lambda>(coord_score, m).
     let self = self\<lparr>policy_coord_model := m\<rparr>;
         self = self\<lparr>state := dict_set (state self) ''policy_coordination_state''
                  (Dict [(''coordination_score'', Num coord_score)])\<rparr>
     in Inr self)"

subsection \<open>The Result Ledger: \<^verbatim>\<open>_store_results\<close>\<close>

text \<open>
  The reads of \<^verbatim>\<open>_store_results\<close>, each giving a ledger cell: \<^verbatim>\<open>state[k]\<close>,
  \<^verbatim>\<open>state.get(k, np.nan)\<close>, \<^verbatim>\<open>state[k1][k2]\<close>, \<^verbatim>\<open>state[k1].get(k2, np.nan)\<close> and
  \<^verbatim>\<open>state.get(k1, {}).get(k2, np.nan)\<close>.
\<close>

definition cell_get :: "dict \<Rightarrow> string \<Rightarrow> cell" where
  "cell_get d k = (case map_of d k of None \<Rightarrow> NaN | Some v \<Rightarrow> Val v)"

fun val_get_nan :: "val \<Rightarrow> string \<Rightarrow> error + cell" where
  "val_get_nan (Dict d) k = Inr (cell_get d k)"
| "val_get_nan _ k = Inl AttributeError"

definition item_cell :: "dict \<Rightarrow> string \<Rightarrow> error + cell" where
  "item_cell st k = and_then (dict_item st k) (\<lambda>v. Inr (Val v))"

definition get_cell :: "dict \<Rightarrow> string \<Rightarrow> error + cell" where
  "get_cell st k = Inr (cell_get st k)"

definition item2_cell :: "dict \<Rightarrow> string \<Rightarrow> string \<Rightarrow> error + cell" where
  "item2_cell st k1 k2 =
     and_then (dict_item st k1) (\<lambda>x. and_then (val_item x k2) (\<lambda>v. Inr (Val v)))"

definition item_get_cell :: "dict \<Rightarrow> string \<Rightarrow> string \<Rightarrow> error + cell" where
  "item_get_cell st k1 k2 = and_then (dict_item st k1) (\<lambda>x. val_get_nan x k2)"

definition get2_cell :: "dict \<Rightarrow> string \<Rightarrow> string \<Rightarrow> error + cell" where
  "get2_cell st k1 k2 = val_get_nan (dict_get st k1 (Dict [])) k2"

text \<open>
  \<^verbatim>\<open>a / b\<close> where \<open>a\<close> may be \<^verbatim>\<open>np.nan\<close>: NaN divided by a non-zero number is NaN, and
  division by zero raises also when the numerator is NaN.
\<close>

fun cell_div :: "cell \<Rightarrow> val \<Rightarrow> error + cell" where
  "cell_div NaN b_v =
     and_then (as_num b_v) (\<lambda>b. if b = 0 then Inl ZeroDivisionError else Inr NaN)"
| "cell_div (Val a_v) b_v =
     and_then (as_num a_v) (\<lambda>a.
     and_then (as_num b_v) (\<lambda>b.
     and_then (py_div a b) (\<lambda>q. Inr (Val (Num q)))))"

text \<open>
  \<^verbatim>\<open>x / self.state['economic_state']['gdp'] if self.state['economic_state']['gdp'] else np.nan\<close>:
  the condition is evaluated first, and \<open>x\<close> and the denominator only when it is true.
\<close>

definition per_gdp :: "dict \<Rightarrow> error + cell \<Rightarrow> error + cell" where
  "per_gdp st x =
     and_then (and_then (dict_item st ''economic_state'') (\<lambda>es. val_item es ''gdp'')) (\<lambda>guard.
     if truthy guard then
       and_then x (\<lambda>a.
       and_then (and_then (dict_item st ''economic_state'') (\<lambda>es. val_item es ''gdp''))
         (\<lambda>gdp. cell_div a gdp))
     else Inr NaN)"

text \<open>
  A dict display evaluates its values in order; the first raise ends it.
  \<open>results_for_year_items\<close> is the display of \<^verbatim>\<open>_store_results\<close>, key by key, and
  \<open>results_for_year\<close> its value.
\<close>

fun build_entry :: "(string \<times> (error + cell)) list \<Rightarrow> error + entry" where
  "build_entry [] = Inr []"
| "build_entry ((k, c) # rest) =
     and_then c (\<lambda>v. and_then (build_entry rest) (\<lambda>e. Inr ((k, v) # e)))"

definition results_for_year_items :: "dict \<Rightarrow> (string \<times> (error + cell)) list" where
  "results_for_year_items st =
     [(''GDP'', item2_cell st ''economic_state'' ''gdp''),
      (''GDP_Growth'', item_get_cell st ''economic_state'' ''gdp_growth''),
      (''Inflation'', item2_cell st ''economic_state'' ''inflation_rate''),
      (''Total_Revenue'', get_cell st ''total_revenue''),
      (''Central_Revenue'', get_cell st ''central_revenue''),
      (''Revenue_GDP'', per_gdp st (get_cell st ''total_revenue'')),
      (''Total_Expenditure'', get_cell st ''total_expenditure''),
      (''Central_Expenditure'', get_cell st ''central_expenditure''),
      (''Expenditure_GDP'', per_gdp st (get_cell st ''total_expenditure'')),
      (''Overall_Deficit'', item_cell st ''deficit''),
      (''Primary_Deficit'', get_cell st ''primary_deficit''),
      (''Overall_Deficit_GDP'', per_gdp st (item_cell st ''deficit'')),
      (''Primary_Deficit_GDP'', per_gdp st (item_cell st ''primary_deficit'')),
      (''Debt_Stock_Total'', get2_cell st ''debt_stock'' ''total''),
      (''Debt_Stock_Domestic'', get2_cell st ''debt_stock'' ''domestic''),
      (''Debt_Stock_External'', get2_cell st ''debt_stock'' ''external''),
      (''Debt_Stock_GDP'', per_gdp st (get2_cell st ''debt_stock'' ''total'')),
      (''Debt_Service'', get2_cell st ''debt_service_calculated'' ''total_service''),
      (''Interest_Payments'', get2_cell st ''debt_service_calculated'' ''total_interest_paid''),
      (''DSA_Debt_GDP_Ratio'', get2_cell st ''dsa_results'' ''debt_to_gdp''),
      (''DSA_Service_Revenue_Ratio'', get2_cell st ''dsa_results'' ''service_to_revenue''),
      (''Exports'', item_get_cell st ''external_sector_state'' ''exports''),
      (''Imports'', item_get_cell st ''external_sector_state'' ''imports''),
      (''Remittances'', item_get_cell st ''external_sector_state'' ''remittances''),
      (''FDI'', item_get_cell st ''external_sector_state'' ''fdi''),
      (''CAB_GDP'', item_get_cell st ''external_sector_state'' ''cab_gdp''),
      (''FX_Reserves_Months'',
         item_get_cell st ''external_sector_state'' ''reserves_months_imp''),
      (''Governance_Index'', item_cell st ''governance_index''),
      (''PFM_Score'', item_get_cell st ''governance_state'' ''pfm_level''),
      (''NBR_Score'', item_get_cell st ''governance_state'' ''nbr_capacity''),
      (''AC_Score'', item_get_cell st ''governance_state'' ''anti_corruption_effectiveness''),
      (''Accountability_Score'', item_get_cell st ''governance_state'' ''accountability_level''),
      (''Financial_Stability_Index'',
         item_get_cell st ''financial_sector_state'' ''financial_stability_index''),
      (''NPL_Ratio'', item_get_cell st ''financial_sector_state'' ''npl_ratio''),
      (''CAR_Ratio'', item_get_cell st ''financial_sector_state'' ''capital_adequacy_ratio''),
      (''Policy_Rate'', get_cell st ''policy_rate''),
      (''Supervision_Effectiveness'', get_cell st ''supervision_effectiveness''),
      (''SOE_Performance'', get2_cell st ''soe_state'' ''performance_index''),
      (''SOE_Debt_GDP'', per_gdp st (get2_cell st ''soe_state'' ''debt'')),
      (''Subnational_Own_Revenue'', get2_cell st ''fiscal_federalism_state'' ''own_revenue''),
      (''Subnational_Debt'', get2_cell st ''fiscal_federalism_state'' ''aggregate_debt''),
      (''Grant_Receipts'', get2_cell st ''development_finance_state'' ''grants''),
      (''DFI_Lending'', get2_cell st ''development_finance_state'' ''dfi_net_lending''),
      (''Expenditure_Efficiency'',
         get2_cell st ''expenditure_outputs'' ''expenditure_efficiency''),
      (''Policy_Coordination_Score'', get_cell st ''policy_coordination_score'')]"

definition results_for_year :: "dict \<Rightarrow> error + entry" where
  "results_for_year st = build_entry (results_for_year_items st)"

text \<open>\<^verbatim>\<open>self.results[year] = results_for_year\<close>.\<close>

definition store_results :: "int \<Rightarrow> Simulation \<Rightarrow> error + Simulation" where
  "store_results year self =
     and_then (results_for_year (state self)) (\<lambda>e.
     Inr (self\<lparr>results := AList.update year e (results self)\<rparr>))"

subsection \<open>One year and the whole run\<close>

definition run_single_year :: "rng \<Rightarrow> int \<Rightarrow> Simulation \<Rightarrow> error + Simulation" where
  "run_single_year r year self =
     and_then (update_economic_state r year self) (\<lambda>self.
     and_then (governance_section year self) (\<lambda>self.
     and_then (supervision_section year self) (\<lambda>self.
     and_then (financial_sector_section year self) (\<lambda>self.
     and_then (monetary_policy_section year self) (\<lambda>self.
     and_then (external_sector_section r year self) (\<lambda>self.
     and_then (development_finance_section r year self) (\<lambda>self.
     and_then (revenue_section year self) (\<lambda>(final_revenue, self).
     and_then (fiscal_federalism_section year final_revenue self)
       (\<lambda>(revenue_for_central_gov, self).
     and_then (expenditure_section year self) (\<lambda>(realized_central_spending, self).
     and_then (soe_section year self) (\<lambda>((soe_dividends, soe_transfers), self).
     and_then (fiscal_aggregates_section year revenue_for_central_gov soe_dividends
                 realized_central_spending soe_transfers self) (\<lambda>(deficit, self).
     and_then (debt_section year deficit self) (\<lambda>(debt_service_calculated, self).
     and_then (primary_deficit_section year deficit debt_service_calculated self) (\<lambda>self.
     and_then (policy_coordination_section year self) (\<lambda>self.
     store_results year self)))))))))))))))"

text \<open>
  \<^verbatim>\<open>for year in self.years: self.run_single_year(year)\<close>. The method then turns
  \<^verbatim>\<open>self.results\<close> into a table, one row per entry in the ledger's order; the ledger itself
  is the result here.
\<close>

fun run_years :: "rng \<Rightarrow> int list \<Rightarrow> Simulation \<Rightarrow> error + Simulation" where
  "run_years r [] self = Inr self"
| "run_years r (year # rest) self = and_then (run_single_year r year self) (run_years r rest)"

definition run_simulation :: "rng \<Rightarrow> Simulation \<Rightarrow> error + Simulation" where
  "run_simulation r self = run_years r (years self) self"

text \<open>\<^verbatim>\<open>main\<close>: construct the simulation from the configuration and run it.\<close>

definition simulate :: "rng \<Rightarrow> config \<Rightarrow> error + Simulation" where
  "simulate r cfg = and_then (Simulation_init cfg) (run_simulation r)"

section \<open>Reading the ledger and the state\<close>

text \<open>
  \<open>ledger_cell s year key\<close> is the cell under \<open>key\<close> of the ledger entry of \<open>year\<close>, and
  \<open>lookup2 st k1 k2\<close> the value under \<open>k2\<close> of the dict that the state holds under \<open>k1\<close>;
  both are \<open>None\<close> when there is no such entry, dict or key.
\<close>

definition ledger_cell :: "Simulation \<Rightarrow> int \<Rightarrow> string \<Rightarrow> cell option" where
  "ledger_cell s year key =
     (case map_of (results s) year of None \<Rightarrow> None | Some e \<Rightarrow> map_of e key)"

definition lookup2 :: "dict \<Rightarrow> string \<Rightarrow> string \<Rightarrow> val option" where
  "lookup2 st k1 k2 = (case map_of st k1 of Some (Dict d) \<Rightarrow> map_of d k2 | _ \<Rightarrow> None)"

text \<open>
  The top-level keys that \<^verbatim>\<open>_store_results\<close> reads and that neither \<^verbatim>\<open>_initialize_state\<close>
  nor any step of a year writes.
\<close>

definition unwritten_keys_absent :: "dict \<Rightarrow> bool" where
  "unwritten_keys_absent st \<longleftrightarrow>
     map_of st ''total_revenue'' = None \<and> map_of st ''central_revenue'' = None
     \<and> map_of st ''total_expenditure'' = None \<and> map_of st ''central_expenditure'' = None
     \<and> map_of st ''development_finance_state'' = None
     \<and> map_of st ''expenditure_outputs'' = None
     \<and> map_of st ''policy_coordination_score'' = None"

text \<open>
  The shape of the shared state between two years of a run: what \<^verbatim>\<open>_initialize_state\<close>
  builds and every completed year keeps. \<open>models_configured\<close> says that the
  configuration gave the governance model its five weights and the monetary model a target
  band of two numbers, and \<open>models_initialized\<close> that the three sector models whose early
  return the orchestrator cannot merge have had their first year.
\<close>

definition wf_state :: "dict \<Rightarrow> bool" where
  "wf_state st \<longleftrightarrow>
     (\<exists>es g. map_of st ''economic_state'' = Some (Dict es)
        \<and> map_of es ''gdp'' = Some (Num g) \<and> map_of es ''imports'' = None)
     \<and> (\<exists>i. map_of st ''inflation'' = Some (Num i))
     \<and> (\<exists>mps. map_of st ''monetary_policy_state'' = Some (Dict mps)
        \<and> (map_of mps ''projected_inflation'' = None
           \<or> (\<exists>p. map_of mps ''projected_inflation'' = Some (Num p))))
     \<and> (\<exists>n. map_of st ''npl_ratio'' = Some (Num n))
     \<and> unwritten_keys_absent st"

definition models_configured :: "Simulation \<Rightarrow> bool" where
  "models_configured s \<longleftrightarrow>
     pfm (weights (governance_model s)) \<noteq> None
     \<and> nbr (weights (governance_model s)) \<noteq> None
     \<and> cb (weights (governance_model s)) \<noteq> None
     \<and> ac (weights (governance_model s)) \<noteq> None
     \<and> accountability (weights (governance_model s)) \<noteq> None
     \<and> 2 \<le> length (target_inflation (monetary_policy_model s))"

definition models_initialized :: "Simulation \<Rightarrow> bool" where
  "models_initialized s \<longleftrightarrow>
     ExternalSectorModel.initialized (external_sector_model s)
     \<and> DevelopmentFinanceModel.initialized (dev_finance_model s)
     \<and> FiscalFederalismModel.initialized (fiscal_federalism_model s)"

section \<open>Example inputs\<close>

text \<open>
  A configuration with every optional key absent, so that each model takes its defaults,
  for a run of the single year 2025 from a GDP of 1000 with no debt and no
  non-performing loans; and random streams in which every normal draw is 0 and every
  draw of \<^verbatim>\<open>random.random()\<close> is one half.
\<close>

definition example_config :: config where
  "example_config =
     \<lparr> simulation =
         \<lparr> simulation_config.start_year = 2025, simulation_config.end_year = 2025,
           initial_gdp = 1000, initial_gdp_growth = 0.06, base_real_gdp_growth = 0.05,
           initial_inflation = 0.06, inflation_persistence = 0.5 \<rparr>,
       config.revenue_model =
         \<lparr> revenue_config.tax_structure = None, initial_efficiency = None,
           initial_compliance = None, initial_share = None \<rparr>,
       config.debt_model =
         \<lparr> initial_debt_stock = None, debt_config.avg_interest_rate_domestic = None,
           debt_config.avg_interest_rate_external = None, debt_config.dsa_thresholds = None,
           initial_debt_gdp_ratio = Some 0 \<rparr>,
       financial_sector =
         \<lparr> initial_npl_ratio = Some 0, initial_car = None,
           financial_sector_config.required_car = None,
           financial_sector_config.npl_gdp_sensitivity = None,
           financial_sector_config.npl_supervision_sensitivity = None \<rparr>,
       monetary_policy =
         \<lparr> target_inflation_band = None, initial_policy_rate = None,
           monetary_policy_config.inflation_gap_weight = None,
           monetary_policy_config.policy_transmission_lag = None \<rparr>,
       policy_coordination =
         \<lparr> policy_coordination_config.base_coordination_score = None,
           policy_coordination_config.conflict_threshold_inflation = None,
           policy_coordination_config.conflict_threshold_deficit = None,
           policy_coordination_config.conflict_impact = None,
           policy_coordination_config.institutional_impact = None \<rparr>,
       config.governance_model =
         \<lparr> initial_pfm_level = None, initial_nbr_level = None, initial_cb_level = None,
           initial_ac_level = None, initial_accountability_score = None,
           governance_config.pfm_improvement_rate = None,
           governance_config.nbr_improvement_rate = None,
           governance_config.cb_improvement_rate = None,
           governance_config.ac_improvement_rate = None,
           governance_config.accountability_improvement_rate = None,
           governance_weights = None \<rparr>,
       config.supervision_model =
         \<lparr> initial_supervision_effectiveness = None,
           supervision_config.cb_capacity_weight = None,
           supervision_config.financial_stability_weight = None,
           supervision_config.regulatory_reform_impact = None \<rparr>,
       config.soe_model =
         \<lparr> initial_soe_performance = None, soe_config.initial_soe_debt_gdp = None,
           soe_gdp_sensitivity = None, soe_governance_sensitivity = None,
           soe_debt_drag = None, soe_dividend_payout = None, soe_transfer_threshold = None,
           soe_transfer_scale = None \<rparr>,
       external_sector =
         \<lparr> external_sector_config.initial_export_gdp = None,
           external_sector_config.initial_import_gdp = None,
           external_sector_config.initial_remittance_gdp = None,
           external_sector_config.initial_fdi_gdp = None,
           external_sector_config.initial_reserves_months_import = None,
           export_global_growth_sens = None, import_domestic_growth_sens = None,
           remittance_global_growth_sens = None, fdi_governance_sens = None,
           external_sector_config.global_growth_factor = None \<rparr>,
       fiscal_federalism =
         \<lparr> fiscal_federalism_config.transfer_ratio_central_revenue = None,
           fiscal_federalism_config.initial_subnational_revenue_gdp = None,
           fiscal_federalism_config.subnational_revenue_capacity_growth = None,
           fiscal_federalism_config.subnational_spending_efficiency = None,
           fiscal_federalism_config.subnational_debt_limit_gdp = None \<rparr>,
       development_finance =
         \<lparr> development_finance_config.initial_grant_aid_gdp = None,
           development_finance_config.initial_dfi_net_lending_gdp = None,
           grant_global_factor_sens = None, dfi_lending_governance_sens = None,
           absorption_capacity_sens = None \<rparr> \<rparr>"

definition example_rng :: rng where
  "example_rng = \<lparr> normal_stream = (\<lambda>i. 0), random_stream = (\<lambda>i. 1 / 2) \<rparr>"

text \<open>A shared state that holds nothing but a GDP of 1000.\<close>

definition gdp_only_state :: dict where
  "gdp_only_state = [(''economic_state'', Dict [(''gdp'', Num 1000)])]"

section \<open>Basic facts about the error monad and dictionaries\<close>

lemma and_then_Inr [simp]: "and_then (Inr x) f = f x"
  by (simp add: and_then_def)

lemma and_then_Inl [simp]: "and_then (Inl e) f = Inl e"
  by (simp add: and_then_def)

lemma and_then_eq_Inr: "and_then m f = Inr y \<longleftrightarrow> (\<exists>x. m = Inr x \<and> f x = Inr y)"
  by (cases m) simp_all

lemma and_then_eq_Inl:
  "and_then m f = Inl e \<longleftrightarrow> m = Inl e \<or> (\<exists>x. m = Inr x \<and> f x = Inl e)"
  by (cases m) simp_all

lemma map_of_dict_set [simp]: "map_of (dict_set d k v) = (map_of d)(k \<mapsto> v)"
  by (simp add: dict_set_def update_conv')

lemma map_of_dict_update: "map_of (dict_update d other) = map_of d ++ map_of (rev other)"
proof (induction other arbitrary: d)
  case Nil
  then show ?case by (simp add: dict_update_def)
next
  case (Cons p ps)
  obtain k v where p: "p = (k, v)" by (cases p)
  have "dict_update d (p # ps) = dict_update (dict_set d k v) ps"
    by (simp add: dict_update_def p)
  then show ?case
    using Cons.IH [of "dict_set d k v"]
    by (simp add: p map_add_def fun_eq_iff split: option.splits)
qed

section \<open>The external sector's lazy initialisation\<close>

lemma ext_not_ready:
  "\<not> ExternalSectorModel.initialized m \<Longrightarrow> num2 st ''economic_state'' ''gdp'' 0 = Inr g
   \<Longrightarrow> g \<le> 0
   \<Longrightarrow> simulate_external_sector r i year st m = Inr (Tuple [Dict [], Num 0], m, i)"
  by (simp add: simulate_external_sector_def)

lemma ext_first_ready:
  "\<not> ExternalSectorModel.initialized m \<Longrightarrow> num2 st ''economic_state'' ''gdp'' 0 = Inr g
   \<Longrightarrow> 0 < g
   \<Longrightarrow> simulate_external_sector r i year st m
       = simulate_external_sector r i year st (ExternalSector_initialize_state g m)"
  by (simp add: simulate_external_sector_def ExternalSector_initialize_state_def Let_def)

lemma ext_initialize_fields:
  "ExternalSectorModel.initialized (ExternalSector_initialize_state g m)
   \<and> exports (ExternalSector_initialize_state g m) = initial_export_gdp m * g
   \<and> imports_flow (ExternalSector_initialize_state g m) = initial_import_gdp m * g
   \<and> remittances (ExternalSector_initialize_state g m) = initial_remittance_gdp m * g
   \<and> fdi (ExternalSector_initialize_state g m) = initial_fdi_gdp m * g
   \<and> fx_reserves (ExternalSector_initialize_state g m)
       = initial_import_gdp m * g * (initial_reserves_months_import m / 12)"
  by (simp add: ExternalSector_initialize_state_def Let_def)

lemma project_flows_keeps:
  "project_flows r i year st m = Inr p \<Longrightarrow>
     ExternalSectorModel.initialized p = ExternalSectorModel.initialized m
     \<and> fx_reserves p = fx_reserves m"
  by (auto simp: project_flows_def and_then_eq_Inr Let_def)

lemma ext_running:
  assumes "ExternalSectorModel.initialized m"
    and "simulate_external_sector r i year st m = Inr (out, m', i')"
  shows "ExternalSectorModel.initialized m'
     \<and> (\<exists>p. project_flows r i year st m = Inr p \<and> exports m' = exports p
            \<and> imports_flow m' = imports_flow p \<and> remittances m' = remittances p
            \<and> fdi m' = fdi p
            \<and> fx_reserves m' = max 0 (fx_reserves m + overall_bop m'))"
proof -
  from assms obtain p q mo where p: "project_flows r i year st m = Inr p"
    and q: "update_reserves year (calculate_bop year st p) = Inr (mo, q)"
    and m': "m' = q"
    by (auto simp: simulate_external_sector_def and_then_eq_Inr split: prod.splits)
  from q have "ExternalSectorModel.initialized q = ExternalSectorModel.initialized p
      \<and> exports q = exports p \<and> imports_flow q = imports_flow p
      \<and> remittances q = remittances p \<and> fdi q = fdi p
      \<and> fx_reserves q = max 0 (fx_reserves p + overall_bop q)"
    by (auto simp: update_reserves_def calculate_bop_def and_then_eq_Inr Let_def)
  with p m' assms(1) project_flows_keeps [OF p] show ?thesis by simp
qed

text \<open>
  Claim C9. While the external sector model is not initialised and the GDP in the shared
  state is absent (read as 0), zero or negative, \<^verbatim>\<open>simulate_external_sector\<close> returns the
  tuple \<^verbatim>\<open>({}, 0)\<close> without raising, leaves the model as it was and makes no random draw. At
  the first call that finds a positive GDP \<open>g\<close> the call is the call on the model
  initialised from \<open>g\<close>: exports, imports, remittances and FDI are the initial ratios times
  \<open>g\<close>, reserves are the initial months of those imports, and the flag is set. A call on
  an initialised model leaves the flag set and projects the flows from the model's own
  current flows, so the initialisation happens once.
\<close>

theorem external_sector_lazy_initialisation:
  "(\<not> ExternalSectorModel.initialized m \<and> num2 st ''economic_state'' ''gdp'' 0 = Inr g \<and> g \<le> 0
      \<longrightarrow> simulate_external_sector r i year st m = Inr (Tuple [Dict [], Num 0], m, i))
   \<and> (\<not> ExternalSectorModel.initialized m \<and> num2 st ''economic_state'' ''gdp'' 0 = Inr g \<and> 0 < g
      \<longrightarrow> simulate_external_sector r i year st m
            = simulate_external_sector r i year st (ExternalSector_initialize_state g m)
          \<and> ExternalSectorModel.initialized (ExternalSector_initialize_state g m)
          \<and> exports (ExternalSector_initialize_state g m) = initial_export_gdp m * g
          \<and> imports_flow (ExternalSector_initialize_state g m) = initial_import_gdp m * g
          \<and> remittances (ExternalSector_initialize_state g m) = initial_remittance_gdp m * g
          \<and> fdi (ExternalSector_initialize_state g m) = initial_fdi_gdp m * g
          \<and> fx_reserves (ExternalSector_initialize_state g m)
              = initial_import_gdp m * g * (initial_reserves_months_import m / 12))
   \<and> (ExternalSectorModel.initialized m
        \<and> simulate_external_sector r i year st m = Inr (out, m', i')
      \<longrightarrow> ExternalSectorModel.initialized m'
          \<and> (\<exists>p. project_flows r i year st m = Inr p \<and> exports m' = exports p
                 \<and> imports_flow m' = imports_flow p \<and> remittances m' = remittances p
                 \<and> fdi m' = fdi p
                 \<and> fx_reserves m' = max 0 (fx_reserves m + overall_bop m')))"
  using ext_not_ready [of m st g r i year] ext_first_ready [of m st g r i year]
    ext_initialize_fields [of g m] ext_running [of m r i year st out m' i']
  by blast

lemma example_external_call:
  "\<exists>out m' i'. simulate_external_sector example_rng 0 2025 gdp_only_state
       (ExternalSector_initialize_state 1000
          (ExternalSectorModel_init (external_sector example_config))) = Inr (out, m', i')"
  by (simp add: simulate_external_sector_def ExternalSector_initialize_state_def
      ExternalSectorModel_init_def example_config_def example_rng_def gdp_only_state_def
      project_flows_def calculate_bop_def update_reserves_def get2_def num2_def dict_get_def
      py_div_def random_uniform_def cfg_get_def Let_def)

theorem external_sector_lazy_initialisation_witness:
  "(\<not> ExternalSectorModel.initialized (ExternalSectorModel_init (external_sector example_config))
      \<and> num2 [] ''economic_state'' ''gdp'' 0 = Inr 0
      \<and> simulate_external_sector example_rng 0 2025 []
            (ExternalSectorModel_init (external_sector example_config))
          = Inr (Tuple [Dict [], Num 0],
                 ExternalSectorModel_init (external_sector example_config), 0))
   \<and> (num2 gdp_only_state ''economic_state'' ''gdp'' 0 = Inr 1000
      \<and> fx_reserves (ExternalSector_initialize_state 1000
            (ExternalSectorModel_init (external_sector example_config)))
          = 0.22 * 1000 * (5 / 12))
   \<and> (\<exists>out m' i'. simulate_external_sector example_rng 0 2025 gdp_only_state
          (ExternalSector_initialize_state 1000
             (ExternalSectorModel_init (external_sector example_config))) = Inr (out, m', i')
        \<and> ExternalSectorModel.initialized m')"
proof -
  let ?m0 = "ExternalSectorModel_init (external_sector example_config)"
  let ?m1 = "ExternalSector_initialize_state 1000 ?m0"
  have h0: "\<not> ExternalSectorModel.initialized ?m0"
    by (simp add: ExternalSectorModel_init_def)
  have g0: "num2 [] ''economic_state'' ''gdp'' 0 = Inr 0"
    by (simp add: num2_def get2_def dict_get_def)
  have g1: "num2 gdp_only_state ''economic_state'' ''gdp'' 0 = Inr 1000"
    by (simp add: num2_def get2_def dict_get_def gdp_only_state_def)
  have r0: "initial_import_gdp ?m0 = 0.22 \<and> initial_reserves_months_import ?m0 = 5"
    by (simp add: ExternalSectorModel_init_def example_config_def cfg_get_def)
  have h1: "ExternalSectorModel.initialized ?m1"
    by (simp add: ExternalSector_initialize_state_def Let_def)
  obtain out m' i' where run:
    "simulate_external_sector example_rng 0 2025 gdp_only_state ?m1 = Inr (out, m', i')"
    using example_external_call by blast
  have a: "simulate_external_sector example_rng 0 2025 [] ?m0
           = Inr (Tuple [Dict [], Num 0], ?m0, 0)"
    using external_sector_lazy_initialisation [of ?m0 "[]" 0 example_rng 0 2025] h0 g0
    by simp
  have b: "fx_reserves ?m1 = 0.22 * 1000 * (5 / 12)"
    using external_sector_lazy_initialisation [of ?m0 gdp_only_state 1000] h0 g1 r0
    by simp
  have c: "ExternalSectorModel.initialized m'"
    using external_sector_lazy_initialisation
      [of ?m1 gdp_only_state 1000 example_rng 0 2025 out m' i'] h1 run
    by blast
  from h0 g0 a g1 b run c show ?thesis by blast
qed

section \<open>What each sector model returns\<close>

lemma lazy_start:
  assumes "and_then (if \<not> b then and_then n (\<lambda>g::real. if g > 0 then Inr (Some (I g)) else Inr None)
                     else Inr (Some m)) K = Inr res"
  shows "(\<not> b \<and> (\<exists>g. n = Inr g \<and> g \<le> 0) \<and> K None = Inr res)
       \<or> (b \<and> K (Some m) = Inr res)
       \<or> (\<not> b \<and> (\<exists>g. n = Inr g \<and> 0 < g \<and> K (Some (I g)) = Inr res))"
  using assms by (auto simp: and_then_eq_Inr split: if_splits)

lemma and_then_InrE:
  assumes "and_then m f = Inr y"
  obtains x where "m = Inr x" and "f x = Inr y"
  using assms by (auto simp: and_then_eq_Inr)

lemma governance_outputs:
  assumes "simulate_governance_evolution year st m = Inr (out, m')"
  shows "\<exists>a. out = [(''governance_index'', Num a),
            (''pfm_reform_level'', Num (pfm_reform_level m')),
            (''nbr_modernization_level'', Num (nbr_capacity_level m')),
            (''central_bank_capacity'', Num (central_bank_capacity m')),
            (''anti_corruption_effectiveness'', Num (anti_corruption_effectiveness m')),
            (''accountability_score'', Num (accountability_score m'))]
         \<and> weights m' = weights m"
  using assms
  by (clarsimp simp: simulate_governance_evolution_def calculate_governance_index_def
      update_governance_areas_def and_then_eq_Inr Let_def)

lemma update_effectiveness_form:
  "update_effectiveness year st m = Inr m' \<Longrightarrow>
     \<exists>x. m' = m\<lparr>current_effectiveness := max 0.2 (min 0.95 x)\<rparr>"
  apply (clarsimp simp: update_effectiveness_def and_then_eq_Inr Let_def)
  apply (rule exI)
  apply (rule refl)
  done

lemma supervision_outputs:
  assumes "simulate_supervision_effectiveness year st m = Inr (eff, m')"
  shows "eff = current_effectiveness m' \<and> 0.2 \<le> eff \<and> eff \<le> 0.95"
proof -
  from assms obtain m1 where m1: "update_effectiveness year st m = Inr m1"
    and e: "eff = current_effectiveness m1" and m': "m' = m1"
    by (auto simp: simulate_supervision_effectiveness_def and_then_eq_Inr)
  from update_effectiveness_form [OF m1] obtain x
    where "m1 = m\<lparr>current_effectiveness := max 0.2 (min 0.95 x)\<rparr>" by blast
  with e m' show ?thesis by simp
qed

lemma update_npls_form:
  "update_npls year st m = Inr m' \<Longrightarrow> \<exists>x. m' = m\<lparr>npl_ratio := max 0.01 x\<rparr>"
  apply (clarsimp simp: update_npls_def and_then_eq_Inr Let_def)
  apply (rule exI)
  apply (rule refl)
  done

lemma update_capital_adequacy_form:
  "\<exists>x. update_capital_adequacy year st m
        = m\<lparr>capital_adequacy_ratio := max 0.05 (min 0.25 x)\<rparr>"
  unfolding update_capital_adequacy_def Let_def
  by (cases "npl_ratio m > 0.15") (simp_all, (rule exI, rule refl)+)

lemma financial_outputs:
  assumes "simulate_financial_system year st m = Inr (out, m')"
  shows "(\<exists>s. out = [(''npl_ratio'', Num (npl_ratio m')),
                    (''capital_adequacy_ratio'', Num (capital_adequacy_ratio m')),
                    (''stability_index'', Num s)])
         \<and> 0.01 \<le> npl_ratio m' \<and> 0.05 \<le> capital_adequacy_ratio m'
         \<and> capital_adequacy_ratio m' \<le> 0.25"
proof -
  from assms obtain m1 where m1: "update_npls year st m = Inr m1"
    and m': "m' = update_capital_adequacy year st m1"
    and out: "out = [(''npl_ratio'', Num (npl_ratio m')),
                    (''capital_adequacy_ratio'', Num (capital_adequacy_ratio m')),
                    (''stability_index'', Num (calculate_stability_index year m'))]"
    by (auto simp: simulate_financial_system_def and_then_eq_Inr Let_def)
  from update_npls_form [OF m1] obtain x where x: "m1 = m\<lparr>npl_ratio := max 0.01 x\<rparr>"
    by blast
  from update_capital_adequacy_form [of year st m1] obtain y
    where y: "m' = m1\<lparr>capital_adequacy_ratio := max 0.05 (min 0.25 y)\<rparr>"
    using m' by auto
  from x y out show ?thesis by simp
qed

lemma monetary_outputs:
  assumes "simulate_monetary_conditions year st m = Inr ((rate, proj), m')"
  shows "target_inflation m' = target_inflation m"
  using assms
  by (clarsimp simp: simulate_monetary_conditions_def adjust_policy_rate_def
      simulate_inflation_impact_def and_then_eq_Inr Let_def)

lemma update_reserves_form:
  "update_reserves year m = Inr (mo, q) \<Longrightarrow>
     q = m\<lparr>fx_reserves := max 0 (fx_reserves m + overall_bop m)\<rparr>"
  by (clarsimp simp: update_reserves_def and_then_eq_Inr Let_def)

lemma calculate_bop_keeps:
  "ExternalSectorModel.initialized (calculate_bop year st m) = ExternalSectorModel.initialized m
   \<and> fx_reserves (calculate_bop year st m) = fx_reserves m"
  by (simp add: calculate_bop_def Let_def)

lemma external_tail:
  assumes "project_flows r i year st s = Inr p"
    and "update_reserves year (calculate_bop year st p) = Inr (mo, q)"
  shows "ExternalSectorModel.initialized q = ExternalSectorModel.initialized s \<and> 0 \<le> fx_reserves q"
  using update_reserves_form [OF assms(2)] calculate_bop_keeps [of year st p]
    project_flows_keeps [OF assms(1)]
  by simp

lemma external_outputs:
  assumes "simulate_external_sector r i year st m = Inr (out, m', i')"
  shows "(out = Tuple [Dict [], Num 0] \<and> m' = m \<and> i' = i)
       \<or> ((\<exists>a b c d e f h. out = Dict [(''exports'', Num a), (''imports'', Num b),
               (''remittances'', Num c), (''fdi'', Num d),
               (''current_account_balance'', Num e), (''overall_bop'', Num f),
               (''fx_reserves'', Num (fx_reserves m')),
               (''reserves_months_imports'', Num h)])
          \<and> ExternalSectorModel.initialized m' \<and> i' = Suc i \<and> 0 \<le> fx_reserves m')"
  using lazy_start [OF assms [unfolded simulate_external_sector_def]]
  by (auto simp: and_then_eq_Inr ext_initialize_fields dest!: external_tail)

lemma simulate_flows_keeps:
  "simulate_flows r i year st m = Inr p \<Longrightarrow>
     DevelopmentFinanceModel.initialized p = DevelopmentFinanceModel.initialized m"
  by (clarsimp simp: simulate_flows_def and_then_eq_Inr Let_def)

lemma development_outputs:
  assumes "simulate_development_finance r i year st m = Inr (out, m', i')"
  shows "(out = Tuple [Dict [], Num 0, Num 0] \<and> m' = m \<and> i' = i)
       \<or> (out = Dict [(''grant_aid'', Num (grant_aid m')),
                       (''dfi_net_lending'', Num (dfi_net_lending m'))]
          \<and> DevelopmentFinanceModel.initialized m' \<and> i' = Suc i)"
  using lazy_start [OF assms [unfolded simulate_development_finance_def]]
  by (auto simp: and_then_eq_Inr DevelopmentFinance_initialize_state_def
      dest!: simulate_flows_keeps)

lemma revenue_outputs:
  assumes "project_revenue year es gs m = Inr (out, m')"
  shows "\<exists>fr. out = [(''final_revenue'', Num fr)]"
  using assms by (clarsimp simp: project_revenue_def and_then_eq_Inr Let_def)

lemma federalism_steps_keep:
  "calculate_central_transfers year st m = Inr m1 \<Longrightarrow>
     FiscalFederalismModel.initialized m1 = FiscalFederalismModel.initialized m"
  "simulate_subnational_revenue year st m = Inr m2 \<Longrightarrow>
     FiscalFederalismModel.initialized m2 = FiscalFederalismModel.initialized m"
  "FiscalFederalismModel.initialized (simulate_subnational_spending year st m)
     = FiscalFederalismModel.initialized m"
  "update_subnational_debt year st m = Inr m3 \<Longrightarrow>
     FiscalFederalismModel.initialized m3 = FiscalFederalismModel.initialized m"
     apply (clarsimp simp: calculate_central_transfers_def and_then_eq_Inr)
    apply (clarsimp simp: simulate_subnational_revenue_def and_then_eq_Inr Let_def)
   apply (simp add: simulate_subnational_spending_def Let_def)
  apply (clarsimp simp: update_subnational_debt_def and_then_eq_Inr Let_def)
  done

lemma federalism_tail:
  assumes "calculate_central_transfers year st s = Inr m1"
    and "simulate_subnational_revenue year st m1 = Inr m2"
    and "update_subnational_debt year st (simulate_subnational_spending year st m2) = Inr m'"
  shows "FiscalFederalismModel.initialized m' = FiscalFederalismModel.initialized s"
  using federalism_steps_keep(1) [OF assms(1)] federalism_steps_keep(2) [OF assms(2)]
    federalism_steps_keep(3) [of year st m2] federalism_steps_keep(4) [OF assms(3)]
  by simp

lemma federalism_outputs:
  assumes "simulate_fiscal_federalism year st m = Inr (out, m')"
  shows "(out = Tuple [Dict [], Num 0] \<and> m' = m)
       \<or> (out = Dict [(''total_transfers'', Num (total_transfers m')),
                       (''total_subnational_own_revenue'',
                          Num (total_subnational_own_revenue m')),
                       (''total_subnational_spending'', Num (total_subnational_spending m')),
                       (''aggregate_subnational_debt'', Num (aggregate_subnational_debt m'))]
          \<and> FiscalFederalismModel.initialized m')"
  using lazy_start [OF assms [unfolded simulate_fiscal_federalism_def]]
  by (auto simp: and_then_eq_Inr FiscalFederalism_initialize_state_def Let_def
      dest!: federalism_tail)

lemma expenditure_outputs:
  assumes "simulate_expenditure year b c a p = Inr out"
  shows "\<exists>x y e. out = [(''actual_spending'',
                          Dict [(''development'', Num x), (''non_development'', Num y)]),
                        (''expenditure_efficiency'', Num e)]"
  using assms unfolding simulate_expenditure_def Let_def
  by (elim and_then_InrE) (blast dest: Inr_inject)

lemma update_soe_debt_form:
  "\<exists>x. update_soe_debt year st t d m = m\<lparr>soe_debt_stock := max 0 x\<rparr>"
  unfolding update_soe_debt_def Let_def
  by (simp, rule exI, rule refl)

lemma update_soe_debt_nonneg: "0 \<le> soe_debt_stock (update_soe_debt year st t d m)"
  using update_soe_debt_form [of year st t d m] by auto

lemma soe_outputs:
  assumes "simulate_soe_sector year st m = Inr ((dv, tr, debt), m')"
  shows "0 \<le> debt \<and> (debt = soe_debt_stock m' \<or> (debt = 0 \<and> m' = m))"
  using lazy_start [OF assms [unfolded simulate_soe_sector_def]]
  by (auto simp: and_then_eq_Inr Let_def update_soe_debt_nonneg case_prod_unfold)

lemma debt_outputs:
  assumes "simulate_debt_dynamics year st deficit m = Inr ((ds, dsa, svc), m')"
  shows "ds = debt_stock_dict (debt_stock m') \<and> svc = calculate_debt_service year st m
       \<and> (\<exists>a b c. dsa = [(''debt_to_gdp'', Num a), (''debt_service_to_revenue'', Num b),
                          (''breached_threshold'', Bool c)])"
  using assms
  by (clarsimp simp: simulate_debt_dynamics_def perform_dsa_def and_then_eq_Inr Let_def)

lemma coordination_form:
  assumes "simulate_coordination year st m = Inr (score, m')"
  shows "\<exists>x. score = max 0.1 (min 0.9 x) \<and> m' = m\<lparr>current_coordination_score := score\<rparr>"
  using assms unfolding simulate_coordination_def Let_def
  by (elim and_then_InrE) (simp, blast)

lemma coordination_outputs:
  assumes "simulate_coordination year st m = Inr (score, m')"
  shows "score = current_coordination_score m' \<and> 0.1 \<le> score \<and> score \<le> 0.9"
  using coordination_form [OF assms] by auto

section \<open>What each section of a year writes\<close>

text \<open>
  Each lemma gives, for a section that did not raise, the fields of the simulation object
  it changed and the shared state after it as a map: the state before with the keys the
  section wrote.
\<close>

lemma governance_index_out:
  assumes "simulate_governance_evolution year st m = Inr (out, m')"
  shows "out = [(''governance_index'', Num (governance_index m')),
            (''pfm_reform_level'', Num (pfm_reform_level m')),
            (''nbr_modernization_level'', Num (nbr_capacity_level m')),
            (''central_bank_capacity'', Num (central_bank_capacity m')),
            (''anti_corruption_effectiveness'', Num (anti_corruption_effectiveness m')),
            (''accountability_score'', Num (accountability_score m'))]
         \<and> weights m' = weights m"
  using assms
  by (clarsimp simp: simulate_governance_evolution_def calculate_governance_index_def
      update_governance_areas_def and_then_eq_Inr Let_def)

lemma governance_section_effect:
  assumes "governance_section year self = Inr self'"
  shows "self' = self\<lparr>governance_model := governance_model self', state := state self'\<rparr>
     \<and> weights (governance_model self') = weights (governance_model self)
     \<and> map_of (state self') = (map_of (state self))
          (''governance_state'' \<mapsto> Dict
             [(''governance_index'', Num (governance_index (governance_model self'))),
              (''pfm_reform_level'', Num (pfm_reform_level (governance_model self'))),
              (''nbr_modernization_level'', Num (nbr_capacity_level (governance_model self'))),
              (''central_bank_capacity'', Num (central_bank_capacity (governance_model self'))),
              (''anti_corruption_effectiveness'',
                 Num (anti_corruption_effectiveness (governance_model self'))),
              (''accountability_score'', Num (accountability_score (governance_model self')))],
           ''governance_index'' \<mapsto> Num (governance_index (governance_model self')),
           ''pfm_reform_level'' \<mapsto> Num (pfm_reform_level (governance_model self')),
           ''nbr_modernization_level'' \<mapsto> Num (nbr_capacity_level (governance_model self')),
           ''central_bank_capacity'' \<mapsto> Num (central_bank_capacity (governance_model self')),
           ''anti_corruption_effectiveness'' \<mapsto>
              Num (anti_corruption_effectiveness (governance_model self')),
           ''accountability_score'' \<mapsto> Num (accountability_score (governance_model self')))"
proof -
  from assms obtain out m where sim:
    "simulate_governance_evolution year (state self) (governance_model self) = Inr (out, m)"
    and self': "self' = self\<lparr>governance_model := m,
        state := dict_update (dict_set (state self) ''governance_state'' (Dict out)) out\<rparr>"
    by (auto simp: governance_section_def and_then_eq_Inr Let_def)
  from governance_index_out [OF sim] self' show ?thesis
    by (simp add: map_of_dict_update)
qed

lemma supervision_section_effect:
  assumes "supervision_section year self = Inr self'"
  shows "self' = self\<lparr>supervision_model := supervision_model self', state := state self'\<rparr>
     \<and> map_of (state self') = (map_of (state self))
          (''supervision_state'' \<mapsto> Dict [(''supervision_effectiveness'',
               Num (current_effectiveness (supervision_model self')))],
           ''supervision_effectiveness'' \<mapsto>
               Num (current_effectiveness (supervision_model self')))"
proof -
  from assms obtain e m where sim:
    "simulate_supervision_effectiveness year (state self) (supervision_model self) = Inr (e, m)"
    and self': "self' = self\<lparr>supervision_model := m,
        state := dict_update (dict_set (state self) ''supervision_state''
                   (Dict [(''supervision_effectiveness'', Num e)]))
                   [(''supervision_effectiveness'', Num e)]\<rparr>"
    by (auto simp: supervision_section_def and_then_eq_Inr Let_def)
  from supervision_outputs [OF sim] self' show ?thesis
    by (simp add: map_of_dict_update)
qed

lemma financial_sector_section_effect:
  assumes "financial_sector_section year self = Inr self'"
  shows "self' = self\<lparr>financial_sector_model := financial_sector_model self',
                       state := state self'\<rparr>
     \<and> 0.01 \<le> npl_ratio (financial_sector_model self')
     \<and> 0.05 \<le> capital_adequacy_ratio (financial_sector_model self')
     \<and> capital_adequacy_ratio (financial_sector_model self') \<le> 0.25
     \<and> (\<exists>s. map_of (state self') = (map_of (state self))
          (''financial_sector_state'' \<mapsto> Dict
             [(''npl_ratio'', Num (npl_ratio (financial_sector_model self'))),
              (''capital_adequacy_ratio'',
                 Num (capital_adequacy_ratio (financial_sector_model self'))),
              (''stability_index'', Num s)],
           ''npl_ratio'' \<mapsto> Num (npl_ratio (financial_sector_model self')),
           ''capital_adequacy_ratio'' \<mapsto>
              Num (capital_adequacy_ratio (financial_sector_model self')),
           ''stability_index'' \<mapsto> Num s))"
proof -
  from assms obtain out m where sim:
    "simulate_financial_system year (state self) (financial_sector_model self) = Inr (out, m)"
    and self': "self' = self\<lparr>financial_sector_model := m,
        state := dict_update (dict_set (state self) ''financial_sector_state'' (Dict out)) out\<rparr>"
    by (auto simp: financial_sector_section_def and_then_eq_Inr Let_def)
  from financial_outputs [OF sim] obtain s where
    out: "out = [(''npl_ratio'', Num (npl_ratio m)),
                 (''capital_adequacy_ratio'', Num (capital_adequacy_ratio m)),
                 (''stability_index'', Num s)]"
    and b: "0.01 \<le> npl_ratio m" "0.05 \<le> capital_adequacy_ratio m"
      "capital_adequacy_ratio m \<le> 0.25"
    by blast
  have "map_of (state self') = (map_of (state self))
          (''financial_sector_state'' \<mapsto> Dict
             [(''npl_ratio'', Num (npl_ratio (financial_sector_model self'))),
              (''capital_adequacy_ratio'',
                 Num (capital_adequacy_ratio (financial_sector_model self'))),
              (''stability_index'', Num s)],
           ''npl_ratio'' \<mapsto> Num (npl_ratio (financial_sector_model self')),
           ''capital_adequacy_ratio'' \<mapsto>
              Num (capital_adequacy_ratio (financial_sector_model self')),
           ''stability_index'' \<mapsto> Num s)"
    using self' out by (simp add: map_of_dict_update)
  moreover have "self' = self\<lparr>financial_sector_model := financial_sector_model self',
                       state := state self'\<rparr>"
    using self' by simp
  moreover have "financial_sector_model self' = m" using self' by simp
  ultimately show ?thesis using b by blast
qed

lemma monetary_policy_section_effect:
  assumes "monetary_policy_section year self = Inr self'"
  shows "self' = self\<lparr>monetary_policy_model := monetary_policy_model self',
                       state := state self'\<rparr>
     \<and> target_inflation (monetary_policy_model self')
         = target_inflation (monetary_policy_model self)
     \<and> (\<exists>a b. map_of (state self') = (map_of (state self))
          (''monetary_policy_state'' \<mapsto>
             Dict [(''policy_rate'', Num a), (''projected_inflation'', Num b)],
           ''policy_rate'' \<mapsto> Num a, ''projected_inflation'' \<mapsto> Num b))"
proof -
  from assms obtain a b m where sim:
    "simulate_monetary_conditions year (state self) (monetary_policy_model self)
       = Inr ((a, b), m)"
    and self': "self' = self\<lparr>monetary_policy_model := m,
        state := dict_update (dict_set (state self) ''monetary_policy_state''
                   (Dict [(''policy_rate'', Num a), (''projected_inflation'', Num b)]))
                   [(''policy_rate'', Num a), (''projected_inflation'', Num b)]\<rparr>"
    by (auto simp: monetary_policy_section_def and_then_eq_Inr Let_def)
  have "map_of (state self') = (map_of (state self))
          (''monetary_policy_state'' \<mapsto>
             Dict [(''policy_rate'', Num a), (''projected_inflation'', Num b)],
           ''policy_rate'' \<mapsto> Num a, ''projected_inflation'' \<mapsto> Num b)"
    using self' by (simp add: map_of_dict_update)
  moreover have "self' = self\<lparr>monetary_policy_model := monetary_policy_model self',
                       state := state self'\<rparr>"
    using self' by simp
  moreover have "target_inflation (monetary_policy_model self')
         = target_inflation (monetary_policy_model self)"
    using monetary_outputs [OF sim] self' by simp
  ultimately show ?thesis by blast
qed

lemma external_sector_section_effect:
  assumes "external_sector_section r year self = Inr self'"
  shows "self' = self\<lparr>external_sector_model := external_sector_model self',
                       random_draws := Suc (random_draws self), state := state self'\<rparr>
     \<and> ExternalSectorModel.initialized (external_sector_model self')
     \<and> 0 \<le> fx_reserves (external_sector_model self')
     \<and> (\<exists>a b c d e f h. map_of (state self') = (map_of (state self))
          (''external_sector_state'' \<mapsto> Dict
             [(''exports'', Num a), (''imports'', Num b),
              (''remittances'', Num c), (''fdi'', Num d),
              (''current_account_balance'', Num e), (''overall_bop'', Num f),
              (''fx_reserves'', Num (fx_reserves (external_sector_model self'))),
              (''reserves_months_imports'', Num h)],
           ''exports'' \<mapsto> Num a, ''imports'' \<mapsto> Num b, ''remittances'' \<mapsto> Num c,
           ''fdi'' \<mapsto> Num d, ''current_account_balance'' \<mapsto> Num e,
           ''overall_bop'' \<mapsto> Num f,
           ''fx_reserves'' \<mapsto> Num (fx_reserves (external_sector_model self')),
           ''reserves_months_imports'' \<mapsto> Num h))"
proof -
  from assms obtain out m i st where sim:
    "simulate_external_sector r (random_draws self) year (state self)
       (external_sector_model self) = Inr (out, m, i)"
    and upd: "py_update (dict_set (state self) ''external_sector_state'' out) out = Inr st"
    and self': "self' = self\<lparr>external_sector_model := m, random_draws := i, state := st\<rparr>"
    by (auto simp: external_sector_section_def and_then_eq_Inr Let_def)
  from external_outputs [OF sim] upd obtain a b c d e f h where
    out: "out = Dict [(''exports'', Num a), (''imports'', Num b),
               (''remittances'', Num c), (''fdi'', Num d),
               (''current_account_balance'', Num e), (''overall_bop'', Num f),
               (''fx_reserves'', Num (fx_reserves m)),
               (''reserves_months_imports'', Num h)]"
    and m: "ExternalSectorModel.initialized m" "i = Suc (random_draws self)"
      "0 \<le> fx_reserves m"
    by auto
  have "map_of (state self') = (map_of (state self))
          (''external_sector_state'' \<mapsto> Dict
             [(''exports'', Num a), (''imports'', Num b),
              (''remittances'', Num c), (''fdi'', Num d),
              (''current_account_balance'', Num e), (''overall_bop'', Num f),
              (''fx_reserves'', Num (fx_reserves (external_sector_model self'))),
              (''reserves_months_imports'', Num h)],
           ''exports'' \<mapsto> Num a, ''imports'' \<mapsto> Num b, ''remittances'' \<mapsto> Num c,
           ''fdi'' \<mapsto> Num d, ''current_account_balance'' \<mapsto> Num e,
           ''overall_bop'' \<mapsto> Num f,
           ''fx_reserves'' \<mapsto> Num (fx_reserves (external_sector_model self')),
           ''reserves_months_imports'' \<mapsto> Num h)"
    using self' out upd by (auto simp: map_of_dict_update)
  moreover have "self' = self\<lparr>external_sector_model := external_sector_model self',
                       random_draws := Suc (random_draws self), state := state self'\<rparr>"
    using self' m by simp
  moreover have "external_sector_model self' = m" using self' by simp
  ultimately show ?thesis using m by blast
qed

lemma development_finance_section_effect:
  assumes "development_finance_section r year self = Inr self'"
  shows "self' = self\<lparr>dev_finance_model := dev_finance_model self',
                       random_draws := Suc (random_draws self), state := state self'\<rparr>
     \<and> DevelopmentFinanceModel.initialized (dev_finance_model self')
     \<and> map_of (state self') = (map_of (state self))
          (''dev_finance_state'' \<mapsto> Dict
             [(''grant_aid'', Num (grant_aid (dev_finance_model self'))),
              (''dfi_net_lending'', Num (dfi_net_lending (dev_finance_model self')))],
           ''grant_aid'' \<mapsto> Num (grant_aid (dev_finance_model self')),
           ''dfi_net_lending'' \<mapsto> Num (dfi_net_lending (dev_finance_model self')))"
proof -
  from assms obtain out m i st where sim:
    "simulate_development_finance r (random_draws self) year (state self)
       (dev_finance_model self) = Inr (out, m, i)"
    and upd: "py_update (dict_set (state self) ''dev_finance_state'' out) out = Inr st"
    and self': "self' = self\<lparr>dev_finance_model := m, random_draws := i, state := st\<rparr>"
    by (auto simp: development_finance_section_def and_then_eq_Inr Let_def)
  from development_outputs [OF sim] upd have
    out: "out = Dict [(''grant_aid'', Num (grant_aid m)),
                      (''dfi_net_lending'', Num (dfi_net_lending m))]"
    and m: "DevelopmentFinanceModel.initialized m" "i = Suc (random_draws self)"
    by auto
  from self' out upd m show ?thesis by (auto simp: map_of_dict_update)
qed

lemma revenue_section_effect:
  assumes "revenue_section year self = Inr (fv, self')"
  shows "self' = self\<lparr>revenue_model := revenue_model self', state := state self'\<rparr>
     \<and> (\<exists>fr. fv = Num fr \<and> map_of (state self') = (map_of (state self))
          (''revenue_state'' \<mapsto> Dict [(''final_revenue'', Num fr)],
           ''final_revenue'' \<mapsto> Num fr))"
proof -
  from assms obtain es gs out m where sim: "project_revenue year es gs (revenue_model self) = Inr (out, m)"
    and fv: "dict_item out ''final_revenue'' = Inr fv"
    and self': "self' = self\<lparr>revenue_model := m,
        state := dict_update (dict_set (state self) ''revenue_state'' (Dict out)) out\<rparr>"
    by (auto simp: revenue_section_def and_then_eq_Inr Let_def)
  from revenue_outputs [OF sim] obtain fr where out: "out = [(''final_revenue'', Num fr)]"
    by blast
  have "fv = Num fr" using fv out by (simp add: dict_item_def)
  moreover have "map_of (state self') = (map_of (state self))
          (''revenue_state'' \<mapsto> Dict [(''final_revenue'', Num fr)],
           ''final_revenue'' \<mapsto> Num fr)"
    using self' out by (simp add: map_of_dict_update)
  moreover have "self' = self\<lparr>revenue_model := revenue_model self', state := state self'\<rparr>"
    using self' by simp
  ultimately show ?thesis by blast
qed

lemma item_set2_effect:
  assumes "item_set2 st k1 k2 v = Inr st'"
  shows "\<exists>d. map_of st k1 = Some (Dict d)
           \<and> map_of st' = (map_of st)(k1 \<mapsto> Dict (dict_set d k2 v))"
proof -
  from assms obtain inner inner' where a: "dict_item st k1 = Inr inner"
    and b: "val_item_set inner k2 v = Inr inner'" and c: "st' = dict_set st k1 inner'"
    by (auto simp: item_set2_def and_then_eq_Inr)
  from b obtain d where "inner = Dict d" "inner' = Dict (dict_set d k2 v)"
    by (cases inner) auto
  with a c show ?thesis by (auto simp: dict_item_def split: option.splits)
qed

lemma fiscal_federalism_section_effect:
  assumes "fiscal_federalism_section year fv self = Inr (rfc, self')"
  shows "self' = self\<lparr>fiscal_federalism_model := fiscal_federalism_model self',
                       state := state self'\<rparr>
     \<and> FiscalFederalismModel.initialized (fiscal_federalism_model self')
     \<and> (\<exists>fr rs a b c. as_num fv = Inr fr
          \<and> rfc = fr - total_transfers (fiscal_federalism_model self')
          \<and> map_of (state self) ''revenue_state'' = Some (Dict rs)
          \<and> map_of (state self') = (map_of (state self))
          (''fiscal_federalism_state'' \<mapsto> Dict
             [(''total_transfers'', Num (total_transfers (fiscal_federalism_model self'))),
              (''total_subnational_own_revenue'', Num a),
              (''total_subnational_spending'', Num b),
              (''aggregate_subnational_debt'', Num c)],
           ''total_transfers'' \<mapsto> Num (total_transfers (fiscal_federalism_model self')),
           ''total_subnational_own_revenue'' \<mapsto> Num a,
           ''total_subnational_spending'' \<mapsto> Num b,
           ''aggregate_subnational_debt'' \<mapsto> Num c,
           ''revenue_state'' \<mapsto> Dict (dict_set rs ''revenue_for_central_gov''
              (Num (fr - total_transfers (fiscal_federalism_model self'))))))"
proof -
  from assms obtain out m st tv fr tt st2 where sim:
    "simulate_fiscal_federalism year (state self) (fiscal_federalism_model self) = Inr (out, m)"
    and upd: "py_update (dict_set (state self) ''fiscal_federalism_state'' out) out = Inr st"
    and tv: "val_item out ''total_transfers'' = Inr tv"
    and fr: "as_num fv = Inr fr" and tt: "as_num tv = Inr tt"
    and set2: "item_set2 st ''revenue_state'' ''revenue_for_central_gov'' (Num (fr - tt)) = Inr st2"
    and rfc: "rfc = fr - tt"
    and self': "self' = self\<lparr>fiscal_federalism_model := m, state := st2\<rparr>"
    by (auto simp: fiscal_federalism_section_def and_then_eq_Inr Let_def)
  from federalism_outputs [OF sim] upd have
    out: "out = Dict [(''total_transfers'', Num (total_transfers m)),
                       (''total_subnational_own_revenue'',
                          Num (total_subnational_own_revenue m)),
                       (''total_subnational_spending'', Num (total_subnational_spending m)),
                       (''aggregate_subnational_debt'', Num (aggregate_subnational_debt m))]"
    and m: "FiscalFederalismModel.initialized m"
    by auto
  from tv tt out have tt': "tt = total_transfers m" by (auto simp: dict_item_def)
  have st: "map_of st = (map_of (state self))
          (''fiscal_federalism_state'' \<mapsto> out,
           ''total_transfers'' \<mapsto> Num (total_transfers m),
           ''total_subnational_own_revenue'' \<mapsto> Num (total_subnational_own_revenue m),
           ''total_subnational_spending'' \<mapsto> Num (total_subnational_spending m),
           ''aggregate_subnational_debt'' \<mapsto> Num (aggregate_subnational_debt m))"
    using upd out by (auto simp: map_of_dict_update)
  from item_set2_effect [OF set2] obtain rs where
    rs: "map_of st ''revenue_state'' = Some (Dict rs)"
    and st2: "map_of st2 = (map_of st)(''revenue_state'' \<mapsto>
          Dict (dict_set rs ''revenue_for_central_gov'' (Num (fr - tt))))"
    by blast
  from rs st have rs0: "map_of (state self) ''revenue_state'' = Some (Dict rs)" by simp
  have "map_of (state self') = (map_of (state self))
          (''fiscal_federalism_state'' \<mapsto> Dict
             [(''total_transfers'', Num (total_transfers (fiscal_federalism_model self'))),
              (''total_subnational_own_revenue'', Num (total_subnational_own_revenue m)),
              (''total_subnational_spending'', Num (total_subnational_spending m)),
              (''aggregate_subnational_debt'', Num (aggregate_subnational_debt m))],
           ''total_transfers'' \<mapsto> Num (total_transfers (fiscal_federalism_model self')),
           ''total_subnational_own_revenue'' \<mapsto> Num (total_subnational_own_revenue m),
           ''total_subnational_spending'' \<mapsto> Num (total_subnational_spending m),
           ''aggregate_subnational_debt'' \<mapsto> Num (aggregate_subnational_debt m),
           ''revenue_state'' \<mapsto> Dict (dict_set rs ''revenue_for_central_gov''
              (Num (fr - total_transfers (fiscal_federalism_model self')))))"
    using self' st st2 out tt' by simp
  moreover have "self' = self\<lparr>fiscal_federalism_model := fiscal_federalism_model self',
                       state := state self'\<rparr>"
    using self' by simp
  moreover have "fiscal_federalism_model self' = m" using self' by simp
  ultimately show ?thesis using m fr rfc tt' rs0 by blast
qed

lemma expenditure_section_effect:
  assumes "expenditure_section year self = Inr (rcs, self')"
  shows "self' = self\<lparr>state := state self'\<rparr>
     \<and> (\<exists>x y e. rcs = 0 + x + y \<and> map_of (state self') = (map_of (state self))
          (''expenditure_state'' \<mapsto> Dict
             [(''actual_spending'',
                 Dict [(''development'', Num x), (''non_development'', Num y)]),
              (''expenditure_efficiency'', Num e)],
           ''actual_spending'' \<mapsto>
              Dict [(''development'', Num x), (''non_development'', Num y)],
           ''expenditure_efficiency'' \<mapsto> Num e))"
proof -
  from assms obtain b c a p out where sim: "simulate_expenditure year b c a p = Inr out"
    and rcs: "sum_values (dict_get out ''actual_spending'' (Dict [])) = Inr rcs"
    and self': "self' = self\<lparr>state :=
        dict_update (dict_set (state self) ''expenditure_state'' (Dict out)) out\<rparr>"
    by (auto simp: expenditure_section_def and_then_eq_Inr Let_def)
  from expenditure_outputs [OF sim] obtain x y e where
    out: "out = [(''actual_spending'',
                   Dict [(''development'', Num x), (''non_development'', Num y)]),
                 (''expenditure_efficiency'', Num e)]"
    by blast
  have "rcs = 0 + x + y" using rcs out by (simp add: dict_get_def)
  moreover have "map_of (state self') = (map_of (state self))
          (''expenditure_state'' \<mapsto> Dict
             [(''actual_spending'',
                 Dict [(''development'', Num x), (''non_development'', Num y)]),
              (''expenditure_efficiency'', Num e)],
           ''actual_spending'' \<mapsto>
              Dict [(''development'', Num x), (''non_development'', Num y)],
           ''expenditure_efficiency'' \<mapsto> Num e)"
    using self' out by (simp add: map_of_dict_update)
  moreover have "self' = self\<lparr>state := state self'\<rparr>" using self' by simp
  ultimately show ?thesis by blast
qed

lemma soe_section_effect:
  assumes "soe_section year self = Inr ((dv, tn), self')"
  shows "self' = self\<lparr>soe_model := soe_model self', state := state self'\<rparr>
     \<and> (\<exists>debt. 0 \<le> debt \<and> map_of (state self') = (map_of (state self))
          (''soe_state'' \<mapsto> Dict [(''dividends'', Num dv), (''transfers_needed'', Num tn),
                                     (''debt'', Num debt)],
           ''soe_debt_stock'' \<mapsto> Num debt))"
proof -
  from assms obtain debt m where sim:
    "simulate_soe_sector year (state self) (soe_model self) = Inr ((dv, tn, debt), m)"
    and self': "self' = self\<lparr>soe_model := m,
        state := dict_set (dict_set (state self) ''soe_state''
                   (Dict [(''dividends'', Num dv), (''transfers_needed'', Num tn),
                          (''debt'', Num debt)])) ''soe_debt_stock'' (Num debt)\<rparr>"
    by (auto simp: soe_section_def and_then_eq_Inr Let_def)
  from soe_outputs [OF sim] have "0 \<le> debt" by simp
  moreover have "map_of (state self') = (map_of (state self))
          (''soe_state'' \<mapsto> Dict [(''dividends'', Num dv), (''transfers_needed'', Num tn),
                                     (''debt'', Num debt)],
           ''soe_debt_stock'' \<mapsto> Num debt)"
    using self' by simp
  moreover have "self' = self\<lparr>soe_model := soe_model self', state := state self'\<rparr>"
    using self' by simp
  ultimately show ?thesis by blast
qed

lemma fiscal_aggregates_section_effect:
  assumes "fiscal_aggregates_section year rfc dv rcs tn self = Inr (deficit, self')"
  shows "self' = self\<lparr>state := state self'\<rparr>
     \<and> deficit = total_expenditure_inc_soe rcs tn - total_revenue_inc_soe rfc dv
     \<and> map_of (state self') = (map_of (state self))(''deficit'' \<mapsto> Num deficit)"
  using assms
  by (auto simp: fiscal_aggregates_section_def and_then_eq_Inr Let_def)

lemma debt_section_effect:
  assumes "debt_section year deficit self = Inr (svc, self')"
  shows "self' = self\<lparr>debt_model := debt_model self', state := state self'\<rparr>
     \<and> svc = calculate_debt_service year (state self) (debt_model self)
     \<and> update_debt_stock year (state self) svc deficit (debt_model self)
         = Inr (debt_model self')
     \<and> (\<exists>a b c. map_of (state self') = (map_of (state self))
          (''debt_stock'' \<mapsto> Dict (debt_stock_dict (debt_stock (debt_model self'))),
           ''dsa_results'' \<mapsto> Dict [(''debt_to_gdp'', Num a),
                                        (''debt_service_to_revenue'', Num b),
                                        (''breached_threshold'', Bool c)],
           ''debt_service_calculated'' \<mapsto> Dict svc))"
proof -
  from assms obtain ds dsa m where sim:
    "simulate_debt_dynamics year (state self) deficit (debt_model self)
       = Inr ((ds, dsa, svc), m)"
    and self': "self' = self\<lparr>debt_model := m,
        state := dict_set (dict_set (dict_set (state self) ''debt_stock'' (Dict ds))
                   ''dsa_results'' (Dict dsa)) ''debt_service_calculated'' (Dict svc)\<rparr>"
    by (auto simp: debt_section_def and_then_eq_Inr Let_def)
  from debt_outputs [OF sim] obtain a b c where
    ds: "ds = debt_stock_dict (debt_stock m)"
    and svc: "svc = calculate_debt_service year (state self) (debt_model self)"
    and dsa: "dsa = [(''debt_to_gdp'', Num a), (''debt_service_to_revenue'', Num b),
                     (''breached_threshold'', Bool c)]"
    by blast
  from sim have upd: "update_debt_stock year (state self) svc deficit (debt_model self) = Inr m"
    unfolding svc by (auto simp: simulate_debt_dynamics_def and_then_eq_Inr Let_def)
  have "map_of (state self') = (map_of (state self))
          (''debt_stock'' \<mapsto> Dict (debt_stock_dict (debt_stock (debt_model self'))),
           ''dsa_results'' \<mapsto> Dict [(''debt_to_gdp'', Num a),
                                        (''debt_service_to_revenue'', Num b),
                                        (''breached_threshold'', Bool c)],
           ''debt_service_calculated'' \<mapsto> Dict svc)"
    using self' ds dsa by simp
  moreover have "self' = self\<lparr>debt_model := debt_model self', state := state self'\<rparr>"
    using self' by simp
  moreover have "debt_model self' = m" using self' by simp
  ultimately show ?thesis using svc upd by blast
qed

lemma primary_deficit_section_effect:
  assumes "primary_deficit_section year deficit svc self = Inr self'"
  shows "self' = self\<lparr>state := state self'\<rparr>
     \<and> (\<exists>interest. as_num (dict_get svc ''total_interest_paid'' (Num 0)) = Inr interest
          \<and> map_of (state self') = (map_of (state self))
               (''primary_deficit'' \<mapsto> Num (deficit - interest)))"
  using assms
  by (auto simp: primary_deficit_section_def and_then_eq_Inr Let_def)

lemma policy_coordination_section_effect:
  assumes "policy_coordination_section year self = Inr self'"
  shows "self' = self\<lparr>policy_coord_model := policy_coord_model self', state := state self'\<rparr>
     \<and> 0.1 \<le> current_coordination_score (policy_coord_model self')
     \<and> current_coordination_score (policy_coord_model self') \<le> 0.9
     \<and> map_of (state self') = (map_of (state self))
          (''policy_coordination_state'' \<mapsto> Dict [(''coordination_score'',
               Num (current_coordination_score (policy_coord_model self')))])"
proof -
  from assms obtain c m where sim:
    "simulate_coordination year (state self) (policy_coord_model self) = Inr (c, m)"
    and self': "self' = self\<lparr>policy_coord_model := m,
        state := dict_set (state self) ''policy_coordination_state''
                   (Dict [(''coordination_score'', Num c)])\<rparr>"
    by (auto simp: policy_coordination_section_def and_then_eq_Inr Let_def)
  from coordination_outputs [OF sim] self' show ?thesis by simp
qed

lemma store_results_effect:
  assumes "store_results year self = Inr self'"
  shows "\<exists>e. results_for_year (state self) = Inr e
           \<and> self' = self\<lparr>results := AList.update year e (results self)\<rparr>"
  using assms by (auto simp: store_results_def and_then_eq_Inr)

lemma update_economic_state_effect:
  assumes "update_economic_state r year self = Inr self'"
  shows "self' = self\<lparr>normal_draws := Suc (normal_draws self), state := state self'\<rparr>
     \<and> (\<exists>es es' prev_gdp_v prev_gdp ci gg.
          map_of (state self) ''economic_state'' = Some (Dict es)
        \<and> map_of es ''gdp'' = Some prev_gdp_v \<and> as_num prev_gdp_v = Inr prev_gdp
        \<and> 0.01 \<le> ci \<and> ci \<le> 0.15
        \<and> map_of es' = (map_of es)
             (''gdp'' \<mapsto> Num (prev_gdp
                  * (1 + base_real_gdp_growth (simulation (config self))
                           * (1 + normal_stream r (normal_draws self)))
                  * (1 + ci)),
              ''gdp_growth'' \<mapsto> Num gg,
              ''real_gdp_growth'' \<mapsto> Num (base_real_gdp_growth (simulation (config self))
                           * (1 + normal_stream r (normal_draws self))),
              ''inflation_rate'' \<mapsto> Num ci)
        \<and> map_of (state self') = (map_of (state self))
             (''economic_state'' \<mapsto> Dict es', ''inflation'' \<mapsto> Num ci))"
proof -
  let ?rg = "base_real_gdp_growth (simulation (config self))
               * (1 + normal_stream r (normal_draws self))"
  from assms obtain es x where es: "dict_item (state self) ''economic_state'' = Inr es"
    and x: "val_get es ''real_gdp_growth''
              (Num (base_real_gdp_growth (simulation (config self)))) = Inr x"
    by (auto simp: update_economic_state_def and_then_eq_Inr Let_def)
  from x obtain d where d: "es = Dict d" by (cases es) auto
  from es d have es0: "map_of (state self) ''economic_state'' = Some (Dict d)"
    by (auto simp: dict_item_def split: option.splits)
  from assms es d obtain bi pv prev gg st1 st2 st3 st4 where
    ci: "bi = bi"
    and pv: "dict_item d ''gdp'' = Inr pv" and prev: "as_num pv = Inr prev"
    and s1: "item_set2 (state self) ''economic_state'' ''gdp''
               (Num (prev * (1 + ?rg) * (1 + max 0.01 (min 0.15 bi)))) = Inr st1"
    and s2: "item_set2 st1 ''economic_state'' ''gdp_growth'' (Num gg) = Inr st2"
    and s3: "item_set2 st2 ''economic_state'' ''real_gdp_growth'' (Num ?rg) = Inr st3"
    and s4: "item_set2 (dict_set st3 ''inflation'' (Num (max 0.01 (min 0.15 bi))))
               ''economic_state'' ''inflation_rate'' (Num (max 0.01 (min 0.15 bi))) = Inr st4"
    and self': "self' = self\<lparr>normal_draws := Suc (normal_draws self), state := st4\<rparr>"
    by (auto simp: update_economic_state_def and_then_eq_Inr Let_def)
  define ci where "ci = max 0.01 (min 0.15 bi)"
  have cib: "0.01 \<le> ci \<and> ci \<le> 0.15" unfolding ci_def by simp
  note s = s1 [folded ci_def] s2 s3 s4 [folded ci_def]
  from item_set2_effect [OF s(1)] es0 have m1:
    "map_of st1 = (map_of (state self))(''economic_state'' \<mapsto>
        Dict (dict_set d ''gdp'' (Num (prev * (1 + ?rg) * (1 + ci)))))"
    by auto
  from item_set2_effect [OF s(2)] m1 have m2:
    "map_of st2 = (map_of (state self))(''economic_state'' \<mapsto>
        Dict (dict_set (dict_set d ''gdp'' (Num (prev * (1 + ?rg) * (1 + ci))))
                ''gdp_growth'' (Num gg)))"
    by auto
  from item_set2_effect [OF s(3)] m2 have m3:
    "map_of st3 = (map_of (state self))(''economic_state'' \<mapsto>
        Dict (dict_set (dict_set (dict_set d ''gdp'' (Num (prev * (1 + ?rg) * (1 + ci))))
                ''gdp_growth'' (Num gg)) ''real_gdp_growth'' (Num ?rg)))"
    by auto
  define es' where "es' = dict_set (dict_set (dict_set (dict_set d ''gdp''
        (Num (prev * (1 + ?rg) * (1 + ci)))) ''gdp_growth'' (Num gg))
        ''real_gdp_growth'' (Num ?rg)) ''inflation_rate'' (Num ci)"
  from item_set2_effect [OF s(4)] m3 have m4:
    "map_of st4 = (map_of (state self))(''economic_state'' \<mapsto> Dict es',
                                         ''inflation'' \<mapsto> Num ci)"
    by (auto simp: es'_def fun_eq_iff)
  have e': "map_of es' = (map_of d)
             (''gdp'' \<mapsto> Num (prev * (1 + ?rg) * (1 + ci)),
              ''gdp_growth'' \<mapsto> Num gg,
              ''real_gdp_growth'' \<mapsto> Num ?rg,
              ''inflation_rate'' \<mapsto> Num ci)"
    by (simp add: es'_def)
  from pv have pv': "map_of d ''gdp'' = Some pv"
    by (auto simp: dict_item_def split: option.splits)
  have "self' = self\<lparr>normal_draws := Suc (normal_draws self), state := state self'\<rparr>"
    using self' by simp
  moreover have "state self' = st4" using self' by simp
  ultimately show ?thesis using es0 pv' prev cib e' m4 by blast
qed

section \<open>When a section of a year does not raise\<close>

text \<open>
  A section has not raised when its result is not an \<open>Inl\<close>. Each lemma names the
  keys of the shared state the section reads and what they must hold.
\<close>

lemmas reads = num2_def num1_def get2_def dict_get_def dict_item_def

lemma not_isl_and_then:
  "\<not> isl (and_then m f) \<longleftrightarrow> (\<exists>x. m = Inr x \<and> \<not> isl (f x))"
  by (cases m) simp_all

lemma not_isl_iff: "\<not> isl m \<longleftrightarrow> (\<exists>x. m = Inr x)"
  by (cases m) simp_all

lemma monetary_policy_section_succeeds:
  assumes "map_of (state self) ''inflation'' = Some (Num i)"
    and "2 \<le> length (target_inflation (monetary_policy_model self))"
  shows "\<not> isl (monetary_policy_section year self)"
proof -
  from assms(2) have "target_inflation (monetary_policy_model self) \<noteq> []"
    "Suc 0 < length (target_inflation (monetary_policy_model self))" by auto
  with assms(1) show ?thesis
    by (simp add: monetary_policy_section_def simulate_monetary_conditions_def
      adjust_policy_rate_def simulate_inflation_impact_def list_item_def reads Let_def)
qed

lemma project_flows_succeeds:
  assumes "map_of st ''economic_state'' = Some (Dict es)"
    and "map_of es ''gdp_growth'' = Some (Num gg)"
    and "map_of st ''governance_state'' = Some (Dict gs)"
    and "map_of gs ''governance_index'' = Some (Num gi)"
  shows "\<not> isl (project_flows r i year st m)"
  using assms by (simp add: project_flows_def reads Let_def split: option.splits)

lemma update_reserves_succeeds: "\<not> isl (update_reserves year m)"
  by (simp add: update_reserves_def py_div_def Let_def)

lemma simulate_external_sector_succeeds:
  assumes "map_of st ''economic_state'' = Some (Dict es)"
    and "map_of es ''gdp'' = Some (Num g)"
    and "map_of es ''gdp_growth'' = Some (Num gg)"
    and "map_of st ''governance_state'' = Some (Dict gs)"
    and "map_of gs ''governance_index'' = Some (Num gi)"
    and "ExternalSectorModel.initialized m \<or> 0 < g"
  shows "\<exists>out m'. simulate_external_sector r i year st m = Inr (Dict out, m', Suc i)"
proof -
  define s where "s = (if ExternalSectorModel.initialized m then m
                       else ExternalSector_initialize_state g m)"
  from project_flows_succeeds [OF assms(1,3,4,5), of r i year s]
  obtain p where p: "project_flows r i year st s = Inr p" by (auto simp: not_isl_iff)
  from update_reserves_succeeds [of year "calculate_bop year st p"]
  obtain mo q where q: "update_reserves year (calculate_bop year st p) = Inr (mo, q)"
    by (auto simp: not_isl_iff)
  have "simulate_external_sector r i year st m
        = and_then (project_flows r i year st s) (\<lambda>self.
            let self = calculate_bop year st self in
            and_then (update_reserves year self) (\<lambda>(months_of_imports, self).
            Inr (Dict [(''exports'', Num (exports self)),
                          (''imports'', Num (imports_flow self)),
                          (''remittances'', Num (remittances self)),
                          (''fdi'', Num (fdi self)),
                          (''current_account_balance'', Num (current_account_balance self)),
                          (''overall_bop'', Num (overall_bop self)),
                          (''fx_reserves'', Num (fx_reserves self)),
                          (''reserves_months_imports'', Num months_of_imports)],
                 self, Suc i)))"
    using assms(1,2,6) by (auto simp: simulate_external_sector_def s_def reads)
  with p q show ?thesis by simp
qed

lemma external_sector_section_succeeds:
  assumes "map_of (state self) ''economic_state'' = Some (Dict es)"
    and "map_of es ''gdp'' = Some (Num g)"
    and "map_of es ''gdp_growth'' = Some (Num gg)"
    and "map_of (state self) ''governance_state'' = Some (Dict gs)"
    and "map_of gs ''governance_index'' = Some (Num gi)"
    and "ExternalSectorModel.initialized (external_sector_model self) \<or> 0 < g"
  shows "\<not> isl (external_sector_section r year self)"
  using simulate_external_sector_succeeds [OF assms, of r "random_draws self" year]
  by (auto simp: external_sector_section_def Let_def)

lemma ff_steps_succeed:
  assumes "map_of st ''economic_state'' = Some (Dict es)"
    and "map_of es ''gdp'' = Some (Num g)"
    and "map_of es ''gdp_growth'' = Some (Num gg)"
    and "map_of st ''inflation'' = Some (Num i)"
    and "map_of st ''revenue_state'' = Some (Dict rs)"
    and "map_of rs ''final_revenue'' = Some (Num fr)"
  shows "\<not> isl (calculate_central_transfers year st m)"
    and "\<not> isl (simulate_subnational_revenue year st m)"
    and "\<not> isl (update_subnational_debt year st m)"
  using assms
  by (simp_all add: calculate_central_transfers_def simulate_subnational_revenue_def
      update_subnational_debt_def reads Let_def)

lemma simulate_fiscal_federalism_succeeds:
  assumes "map_of st ''economic_state'' = Some (Dict es)"
    and "map_of es ''gdp'' = Some (Num g)"
    and "map_of es ''gdp_growth'' = Some (Num gg)"
    and "map_of st ''inflation'' = Some (Num i)"
    and "map_of st ''revenue_state'' = Some (Dict rs)"
    and "map_of rs ''final_revenue'' = Some (Num fr)"
    and "FiscalFederalismModel.initialized m \<or> 0 < g"
  shows "\<exists>out m'. simulate_fiscal_federalism year st m = Inr (Dict out, m')"
proof -
  define s where "s = (if FiscalFederalismModel.initialized m then m
                       else FiscalFederalism_initialize_state g m)"
  note st = assms(1-6)
  from ff_steps_succeed(1) [OF st, of year s]
  obtain m1 where m1: "calculate_central_transfers year st s = Inr m1"
    by (auto simp: not_isl_iff)
  from ff_steps_succeed(2) [OF st, of year m1]
  obtain m2 where m2: "simulate_subnational_revenue year st m1 = Inr m2"
    by (auto simp: not_isl_iff)
  from ff_steps_succeed(3) [OF st, of year "simulate_subnational_spending year st m2"]
  obtain m3 where m3:
    "update_subnational_debt year st (simulate_subnational_spending year st m2) = Inr m3"
    by (auto simp: not_isl_iff)
  have "simulate_fiscal_federalism year st m
        = and_then (calculate_central_transfers year st s) (\<lambda>self.
            and_then (simulate_subnational_revenue year st self) (\<lambda>self.
            let self = simulate_subnational_spending year st self in
            and_then (update_subnational_debt year st self) (\<lambda>self.
            Inr (Dict [(''total_transfers'', Num (total_transfers self)),
                       (''total_subnational_own_revenue'',
                          Num (total_subnational_own_revenue self)),
                       (''total_subnational_spending'', Num (total_subnational_spending self)),
                       (''aggregate_subnational_debt'', Num (aggregate_subnational_debt self))],
                 self))))"
    using assms(1,2,7) by (auto simp: simulate_fiscal_federalism_def s_def reads)
  with m1 m2 m3 show ?thesis by simp
qed

lemma fiscal_federalism_section_succeeds:
  assumes "map_of (state self) ''economic_state'' = Some (Dict es)"
    and "map_of es ''gdp'' = Some (Num g)"
    and "map_of es ''gdp_growth'' = Some (Num gg)"
    and "map_of (state self) ''inflation'' = Some (Num i)"
    and "map_of (state self) ''revenue_state'' = Some (Dict rs)"
    and "map_of rs ''final_revenue'' = Some (Num fr)"
    and "FiscalFederalismModel.initialized (fiscal_federalism_model self) \<or> 0 < g"
  shows "\<not> isl (fiscal_federalism_section year (Num fr') self)"
proof -
  from simulate_fiscal_federalism_succeeds [OF assms, of year] obtain out m'
    where sim: "simulate_fiscal_federalism year (state self) (fiscal_federalism_model self)
                  = Inr (Dict out, m')" by blast
  from federalism_outputs [OF sim] have out:
    "out = [(''total_transfers'', Num (total_transfers m')),
            (''total_subnational_own_revenue'', Num (total_subnational_own_revenue m')),
            (''total_subnational_spending'', Num (total_subnational_spending m')),
            (''aggregate_subnational_debt'', Num (aggregate_subnational_debt m'))]"
    by simp
  show ?thesis
    using sim assms(5) unfolding out
    by (simp add: fiscal_federalism_section_def item_set2_def reads Let_def map_of_dict_update)
qed

lemma expenditure_section_succeeds:
  assumes "map_of (state self) ''final_revenue'' = Some (Num fr)"
    and "map_of (state self) ''governance_state'' = Some (Dict gs)"
    and "map_of gs ''pfm_effectiveness'' = None"
    and "map_of gs ''accountability_index'' = None"
    and "map_of gs ''governance_index'' = Some (Num gi)"
  shows "\<not> isl (expenditure_section year self)"
  using assms
  by (simp add: expenditure_section_def simulate_expenditure_def reads Let_def)

lemma update_economic_state_succeeds:
  assumes "map_of (state self) ''economic_state'' = Some (Dict es)"
    and "map_of es ''gdp'' = Some (Num g)"
    and "map_of (state self) ''inflation'' = Some (Num i)"
    and "map_of (state self) ''monetary_policy_state'' = Some (Dict mps)"
    and "map_of mps ''projected_inflation'' = None
         \<or> (\<exists>p. map_of mps ''projected_inflation'' = Some (Num p))"
  shows "\<not> isl (update_economic_state r year self)"
  using assms
  by (auto simp: update_economic_state_def reads item_set2_def dict_contains_def py_div_def
      Let_def)

lemma governance_section_succeeds:
  assumes "pfm (weights (governance_model self)) \<noteq> None"
    and "nbr (weights (governance_model self)) \<noteq> None"
    and "cb (weights (governance_model self)) \<noteq> None"
    and "ac (weights (governance_model self)) \<noteq> None"
    and "accountability (weights (governance_model self)) \<noteq> None"
  shows "\<not> isl (governance_section year self)"
  using assms
  by (auto simp: governance_section_def simulate_governance_evolution_def
      calculate_governance_index_def update_governance_areas_def cfg_item_def Let_def)

lemma supervision_section_succeeds:
  assumes "map_of (state self) ''governance_state'' = Some (Dict gs)"
    and "map_of gs ''central_bank_capacity'' = Some (Num c)"
    and "map_of (state self) ''npl_ratio'' = Some (Num n)"
  shows "\<not> isl (supervision_section year self)"
  using assms
  by (simp add: supervision_section_def simulate_supervision_effectiveness_def
      update_effectiveness_def reads Let_def)

lemma financial_sector_section_succeeds:
  assumes "map_of (state self) ''economic_state'' = Some (Dict es)"
    and "map_of es ''gdp_growth'' = Some (Num gg)"
    and "map_of (state self) ''supervision_effectiveness'' = Some (Num se)"
  shows "\<not> isl (financial_sector_section year self)"
  using assms
  by (simp add: financial_sector_section_def simulate_financial_system_def
      update_npls_def reads Let_def)

lemma development_finance_section_succeeds:
  assumes "map_of (state self) ''economic_state'' = Some (Dict es)"
    and "map_of es ''gdp'' = Some (Num g)"
    and "map_of es ''gdp_growth'' = Some (Num gg)"
    and "map_of (state self) ''governance_state'' = Some (Dict gs)"
    and "map_of gs ''governance_index'' = Some (Num gi)"
    and "map_of gs ''pfm_reform_level'' = Some (Num pl)"
    and "DevelopmentFinanceModel.initialized (dev_finance_model self) \<or> 0 < g"
  shows "\<not> isl (development_finance_section r year self)"
  using assms
  by (auto simp: development_finance_section_def simulate_development_finance_def
      simulate_flows_def reads Let_def)

lemma revenue_section_succeeds:
  assumes "map_of (state self) ''economic_state'' = Some (Dict es)"
    and "map_of es ''gdp'' = Some (Num g)"
    and "map_of es ''gdp_growth'' = Some (Num gg)"
    and "map_of es ''imports'' = None"
    and "map_of (state self) ''governance_state'' = Some (Dict gs)"
    and "map_of gs ''nbr_modernization_level'' = Some (Num nl)"
  shows "\<not> isl (revenue_section year self)"
  using assms
  by (auto simp: revenue_section_def project_revenue_def calculate_tax_potential_def
      update_internal_state_def reads Let_def)

lemma soe_section_succeeds:
  assumes "map_of (state self) ''economic_state'' = Some (Dict es)"
    and "map_of es ''gdp'' = Some (Num g)"
    and "map_of es ''gdp_growth'' = Some (Num gg)"
    and "map_of (state self) ''governance_state'' = Some (Dict gs)"
    and "map_of gs ''governance_index'' = Some (Num gi)"
  shows "\<not> isl (soe_section year self)"
  using assms
  by (auto simp: soe_section_def simulate_soe_sector_def update_financial_performance_def
      py_div_def reads Let_def case_prod_unfold)

lemma fiscal_aggregates_section_succeeds:
  assumes "map_of (state self) ''economic_state'' = Some (Dict es)"
    and "map_of es ''gdp'' = Some (Num g)"
  shows "\<not> isl (fiscal_aggregates_section year rfc dv rcs tn self)"
  using assms
  by (auto simp: fiscal_aggregates_section_def ratio_to_gdp_def py_div_def reads Let_def)

lemma debt_section_succeeds:
  assumes "map_of (state self) ''economic_state'' = Some (Dict es)"
    and "map_of es ''gdp'' = Some (Num g)"
    and "map_of (state self) ''total_revenue'' = None"
  shows "\<not> isl (debt_section year deficit self)"
  using assms
  by (auto simp: debt_section_def simulate_debt_dynamics_def calculate_debt_service_def
      update_debt_stock_def perform_dsa_def py_div_def reads Let_def)

lemma primary_deficit_section_succeeds:
  assumes "map_of (state self) ''economic_state'' = Some (Dict es)"
    and "map_of es ''gdp'' = Some (Num g)"
    and "svc = calculate_debt_service y st m"
  shows "\<not> isl (primary_deficit_section year deficit svc self)"
  using assms
  by (auto simp: primary_deficit_section_def calculate_debt_service_def ratio_to_gdp_def
      py_div_def reads Let_def)

lemma policy_coordination_section_succeeds:
  assumes "map_of (state self) ''economic_state'' = Some (Dict es)"
    and "map_of es ''gdp'' = Some (Num g)"
    and "map_of (state self) ''inflation'' = Some (Num i)"
    and "map_of (state self) ''deficit'' = Some (Num d)"
    and "map_of (state self) ''governance_index'' = Some (Num gi)"
  shows "\<not> isl (policy_coordination_section year self)"
  using assms
  by (auto simp: policy_coordination_section_def simulate_coordination_def
      assess_policy_conflict_def assess_institutional_framework_def py_div_def reads Let_def)

section \<open>A whole year\<close>

lemma year_trace:
  assumes "run_single_year r year self = Inr self'"
  obtains s1 s2 s3 s4 s5 s6 s7 s8 s9 s10 s11 s12 s13 s14 s15
      fv rfc rcs dv tn deficit svc
  where "update_economic_state r year self = Inr s1"
    and "governance_section year s1 = Inr s2"
    and "supervision_section year s2 = Inr s3"
    and "financial_sector_section year s3 = Inr s4"
    and "monetary_policy_section year s4 = Inr s5"
    and "external_sector_section r year s5 = Inr s6"
    and "development_finance_section r year s6 = Inr s7"
    and "revenue_section year s7 = Inr (fv, s8)"
    and "fiscal_federalism_section year fv s8 = Inr (rfc, s9)"
    and "expenditure_section year s9 = Inr (rcs, s10)"
    and "soe_section year s10 = Inr ((dv, tn), s11)"
    and "fiscal_aggregates_section year rfc dv rcs tn s11 = Inr (deficit, s12)"
    and "debt_section year deficit s12 = Inr (svc, s13)"
    and "primary_deficit_section year deficit svc s13 = Inr s14"
    and "policy_coordination_section year s14 = Inr s15"
    and "store_results year s15 = Inr self'"
  using assms
  by (auto simp: run_single_year_def and_then_eq_Inr)

lemma update_economic_state_fields:
  assumes "update_economic_state r year self = Inr self'"
  shows "\<exists>st. self' = self\<lparr>normal_draws := Suc (normal_draws self), state := st\<rparr>"
  using update_economic_state_effect [OF assms] by blast

lemma governance_section_fields:
  assumes "governance_section year self = Inr self'"
  shows "\<exists>m st. self' = self\<lparr>governance_model := m, state := st\<rparr>"
  using governance_section_effect [OF assms] by blast

lemma supervision_section_fields:
  assumes "supervision_section year self = Inr self'"
  shows "\<exists>m st. self' = self\<lparr>supervision_model := m, state := st\<rparr>"
  using supervision_section_effect [OF assms] by blast

lemma financial_sector_section_fields:
  assumes "financial_sector_section year self = Inr self'"
  shows "\<exists>m st. self' = self\<lparr>financial_sector_model := m, state := st\<rparr>"
  using financial_sector_section_effect [OF assms] by blast

lemma monetary_policy_section_fields:
  assumes "monetary_policy_section year self = Inr self'"
  shows "\<exists>m st. self' = self\<lparr>monetary_policy_model := m, state := st\<rparr>"
  using monetary_policy_section_effect [OF assms] by blast

lemma external_sector_section_fields:
  assumes "external_sector_section r year self = Inr self'"
  shows "\<exists>m st. self' = self\<lparr>external_sector_model := m,
                       random_draws := Suc (random_draws self), state := st\<rparr>"
  using external_sector_section_effect [OF assms] by blast

lemma development_finance_section_fields:
  assumes "development_finance_section r year self = Inr self'"
  shows "\<exists>m st. self' = self\<lparr>dev_finance_model := m,
                       random_draws := Suc (random_draws self), state := st\<rparr>"
  using development_finance_section_effect [OF assms] by blast

lemma revenue_section_fields:
  assumes "revenue_section year self = Inr (fv, self')"
  shows "\<exists>m st. self' = self\<lparr>revenue_model := m, state := st\<rparr>"
  using revenue_section_effect [OF assms] by blast

lemma fiscal_federalism_section_fields:
  assumes "fiscal_federalism_section year fv self = Inr (rfc, self')"
  shows "\<exists>m st. self' = self\<lparr>fiscal_federalism_model := m, state := st\<rparr>"
  using fiscal_federalism_section_effect [OF assms] by blast

lemma expenditure_section_fields:
  assumes "expenditure_section year self = Inr (rcs, self')"
  shows "\<exists>st. self' = self\<lparr>state := st\<rparr>"
  using expenditure_section_effect [OF assms] by blast

lemma soe_section_fields:
  assumes "soe_section year self = Inr ((dv, tn), self')"
  shows "\<exists>m st. self' = self\<lparr>soe_model := m, state := st\<rparr>"
  using soe_section_effect [OF assms] by blast

lemma fiscal_aggregates_section_fields:
  assumes "fiscal_aggregates_section year rfc dv rcs tn self = Inr (deficit, self')"
  shows "\<exists>st. self' = self\<lparr>state := st\<rparr>"
  using fiscal_aggregates_section_effect [OF assms] by blast

lemma debt_section_fields:
  assumes "debt_section year deficit self = Inr (svc, self')"
  shows "\<exists>m st. self' = self\<lparr>debt_model := m, state := st\<rparr>"
  using debt_section_effect [OF assms] by blast

lemma primary_deficit_section_fields:
  assumes "primary_deficit_section year deficit svc self = Inr self'"
  shows "\<exists>st. self' = self\<lparr>state := st\<rparr>"
  using primary_deficit_section_effect [OF assms] by blast

lemma policy_coordination_section_fields:
  assumes "policy_coordination_section year self = Inr self'"
  shows "\<exists>m st. self' = self\<lparr>policy_coord_model := m, state := st\<rparr>"
  using policy_coordination_section_effect [OF assms] by blast

text \<open>The simulation object after a year, as the object before with the changed fields.\<close>

lemma year_fields:
  assumes "run_single_year r year self = Inr self'"
  shows "\<exists>m2 m3 m4 m5 m6 m7 m8 m9 m11 m13 m15 st e.
     self' = self\<lparr>normal_draws := Suc (normal_draws self),
                   governance_model := m2, supervision_model := m3,
                   financial_sector_model := m4, monetary_policy_model := m5,
                   external_sector_model := m6, dev_finance_model := m7,
                   random_draws := Suc (Suc (random_draws self)),
                   revenue_model := m8, fiscal_federalism_model := m9, soe_model := m11,
                   debt_model := m13, policy_coord_model := m15, state := st,
                   results := AList.update year e (results self)\<rparr>"
proof -
  from assms obtain s1 s2 s3 s4 s5 s6 s7 s8 s9 s10 s11 s12 s13 s14 s15
      fv rfc rcs dv tn deficit svc
  where t: "update_economic_state r year self = Inr s1"
     "governance_section year s1 = Inr s2"
     "supervision_section year s2 = Inr s3"
     "financial_sector_section year s3 = Inr s4"
     "monetary_policy_section year s4 = Inr s5"
     "external_sector_section r year s5 = Inr s6"
     "development_finance_section r year s6 = Inr s7"
     "revenue_section year s7 = Inr (fv, s8)"
     "fiscal_federalism_section year fv s8 = Inr (rfc, s9)"
     "expenditure_section year s9 = Inr (rcs, s10)"
     "soe_section year s10 = Inr ((dv, tn), s11)"
     "fiscal_aggregates_section year rfc dv rcs tn s11 = Inr (deficit, s12)"
     "debt_section year deficit s12 = Inr (svc, s13)"
     "primary_deficit_section year deficit svc s13 = Inr s14"
     "policy_coordination_section year s14 = Inr s15"
     "store_results year s15 = Inr self'"
    by (rule year_trace)
  from update_economic_state_fields [OF t(1)] obtain st1 where
    e1: "s1 = self\<lparr>normal_draws := Suc (normal_draws self), state := st1\<rparr>" by blast
  from governance_section_fields [OF t(2)] obtain m2 st2 where
    e2: "s2 = s1\<lparr>governance_model := m2, state := st2\<rparr>" by blast
  from supervision_section_fields [OF t(3)] obtain m3 st3 where
    e3: "s3 = s2\<lparr>supervision_model := m3, state := st3\<rparr>" by blast
  from financial_sector_section_fields [OF t(4)] obtain m4 st4 where
    e4: "s4 = s3\<lparr>financial_sector_model := m4, state := st4\<rparr>" by blast
  from monetary_policy_section_fields [OF t(5)] obtain m5 st5 where
    e5: "s5 = s4\<lparr>monetary_policy_model := m5, state := st5\<rparr>" by blast
  from external_sector_section_fields [OF t(6)] obtain m6 st6 where
    e6: "s6 = s5\<lparr>external_sector_model := m6, random_draws := Suc (random_draws s5),
                    state := st6\<rparr>" by blast
  from development_finance_section_fields [OF t(7)] obtain m7 st7 where
    e7: "s7 = s6\<lparr>dev_finance_model := m7, random_draws := Suc (random_draws s6),
                    state := st7\<rparr>" by blast
  from revenue_section_fields [OF t(8)] obtain m8 st8 where
    e8: "s8 = s7\<lparr>revenue_model := m8, state := st8\<rparr>" by blast
  from fiscal_federalism_section_fields [OF t(9)] obtain m9 st9 where
    e9: "s9 = s8\<lparr>fiscal_federalism_model := m9, state := st9\<rparr>" by blast
  from expenditure_section_fields [OF t(10)] obtain st10 where
    e10: "s10 = s9\<lparr>state := st10\<rparr>" by blast
  from soe_section_fields [OF t(11)] obtain m11 st11 where
    e11: "s11 = s10\<lparr>soe_model := m11, state := st11\<rparr>" by blast
  from fiscal_aggregates_section_fields [OF t(12)] obtain st12 where
    e12: "s12 = s11\<lparr>state := st12\<rparr>" by blast
  from debt_section_fields [OF t(13)] obtain m13 st13 where
    e13: "s13 = s12\<lparr>debt_model := m13, state := st13\<rparr>" by blast
  from primary_deficit_section_fields [OF t(14)] obtain st14 where
    e14: "s14 = s13\<lparr>state := st14\<rparr>" by blast
  from policy_coordination_section_fields [OF t(15)] obtain m15 st15 where
    e15: "s15 = s14\<lparr>policy_coord_model := m15, state := st15\<rparr>" by blast
  from store_results_effect [OF t(16)] obtain e where
    e16: "self' = s15\<lparr>results := AList.update year e (results s15)\<rparr>" by blast
  have "self' = self\<lparr>normal_draws := Suc (normal_draws self),
                   governance_model := m2, supervision_model := m3,
                   financial_sector_model := m4, monetary_policy_model := m5,
                   external_sector_model := m6, dev_finance_model := m7,
                   random_draws := Suc (Suc (random_draws self)),
                   revenue_model := m8, fiscal_federalism_model := m9, soe_model := m11,
                   debt_model := m13, policy_coord_model := m15, state := st15,
                   results := AList.update year e (results self)\<rparr>"
    unfolding e16 e15 e14 e13 e12 e11 e10 e9 e8 e7 e6 e5 e4 e3 e2 e1 by simp
  then show ?thesis by blast
qed

lemma calculate_debt_service_state:
  "calculate_debt_service year st m = calculate_debt_service year st' m"
  by (simp add: calculate_debt_service_def)

lemma update_debt_stock_state:
  "update_debt_stock year st svc d m = update_debt_stock year st' svc d m"
  by (simp add: update_debt_stock_def)

text \<open>
  The shared state after a year that did not raise: the state before the year with every
  key the sixteen steps wrote, in the order of the writes.
\<close>

lemma year_state:
  assumes "run_single_year r year self = Inr self'"
  shows "\<exists>es es' prev_gdp_v prev_gdp ci gg stab pr pj ex im re fd cab bop months
           fr sor ssp sde x y eff dv tn sdebt deficit dsa1 dsa2 dsa3 interest.
       map_of (state self) ''economic_state'' = Some (Dict es)
     \<and> map_of es ''gdp'' = Some prev_gdp_v \<and> as_num prev_gdp_v = Inr prev_gdp
     \<and> 0.01 \<le> ci \<and> ci \<le> 0.15
     \<and> map_of es' = (map_of es)
          (''gdp'' \<mapsto> Num (prev_gdp
               * (1 + base_real_gdp_growth (simulation (config self))
                        * (1 + normal_stream r (normal_draws self)))
               * (1 + ci)),
           ''gdp_growth'' \<mapsto> Num gg,
           ''real_gdp_growth'' \<mapsto> Num (base_real_gdp_growth (simulation (config self))
                        * (1 + normal_stream r (normal_draws self))),
           ''inflation_rate'' \<mapsto> Num ci)
     \<and> 0 \<le> sdebt
     \<and> deficit = total_expenditure_inc_soe (0 + x + y) tn
                 - total_revenue_inc_soe
                     (fr - total_transfers (fiscal_federalism_model self')) dv
     \<and> as_num (dict_get (calculate_debt_service year (state self) (debt_model self))
                 ''total_interest_paid'' (Num 0)) = Inr interest
     \<and> update_debt_stock year (state self)
           (calculate_debt_service year (state self) (debt_model self)) deficit
           (debt_model self) = Inr (debt_model self')
     \<and> map_of (state self') = (map_of (state self))
          (''economic_state'' \<mapsto> Dict es', ''inflation'' \<mapsto> Num ci,
           ''governance_state'' \<mapsto> Dict
             [(''governance_index'', Num (governance_index (governance_model self'))),
              (''pfm_reform_level'', Num (pfm_reform_level (governance_model self'))),
              (''nbr_modernization_level'', Num (nbr_capacity_level (governance_model self'))),
              (''central_bank_capacity'', Num (central_bank_capacity (governance_model self'))),
              (''anti_corruption_effectiveness'',
                 Num (anti_corruption_effectiveness (governance_model self'))),
              (''accountability_score'', Num (accountability_score (governance_model self')))],
           ''governance_index'' \<mapsto> Num (governance_index (governance_model self')),
           ''pfm_reform_level'' \<mapsto> Num (pfm_reform_level (governance_model self')),
           ''nbr_modernization_level'' \<mapsto> Num (nbr_capacity_level (governance_model self')),
           ''central_bank_capacity'' \<mapsto> Num (central_bank_capacity (governance_model self')),
           ''anti_corruption_effectiveness'' \<mapsto>
              Num (anti_corruption_effectiveness (governance_model self')),
           ''accountability_score'' \<mapsto> Num (accountability_score (governance_model self')),
           ''supervision_state'' \<mapsto> Dict [(''supervision_effectiveness'',
               Num (current_effectiveness (supervision_model self')))],
           ''supervision_effectiveness'' \<mapsto>
               Num (current_effectiveness (supervision_model self')),
           ''financial_sector_state'' \<mapsto> Dict
             [(''npl_ratio'', Num (npl_ratio (financial_sector_model self'))),
              (''capital_adequacy_ratio'',
                 Num (capital_adequacy_ratio (financial_sector_model self'))),
              (''stability_index'', Num stab)],
           ''npl_ratio'' \<mapsto> Num (npl_ratio (financial_sector_model self')),
           ''capital_adequacy_ratio'' \<mapsto>
              Num (capital_adequacy_ratio (financial_sector_model self')),
           ''stability_index'' \<mapsto> Num stab,
           ''monetary_policy_state'' \<mapsto>
             Dict [(''policy_rate'', Num pr), (''projected_inflation'', Num pj)],
           ''policy_rate'' \<mapsto> Num pr, ''projected_inflation'' \<mapsto> Num pj,
           ''external_sector_state'' \<mapsto> Dict
             [(''exports'', Num ex), (''imports'', Num im),
              (''remittances'', Num re), (''fdi'', Num fd),
              (''current_account_balance'', Num cab), (''overall_bop'', Num bop),
              (''fx_reserves'', Num (fx_reserves (external_sector_model self'))),
              (''reserves_months_imports'', Num months)],
           ''exports'' \<mapsto> Num ex, ''imports'' \<mapsto> Num im, ''remittances'' \<mapsto> Num re,
           ''fdi'' \<mapsto> Num fd, ''current_account_balance'' \<mapsto> Num cab,
           ''overall_bop'' \<mapsto> Num bop,
           ''fx_reserves'' \<mapsto> Num (fx_reserves (external_sector_model self')),
           ''reserves_months_imports'' \<mapsto> Num months,
           ''dev_finance_state'' \<mapsto> Dict
             [(''grant_aid'', Num (grant_aid (dev_finance_model self'))),
              (''dfi_net_lending'', Num (dfi_net_lending (dev_finance_model self')))],
           ''grant_aid'' \<mapsto> Num (grant_aid (dev_finance_model self')),
           ''dfi_net_lending'' \<mapsto> Num (dfi_net_lending (dev_finance_model self')),
           ''revenue_state'' \<mapsto> Dict [(''final_revenue'', Num fr)],
           ''final_revenue'' \<mapsto> Num fr,
           ''fiscal_federalism_state'' \<mapsto> Dict
             [(''total_transfers'', Num (total_transfers (fiscal_federalism_model self'))),
              (''total_subnational_own_revenue'', Num sor),
              (''total_subnational_spending'', Num ssp),
              (''aggregate_subnational_debt'', Num sde)],
           ''total_transfers'' \<mapsto> Num (total_transfers (fiscal_federalism_model self')),
           ''total_subnational_own_revenue'' \<mapsto> Num sor,
           ''total_subnational_spending'' \<mapsto> Num ssp,
           ''aggregate_subnational_debt'' \<mapsto> Num sde,
           ''revenue_state'' \<mapsto> Dict
             [(''final_revenue'', Num fr),
              (''revenue_for_central_gov'',
                 Num (fr - total_transfers (fiscal_federalism_model self')))],
           ''expenditure_state'' \<mapsto> Dict
             [(''actual_spending'',
                 Dict [(''development'', Num x), (''non_development'', Num y)]),
              (''expenditure_efficiency'', Num eff)],
           ''actual_spending'' \<mapsto>
              Dict [(''development'', Num x), (''non_development'', Num y)],
           ''expenditure_efficiency'' \<mapsto> Num eff,
           ''soe_state'' \<mapsto> Dict [(''dividends'', Num dv), (''transfers_needed'', Num tn),
                                     (''debt'', Num sdebt)],
           ''soe_debt_stock'' \<mapsto> Num sdebt,
           ''deficit'' \<mapsto> Num deficit,
           ''debt_stock'' \<mapsto> Dict (debt_stock_dict (debt_stock (debt_model self'))),
           ''dsa_results'' \<mapsto> Dict [(''debt_to_gdp'', Num dsa1),
                                        (''debt_service_to_revenue'', Num dsa2),
                                        (''breached_threshold'', Bool dsa3)],
           ''debt_service_calculated'' \<mapsto>
              Dict (calculate_debt_service year (state self) (debt_model self)),
           ''primary_deficit'' \<mapsto> Num (deficit - interest),
           ''policy_coordination_state'' \<mapsto> Dict [(''coordination_score'',
               Num (current_coordination_score (policy_coord_model self')))])"
proof -
  from assms obtain s1 s2 s3 s4 s5 s6 s7 s8 s9 s10 s11 s12 s13 s14 s15
      fv rfc rcs dv tn deficit svc
  where t: "update_economic_state r year self = Inr s1"
     "governance_section year s1 = Inr s2"
     "supervision_section year s2 = Inr s3"
     "financial_sector_section year s3 = Inr s4"
     "monetary_policy_section year s4 = Inr s5"
     "external_sector_section r year s5 = Inr s6"
     "development_finance_section r year s6 = Inr s7"
     "revenue_section year s7 = Inr (fv, s8)"
     "fiscal_federalism_section year fv s8 = Inr (rfc, s9)"
     "expenditure_section year s9 = Inr (rcs, s10)"
     "soe_section year s10 = Inr ((dv, tn), s11)"
     "fiscal_aggregates_section year rfc dv rcs tn s11 = Inr (deficit, s12)"
     "debt_section year deficit s12 = Inr (svc, s13)"
     "primary_deficit_section year deficit svc s13 = Inr s14"
     "policy_coordination_section year s14 = Inr s15"
     "store_results year s15 = Inr self'"
    by (rule year_trace)
  \<comment> \<open>the fields of the intermediate objects\<close>
  from update_economic_state_fields [OF t(1)] obtain st1 where
    e1: "s1 = self\<lparr>normal_draws := Suc (normal_draws self), state := st1\<rparr>" by blast
  from governance_section_fields [OF t(2)] obtain m2 st2 where
    e2: "s2 = s1\<lparr>governance_model := m2, state := st2\<rparr>" by blast
  from supervision_section_fields [OF t(3)] obtain m3 st3 where
    e3: "s3 = s2\<lparr>supervision_model := m3, state := st3\<rparr>" by blast
  from financial_sector_section_fields [OF t(4)] obtain m4 st4 where
    e4: "s4 = s3\<lparr>financial_sector_model := m4, state := st4\<rparr>" by blast
  from monetary_policy_section_fields [OF t(5)] obtain m5 st5 where
    e5: "s5 = s4\<lparr>monetary_policy_model := m5, state := st5\<rparr>" by blast
  from external_sector_section_fields [OF t(6)] obtain m6 st6 where
    e6: "s6 = s5\<lparr>external_sector_model := m6, random_draws := Suc (random_draws s5),
                    state := st6\<rparr>" by blast
  from development_finance_section_fields [OF t(7)] obtain m7 st7 where
    e7: "s7 = s6\<lparr>dev_finance_model := m7, random_draws := Suc (random_draws s6),
                    state := st7\<rparr>" by blast
  from revenue_section_fields [OF t(8)] obtain m8 st8 where
    e8: "s8 = s7\<lparr>revenue_model := m8, state := st8\<rparr>" by blast
  from fiscal_federalism_section_fields [OF t(9)] obtain m9 st9 where
    e9: "s9 = s8\<lparr>fiscal_federalism_model := m9, state := st9\<rparr>" by blast
  from expenditure_section_fields [OF t(10)] obtain st10 where
    e10: "s10 = s9\<lparr>state := st10\<rparr>" by blast
  from soe_section_fields [OF t(11)] obtain m11 st11 where
    e11: "s11 = s10\<lparr>soe_model := m11, state := st11\<rparr>" by blast
  from fiscal_aggregates_section_fields [OF t(12)] obtain st12 where
    e12: "s12 = s11\<lparr>state := st12\<rparr>" by blast
  from debt_section_fields [OF t(13)] obtain m13 st13 where
    e13: "s13 = s12\<lparr>debt_model := m13, state := st13\<rparr>" by blast
  from primary_deficit_section_fields [OF t(14)] obtain st14 where
    e14: "s14 = s13\<lparr>state := st14\<rparr>" by blast
  from policy_coordination_section_fields [OF t(15)] obtain m15 st15 where
    e15: "s15 = s14\<lparr>policy_coord_model := m15, state := st15\<rparr>" by blast
  from store_results_effect [OF t(16)] obtain e where
    e16: "self' = s15\<lparr>results := AList.update year e (results s15)\<rparr>" by blast
  note es = e16 e15 e14 e13 e12 e11 e10 e9 e8 e7 e6 e5 e4 e3 e2 e1
  have models:
    "governance_model s2 = governance_model self'"
    "supervision_model s3 = supervision_model self'"
    "financial_sector_model s4 = financial_sector_model self'"
    "external_sector_model s6 = external_sector_model self'"
    "dev_finance_model s7 = dev_finance_model self'"
    "fiscal_federalism_model s9 = fiscal_federalism_model self'"
    "debt_model s13 = debt_model self'"
    "policy_coord_model s15 = policy_coord_model self'"
    "debt_model s12 = debt_model self"
    "state self' = state s15"
    unfolding es by simp_all
  \<comment> \<open>what each step wrote\<close>
  from update_economic_state_effect [OF t(1)] obtain es0 es' prev_gdp_v prev_gdp ci gg where
    a1: "map_of (state self) ''economic_state'' = Some (Dict es0)"
      "map_of es0 ''gdp'' = Some prev_gdp_v" "as_num prev_gdp_v = Inr prev_gdp"
      "0.01 \<le> ci" "ci \<le> 0.15"
      "map_of es' = (map_of es0)
          (''gdp'' \<mapsto> Num (prev_gdp
               * (1 + base_real_gdp_growth (simulation (config self))
                        * (1 + normal_stream r (normal_draws self)))
               * (1 + ci)),
           ''gdp_growth'' \<mapsto> Num gg,
           ''real_gdp_growth'' \<mapsto> Num (base_real_gdp_growth (simulation (config self))
                        * (1 + normal_stream r (normal_draws self))),
           ''inflation_rate'' \<mapsto> Num ci)"
    and w1: "map_of (state s1) = (map_of (state self))
             (''economic_state'' \<mapsto> Dict es', ''inflation'' \<mapsto> Num ci)"
    by blast
  note w2 = governance_section_effect [OF t(2), THEN conjunct2, THEN conjunct2,
      unfolded models]
  note w3 = supervision_section_effect [OF t(3), THEN conjunct2, unfolded models]
  from financial_sector_section_effect [OF t(4)] obtain stab where
    w4: "map_of (state s4) = (map_of (state s3))
          (''financial_sector_state'' \<mapsto> Dict
             [(''npl_ratio'', Num (npl_ratio (financial_sector_model s4))),
              (''capital_adequacy_ratio'',
                 Num (capital_adequacy_ratio (financial_sector_model s4))),
              (''stability_index'', Num stab)],
           ''npl_ratio'' \<mapsto> Num (npl_ratio (financial_sector_model s4)),
           ''capital_adequacy_ratio'' \<mapsto>
              Num (capital_adequacy_ratio (financial_sector_model s4)),
           ''stability_index'' \<mapsto> Num stab)"
    by blast
  from monetary_policy_section_effect [OF t(5)] obtain pr pj where
    w5: "map_of (state s5) = (map_of (state s4))
          (''monetary_policy_state'' \<mapsto>
             Dict [(''policy_rate'', Num pr), (''projected_inflation'', Num pj)],
           ''policy_rate'' \<mapsto> Num pr, ''projected_inflation'' \<mapsto> Num pj)"
    by blast
  from external_sector_section_effect [OF t(6)] obtain ex im re fd cab bop months where
    w6: "map_of (state s6) = (map_of (state s5))
          (''external_sector_state'' \<mapsto> Dict
             [(''exports'', Num ex), (''imports'', Num im),
              (''remittances'', Num re), (''fdi'', Num fd),
              (''current_account_balance'', Num cab), (''overall_bop'', Num bop),
              (''fx_reserves'', Num (fx_reserves (external_sector_model s6))),
              (''reserves_months_imports'', Num months)],
           ''exports'' \<mapsto> Num ex, ''imports'' \<mapsto> Num im, ''remittances'' \<mapsto> Num re,
           ''fdi'' \<mapsto> Num fd, ''current_account_balance'' \<mapsto> Num cab,
           ''overall_bop'' \<mapsto> Num bop,
           ''fx_reserves'' \<mapsto> Num (fx_reserves (external_sector_model s6)),
           ''reserves_months_imports'' \<mapsto> Num months)"
    by blast
  note w7 = development_finance_section_effect [OF t(7), THEN conjunct2, THEN conjunct2,
      unfolded models]
  from revenue_section_effect [OF t(8)] obtain fr where fv: "fv = Num fr"
    and w8: "map_of (state s8) = (map_of (state s7))
          (''revenue_state'' \<mapsto> Dict [(''final_revenue'', Num fr)],
           ''final_revenue'' \<mapsto> Num fr)"
    by blast
  from fiscal_federalism_section_effect [OF t(9)] obtain fr' rs sor ssp sde where
    a9: "as_num fv = Inr fr'" "rfc = fr' - total_transfers (fiscal_federalism_model s9)"
      "map_of (state s8) ''revenue_state'' = Some (Dict rs)"
    and w9: "map_of (state s9) = (map_of (state s8))
          (''fiscal_federalism_state'' \<mapsto> Dict
             [(''total_transfers'', Num (total_transfers (fiscal_federalism_model s9))),
              (''total_subnational_own_revenue'', Num sor),
              (''total_subnational_spending'', Num ssp),
              (''aggregate_subnational_debt'', Num sde)],
           ''total_transfers'' \<mapsto> Num (total_transfers (fiscal_federalism_model s9)),
           ''total_subnational_own_revenue'' \<mapsto> Num sor,
           ''total_subnational_spending'' \<mapsto> Num ssp,
           ''aggregate_subnational_debt'' \<mapsto> Num sde,
           ''revenue_state'' \<mapsto> Dict (dict_set rs ''revenue_for_central_gov''
              (Num (fr' - total_transfers (fiscal_federalism_model s9)))))"
    by blast
  from a9(1) fv have fr': "fr' = fr" by simp
  from a9(3) w8 have rs: "rs = [(''final_revenue'', Num fr)]" by simp
  have rs': "dict_set rs ''revenue_for_central_gov'' v
             = [(''final_revenue'', Num fr), (''revenue_for_central_gov'', v)]" for v
    by (simp add: rs dict_set_def)
  from expenditure_section_effect [OF t(10)] obtain x y eff where
    rcs: "rcs = 0 + x + y"
    and w10: "map_of (state s10) = (map_of (state s9))
          (''expenditure_state'' \<mapsto> Dict
             [(''actual_spending'',
                 Dict [(''development'', Num x), (''non_development'', Num y)]),
              (''expenditure_efficiency'', Num eff)],
           ''actual_spending'' \<mapsto>
              Dict [(''development'', Num x), (''non_development'', Num y)],
           ''expenditure_efficiency'' \<mapsto> Num eff)"
    by blast
  from soe_section_effect [OF t(11)] obtain sdebt where sdebt: "0 \<le> sdebt"
    and w11: "map_of (state s11) = (map_of (state s10))
          (''soe_state'' \<mapsto> Dict [(''dividends'', Num dv), (''transfers_needed'', Num tn),
                                     (''debt'', Num sdebt)],
           ''soe_debt_stock'' \<mapsto> Num sdebt)"
    by blast
  from fiscal_aggregates_section_effect [OF t(12)] have
    deficit: "deficit = total_expenditure_inc_soe rcs tn - total_revenue_inc_soe rfc dv"
    and w12: "map_of (state s12) = (map_of (state s11))(''deficit'' \<mapsto> Num deficit)"
    by simp_all
  from debt_section_effect [OF t(13)] obtain dsa1 dsa2 dsa3 where
    svc: "svc = calculate_debt_service year (state s12) (debt_model s12)"
    and upd: "update_debt_stock year (state s12) svc deficit (debt_model s12)
              = Inr (debt_model s13)"
    and w13: "map_of (state s13) = (map_of (state s12))
          (''debt_stock'' \<mapsto> Dict (debt_stock_dict (debt_stock (debt_model s13))),
           ''dsa_results'' \<mapsto> Dict [(''debt_to_gdp'', Num dsa1),
                                        (''debt_service_to_revenue'', Num dsa2),
                                        (''breached_threshold'', Bool dsa3)],
           ''debt_service_calculated'' \<mapsto> Dict svc)"
    by blast
  have svc': "svc = calculate_debt_service year (state self) (debt_model self)"
    unfolding svc models by (rule calculate_debt_service_state)
  have upd': "update_debt_stock year (state self)
           (calculate_debt_service year (state self) (debt_model self)) deficit
           (debt_model self) = Inr (debt_model self')"
    using upd unfolding svc' models
    by (simp add: update_debt_stock_state [of year "state s12" _ _ _ "state self"])
  from primary_deficit_section_effect [OF t(14)] obtain interest where
    interest: "as_num (dict_get svc ''total_interest_paid'' (Num 0)) = Inr interest"
    and w14: "map_of (state s14) = (map_of (state s13))
               (''primary_deficit'' \<mapsto> Num (deficit - interest))"
    by blast
  note w15 = policy_coordination_section_effect [OF t(15), THEN conjunct2, THEN conjunct2,
      THEN conjunct2, unfolded models]
  have final: "map_of (state self') = (map_of (state self))
          (''economic_state'' \<mapsto> Dict es', ''inflation'' \<mapsto> Num ci,
           ''governance_state'' \<mapsto> Dict
             [(''governance_index'', Num (governance_index (governance_model self'))),
              (''pfm_reform_level'', Num (pfm_reform_level (governance_model self'))),
              (''nbr_modernization_level'', Num (nbr_capacity_level (governance_model self'))),
              (''central_bank_capacity'', Num (central_bank_capacity (governance_model self'))),
              (''anti_corruption_effectiveness'',
                 Num (anti_corruption_effectiveness (governance_model self'))),
              (''accountability_score'', Num (accountability_score (governance_model self')))],
           ''governance_index'' \<mapsto> Num (governance_index (governance_model self')),
           ''pfm_reform_level'' \<mapsto> Num (pfm_reform_level (governance_model self')),
           ''nbr_modernization_level'' \<mapsto> Num (nbr_capacity_level (governance_model self')),
           ''central_bank_capacity'' \<mapsto> Num (central_bank_capacity (governance_model self')),
           ''anti_corruption_effectiveness'' \<mapsto>
              Num (anti_corruption_effectiveness (governance_model self')),
           ''accountability_score'' \<mapsto> Num (accountability_score (governance_model self')),
           ''supervision_state'' \<mapsto> Dict [(''supervision_effectiveness'',
               Num (current_effectiveness (supervision_model self')))],
           ''supervision_effectiveness'' \<mapsto>
               Num (current_effectiveness (supervision_model self')),
           ''financial_sector_state'' \<mapsto> Dict
             [(''npl_ratio'', Num (npl_ratio (financial_sector_model self'))),
              (''capital_adequacy_ratio'',
                 Num (capital_adequacy_ratio (financial_sector_model self'))),
              (''stability_index'', Num stab)],
           ''npl_ratio'' \<mapsto> Num (npl_ratio (financial_sector_model self')),
           ''capital_adequacy_ratio'' \<mapsto>
              Num (capital_adequacy_ratio (financial_sector_model self')),
           ''stability_index'' \<mapsto> Num stab,
           ''monetary_policy_state'' \<mapsto>
             Dict [(''policy_rate'', Num pr), (''projected_inflation'', Num pj)],
           ''policy_rate'' \<mapsto> Num pr, ''projected_inflation'' \<mapsto> Num pj,
           ''external_sector_state'' \<mapsto> Dict
             [(''exports'', Num ex), (''imports'', Num im),
              (''remittances'', Num re), (''fdi'', Num fd),
              (''current_account_balance'', Num cab), (''overall_bop'', Num bop),
              (''fx_reserves'', Num (fx_reserves (external_sector_model self'))),
              (''reserves_months_imports'', Num months)],
           ''exports'' \<mapsto> Num ex, ''imports'' \<mapsto> Num im, ''remittances'' \<mapsto> Num re,
           ''fdi'' \<mapsto> Num fd, ''current_account_balance'' \<mapsto> Num cab,
           ''overall_bop'' \<mapsto> Num bop,
           ''fx_reserves'' \<mapsto> Num (fx_reserves (external_sector_model self')),
           ''reserves_months_imports'' \<mapsto> Num months,
           ''dev_finance_state'' \<mapsto> Dict
             [(''grant_aid'', Num (grant_aid (dev_finance_model self'))),
              (''dfi_net_lending'', Num (dfi_net_lending (dev_finance_model self')))],
           ''grant_aid'' \<mapsto> Num (grant_aid (dev_finance_model self')),
           ''dfi_net_lending'' \<mapsto> Num (dfi_net_lending (dev_finance_model self')),
           ''revenue_state'' \<mapsto> Dict [(''final_revenue'', Num fr)],
           ''final_revenue'' \<mapsto> Num fr,
           ''fiscal_federalism_state'' \<mapsto> Dict
             [(''total_transfers'', Num (total_transfers (fiscal_federalism_model self'))),
              (''total_subnational_own_revenue'', Num sor),
              (''total_subnational_spending'', Num ssp),
              (''aggregate_subnational_debt'', Num sde)],
           ''total_transfers'' \<mapsto> Num (total_transfers (fiscal_federalism_model self')),
           ''total_subnational_own_revenue'' \<mapsto> Num sor,
           ''total_subnational_spending'' \<mapsto> Num ssp,
           ''aggregate_subnational_debt'' \<mapsto> Num sde,
           ''revenue_state'' \<mapsto> Dict
             [(''final_revenue'', Num fr),
              (''revenue_for_central_gov'',
                 Num (fr - total_transfers (fiscal_federalism_model self')))],
           ''expenditure_state'' \<mapsto> Dict
             [(''actual_spending'',
                 Dict [(''development'', Num x), (''non_development'', Num y)]),
              (''expenditure_efficiency'', Num eff)],
           ''actual_spending'' \<mapsto>
              Dict [(''development'', Num x), (''non_development'', Num y)],
           ''expenditure_efficiency'' \<mapsto> Num eff,
           ''soe_state'' \<mapsto> Dict [(''dividends'', Num dv), (''transfers_needed'', Num tn),
                                     (''debt'', Num sdebt)],
           ''soe_debt_stock'' \<mapsto> Num sdebt,
           ''deficit'' \<mapsto> Num deficit,
           ''debt_stock'' \<mapsto> Dict (debt_stock_dict (debt_stock (debt_model self'))),
           ''dsa_results'' \<mapsto> Dict [(''debt_to_gdp'', Num dsa1),
                                        (''debt_service_to_revenue'', Num dsa2),
                                        (''breached_threshold'', Bool dsa3)],
           ''debt_service_calculated'' \<mapsto>
              Dict (calculate_debt_service year (state self) (debt_model self)),
           ''primary_deficit'' \<mapsto> Num (deficit - interest),
           ''policy_coordination_state'' \<mapsto> Dict [(''coordination_score'',
               Num (current_coordination_score (policy_coord_model self')))])"
    unfolding models(10) w15 w14 w13 w12 w11 w10 w9 rs' fr' w8 w7
      w6 [unfolded models] w5 w4 [unfolded models] w3 w2 w1 svc' [symmetric] models
    by (simp only: svc')
  have d: "deficit = total_expenditure_inc_soe (0 + x + y) tn
                 - total_revenue_inc_soe
                     (fr - total_transfers (fiscal_federalism_model self')) dv"
    using deficit rcs a9(2) fr' models by simp
  note i = interest [unfolded svc']
  show ?thesis
    by (intro exI conjI)
      (rule a1(1) a1(2) a1(3) a1(4) a1(5) a1(6) sdebt d i upd' final)+
qed

end
